theory Spec2Isabelle
  imports Main "HOL-Library.Word"
begin

unbundle bit_operations_syntax


section \<open>Bytes, statuses and faults\<close>

type_synonym byte = "8 word"
type_synonym bytes = "byte list"

text \<open>The status codes of \<open>common::Status\<close> that the table format code produces.
  A corruption carries its message, as in the source.\<close>

datatype Status =
    OK
  | Corruption string
  | IOError string
  | MemoryLimit
  | Incomplete
  | NotFound
  | NotSupported

definition ok :: "Status \<Rightarrow> bool" where
  "ok s = (s = OK)"

definition IsIncomplete :: "Status \<Rightarrow> bool" where
  "IsIncomplete s = (s = Incomplete)"

definition IsCorruption :: "Status \<Rightarrow> bool" where
  "IsCorruption s = (case s of Corruption m \<Rightarrow> True | _ \<Rightarrow> False)"

text \<open>Ways in which a call does not return to its caller: a failed \<open>assert\<close>
  (in a build with assertions), a call of \<open>abort()\<close>, behaviour the language leaves
  undefined, and a loop that has not ended within the number of iterations the model was
  given.\<close>

datatype fault = AssertionFailed | ProcessAbort | UndefinedBehaviour | StillRunning

text \<open>\<open>assert(c)\<close> followed by \<open>k\<close>. The flag \<open>nd\<close> is \<open>NDEBUG\<close>: with it the
  assertion is compiled out.\<close>

definition assert_then :: "bool \<Rightarrow> bool \<Rightarrow> fault + 'a \<Rightarrow> fault + 'a" where
  "assert_then nd c k = (if nd \<or> c then k else Inl AssertionFailed)"

text \<open>Sequencing of calls that may not return.\<close>

definition bindF :: "fault + 'a \<Rightarrow> ('a \<Rightarrow> fault + 'b) \<Rightarrow> fault + 'b" where
  "bindF m k = (case m of Inl e \<Rightarrow> Inl e | Inr x \<Rightarrow> k x)"

section \<open>Integer coding\<close>

text \<open>Modelled from the spec: \<open>util/coding.h\<close> (PutFixed32, PutFixed64, DecodeFixed32,
  GetFixed32, GetFixed64, PutVarint64Varint64, GetVarint32, GetVarint64) is not among the
  sources. The spec says a block handle is "variable-length-integer encoded" and the footer
  fields are fixed-width; the definitions below are the little-endian fixed-width coding and
  the base-128 varint coding (seven payload bits per byte, high bit set on every byte but the
  last, at most ten bytes for 64 bits and five for 32 bits).\<close>

definition PutFixed32 :: "32 word \<Rightarrow> bytes" where
  "PutFixed32 v = [ucast v, ucast (drop_bit 8 v), ucast (drop_bit 16 v), ucast (drop_bit 24 v)]"

definition PutFixed64 :: "64 word \<Rightarrow> bytes" where
  "PutFixed64 v = [ucast v, ucast (drop_bit 8 v), ucast (drop_bit 16 v), ucast (drop_bit 24 v),
     ucast (drop_bit 32 v), ucast (drop_bit 40 v), ucast (drop_bit 48 v), ucast (drop_bit 56 v)]"

text \<open>Reading four bytes at a pointer; \<open>None\<close> when fewer than four bytes are there
  (an out-of-bounds read in the source).\<close>

fun DecodeFixed32 :: "bytes \<Rightarrow> 32 word option" where
  "DecodeFixed32 (b0 # b1 # b2 # b3 # rest) =
     Some (ucast b0 OR push_bit 8 (ucast b1) OR push_bit 16 (ucast b2) OR push_bit 24 (ucast b3))"
| "DecodeFixed32 _ = None"

fun DecodeFixed64 :: "bytes \<Rightarrow> 64 word option" where
  "DecodeFixed64 (b0 # b1 # b2 # b3 # b4 # b5 # b6 # b7 # rest) =
     Some (ucast b0 OR push_bit 8 (ucast b1) OR push_bit 16 (ucast b2) OR push_bit 24 (ucast b3)
        OR push_bit 32 (ucast b4) OR push_bit 40 (ucast b5) OR push_bit 48 (ucast b6)
        OR push_bit 56 (ucast b7))"
| "DecodeFixed64 _ = None"

text \<open>\<open>GetFixed32(input, &value)\<close>: \<open>None\<close> is the result \<open>false\<close>, which leaves input
  and value as they were; otherwise the value and the advanced input.\<close>

definition GetFixed32 :: "bytes \<Rightarrow> (32 word \<times> bytes) option" where
  "GetFixed32 input = (case DecodeFixed32 input of None \<Rightarrow> None
                       | Some v \<Rightarrow> Some (v, drop 4 input))"

definition GetFixed64 :: "bytes \<Rightarrow> (64 word \<times> bytes) option" where
  "GetFixed64 input = (case DecodeFixed64 input of None \<Rightarrow> None
                       | Some v \<Rightarrow> Some (v, drop 8 input))"

function EncodeVarint64 :: "64 word \<Rightarrow> bytes" where
  "EncodeVarint64 v =
     (if v < 128 then [ucast v]
      else (ucast (v AND 127) OR 128) # EncodeVarint64 (drop_bit 7 v))"
  by pat_completeness auto
termination
proof (relation "measure unat")
  show "wf (measure unat)" by simp
next
  fix v :: "64 word"
  assume "\<not> v < 128"
  then have "128 \<le> unat v" by (simp add: word_less_nat_alt not_less)
  then have "unat v div 128 < unat v" by simp
  then show "(drop_bit 7 v, v) \<in> measure unat"
    by (simp add: drop_bit_eq_div unat_div)
qed

definition PutVarint64Varint64 :: "64 word \<Rightarrow> 64 word \<Rightarrow> bytes" where
  "PutVarint64Varint64 v1 v2 = EncodeVarint64 v1 @ EncodeVarint64 v2"

text \<open>The loop of \<open>GetVarint64Ptr\<close>: \<open>for (shift = 0; shift <= 63 && p < limit; shift += 7)\<close>.\<close>

function GetVarint64Ptr :: "nat \<Rightarrow> 64 word \<Rightarrow> bytes \<Rightarrow> (64 word \<times> bytes) option" where
  "GetVarint64Ptr shift result p =
     (if shift \<le> 63 \<and> p \<noteq> [] then
        (let byte = (ucast (hd p) :: 64 word) in
         if byte AND 128 \<noteq> 0
         then GetVarint64Ptr (shift + 7) (result OR push_bit shift (byte AND 127)) (tl p)
         else Some (result OR push_bit shift byte, tl p))
      else None)"
  by pat_completeness auto
termination
  by (relation "measure (\<lambda>(shift, result, p). length p)") auto

definition GetVarint64 :: "bytes \<Rightarrow> (64 word \<times> bytes) option" where
  "GetVarint64 input = GetVarint64Ptr 0 0 input"

text \<open>The loop of \<open>GetVarint32Ptrfallback\<close>: \<open>for (shift = 0; shift <= 28 && p < limit; shift += 7)\<close>.\<close>

function GetVarint32Ptr :: "nat \<Rightarrow> 32 word \<Rightarrow> bytes \<Rightarrow> (32 word \<times> bytes) option" where
  "GetVarint32Ptr shift result p =
     (if shift \<le> 28 \<and> p \<noteq> [] then
        (let byte = (ucast (hd p) :: 32 word) in
         if byte AND 128 \<noteq> 0
         then GetVarint32Ptr (shift + 7) (result OR push_bit shift (byte AND 127)) (tl p)
         else Some (result OR push_bit shift byte, tl p))
      else None)"
  by pat_completeness auto
termination
  by (relation "measure (\<lambda>(shift, result, p). length p)") auto

definition GetVarint32 :: "bytes \<Rightarrow> (32 word \<times> bytes) option" where
  "GetVarint32 input = GetVarint32Ptr 0 0 input"

declare EncodeVarint64.simps [simp del] GetVarint64Ptr.simps [simp del]
  GetVarint32Ptr.simps [simp del]

text \<open>What "a complete varint64" means for a byte sequence, said without the decoder:
  the run of leading bytes with the high bit set is shorter than ten bytes and is followed
  by a byte without it. A truncated varint fails the second condition, a stray high bit in
  the tenth byte the first.\<close>

definition has_more :: "byte \<Rightarrow> bool" where
  "has_more b = bit b 7"

definition varint64_complete :: "bytes \<Rightarrow> bool" where
  "varint64_complete p =
     (let k = length (takeWhile has_more p) in k < 10 \<and> k < length p)"

definition after_varint64 :: "bytes \<Rightarrow> bytes" where
  "after_varint64 p = drop (length (takeWhile has_more p) + 1) p"

definition two_varint64s :: "bytes \<Rightarrow> bool" where
  "two_varint64s p = (varint64_complete p \<and> varint64_complete (after_varint64 p))"

section \<open>Block handles\<close>

record BlockHandle =
  handle_offset :: "64 word"
  handle_size :: "64 word"

definition kNullBlockHandle :: BlockHandle where
  "kNullBlockHandle = \<lparr>handle_offset = 0, handle_size = 0\<rparr>"

text \<open>Modelled from the spec: the default constructor of \<open>BlockHandle\<close> is in
  \<open>table/format.h\<close>, which is not among the sources. The spec speaks of a handle "left at
  its uninitialized sentinel value"; \<open>BlockHandle::EncodeTo\<close> below asserts that neither
  field is \<open>~0\<close>, so that is the sentinel.\<close>

definition BlockHandle_uninitialized :: BlockHandle where
  "BlockHandle_uninitialized = \<lparr>handle_offset = NOT 0, handle_size = NOT 0\<rparr>"

text \<open>\<open>BlockHandle::EncodeTo\<close> appends to \<open>dst\<close>; the model returns the appended bytes.\<close>

definition BlockHandle_EncodeTo :: "bool \<Rightarrow> BlockHandle \<Rightarrow> fault + bytes" where
  "BlockHandle_EncodeTo nd h =
     assert_then nd (handle_offset h \<noteq> NOT 0)
       (assert_then nd (handle_size h \<noteq> NOT 0)
          (Inr (PutVarint64Varint64 (handle_offset h) (handle_size h))))"

text \<open>\<open>BlockHandle::DecodeFrom\<close>: the status, the handle and the input afterwards.\<close>

definition BlockHandle_DecodeFrom :: "BlockHandle \<Rightarrow> bytes \<Rightarrow> Status \<times> BlockHandle \<times> bytes" where
  "BlockHandle_DecodeFrom h input =
     (case GetVarint64 input of
        None \<Rightarrow> (Corruption ''bad block handle'', h\<lparr>handle_offset := 0, handle_size := 0\<rparr>, input)
      | Some (off, input1) \<Rightarrow>
          (case GetVarint64 input1 of
             None \<Rightarrow> (Corruption ''bad block handle'', h\<lparr>handle_offset := 0, handle_size := 0\<rparr>, input1)
           | Some (sz, input2) \<Rightarrow> (OK, h\<lparr>handle_offset := off, handle_size := sz\<rparr>, input2)))"

section \<open>Footer\<close>

text \<open>Modelled from the spec: \<open>enum ChecksumType : char\<close> is declared in a header that is
  not among the sources. The footer stores the checksum type in one byte and
  \<open>Footer::DecodeFrom\<close> casts whatever number it reads to the enum, so the type is a byte here;
  the three named values are the ones the source switches on.\<close>

type_synonym ChecksumType = byte

definition kNoChecksum :: ChecksumType where "kNoChecksum = 0"
definition kCRC32c :: ChecksumType where "kCRC32c = 1"
definition kxxHash :: ChecksumType where "kxxHash = 2"

definition kBlockBasedTableMagicNumber :: "64 word" where
  "kBlockBasedTableMagicNumber = 0x88e241b785f4cff7"

definition kLegacyBlockBasedTableMagicNumber :: "64 word" where
  "kLegacyBlockBasedTableMagicNumber = 0xdb4775248b80fb57"

text \<open>The constants that \<open>format.cc\<close> uses and that are defined elsewhere: the three magic
  numbers it declares \<open>extern\<close>, and the length of the extent footer. They are parameters
  of the model.\<close>

record FormatConstants =
  kExtentBasedTableMagicNumber :: "64 word"
  kLegacyPlainTableMagicNumber :: "64 word"
  kPlainTableMagicNumber :: "64 word"
  kVersion3EncodedLength :: nat

text \<open>Modelled from the spec: the other lengths of \<open>table/format.h\<close>. The layout comment
  above \<open>Footer::EncodeTo\<close> pads the two handles to \<open>2 * BlockHandle::kMaxEncodedLength\<close>
  bytes, and the assertions at the end of each branch fix the footer lengths from there;
  a block handle is two varint64s of at most ten bytes each.\<close>

definition BlockHandle_kMaxEncodedLength :: nat where
  "BlockHandle_kMaxEncodedLength = 10 + 10"

definition kVersion0EncodedLength :: nat where
  "kVersion0EncodedLength = 2 * BlockHandle_kMaxEncodedLength + 8"

definition kNewVersionsEncodedLength :: nat where
  "kNewVersionsEncodedLength = 1 + 2 * BlockHandle_kMaxEncodedLength + 4 + 8"

definition kMinEncodedLength :: nat where
  "kMinEncodedLength = kVersion0EncodedLength"

definition kMagicNumberLengthByte :: nat where
  "kMagicNumberLengthByte = 8"

definition kInvalidTableMagicNumber :: "64 word" where
  "kInvalidTableMagicNumber = 0"

record Footer =
  version :: "32 word"
  valid_size :: "32 word"
  next_extent :: "64 word"
  checksum :: ChecksumType
  metaindex_handle :: BlockHandle
  index_handle :: BlockHandle
  table_magic_number :: "64 word"

definition HasInitializedTableMagicNumber :: "Footer \<Rightarrow> bool" where
  "HasInitializedTableMagicNumber f = (table_magic_number f \<noteq> kInvalidTableMagicNumber)"

definition IsLegacyFooterFormat :: "FormatConstants \<Rightarrow> 64 word \<Rightarrow> bool" where
  "IsLegacyFooterFormat c magic_number =
     (magic_number = kLegacyBlockBasedTableMagicNumber \<or>
      magic_number = kLegacyPlainTableMagicNumber c)"

definition UpconvertLegacyFooterFormat :: "bool \<Rightarrow> FormatConstants \<Rightarrow> 64 word \<Rightarrow> fault + 64 word" where
  "UpconvertLegacyFooterFormat nd c magic_number =
     (if magic_number = kLegacyBlockBasedTableMagicNumber then Inr kBlockBasedTableMagicNumber
      else if magic_number = kLegacyPlainTableMagicNumber c then Inr (kPlainTableMagicNumber c)
      else assert_then nd False (Inr 0))"

text \<open>\<open>std::string::resize\<close>: cut, or fill with zero bytes.\<close>

definition resize :: "bytes \<Rightarrow> nat \<Rightarrow> bytes" where
  "resize s n = take n s @ replicate (n - length s) 0"

text \<open>The two words of a magic number, as \<open>PutFixed32\<close> writes them.\<close>

definition PutMagic :: "64 word \<Rightarrow> bytes" where
  "PutMagic m = PutFixed32 (ucast (m AND 0xffffffff)) @ PutFixed32 (ucast (drop_bit 32 m))"

text \<open>\<open>Footer::EncodeTo\<close> appends to \<open>dst\<close>; the model returns the appended bytes, so
  \<open>original_size\<close> is 0. The subtraction \<open>kVersion3EncodedLength - 12\<close> is on \<open>size_t\<close>.\<close>

definition Footer_EncodeTo :: "bool \<Rightarrow> FormatConstants \<Rightarrow> Footer \<Rightarrow> fault + bytes" where
  "Footer_EncodeTo nd c f =
     assert_then nd (HasInitializedTableMagicNumber f)
      (if IsLegacyFooterFormat c (table_magic_number f) then
         assert_then nd (checksum f = kCRC32c)
          (bindF (BlockHandle_EncodeTo nd (metaindex_handle f)) (\<lambda>mi.
           bindF (BlockHandle_EncodeTo nd (index_handle f)) (\<lambda>ix.
             (let dst = resize (mi @ ix) (2 * BlockHandle_kMaxEncodedLength)
                          @ PutMagic (table_magic_number f)
              in assert_then nd (length dst = kVersion0EncodedLength) (Inr dst)))))
       else if table_magic_number f = kBlockBasedTableMagicNumber then
          bindF (BlockHandle_EncodeTo nd (metaindex_handle f)) (\<lambda>mi.
          bindF (BlockHandle_EncodeTo nd (index_handle f)) (\<lambda>ix.
            (let dst = resize ([checksum f] @ mi @ ix) (kNewVersionsEncodedLength - 12)
                         @ PutFixed32 (version f) @ PutMagic (table_magic_number f)
             in assert_then nd (length dst = kNewVersionsEncodedLength) (Inr dst))))
       else
          bindF (BlockHandle_EncodeTo nd (metaindex_handle f)) (\<lambda>mi.
          bindF (BlockHandle_EncodeTo nd (index_handle f)) (\<lambda>ix.
            (if kVersion3EncodedLength c < 12 then Inl UndefinedBehaviour
             else
               (let dst = resize (PutFixed32 (valid_size f) @ PutFixed64 (next_extent f)
                                    @ [checksum f] @ mi @ ix) (kVersion3EncodedLength c - 12)
                            @ PutFixed32 (version f) @ PutMagic (table_magic_number f)
                in assert_then nd (length dst = kVersion3EncodedLength c) (Inr dst))))))"

text \<open>The two constructors of \<open>Footer\<close> that take a magic number. Handles start
  uninitialized; the fields the first constructor does not mention are set to 0 here.\<close>

definition Footer_new :: "bool \<Rightarrow> FormatConstants \<Rightarrow> 64 word \<Rightarrow> 32 word \<Rightarrow> fault + Footer" where
  "Footer_new nd c magic ver =
     assert_then nd (\<not> IsLegacyFooterFormat c magic \<or> ver = 0)
       (Inr \<lparr>version = ver, valid_size = 0, next_extent = 0, checksum = kCRC32c,
             metaindex_handle = BlockHandle_uninitialized,
             index_handle = BlockHandle_uninitialized,
             table_magic_number = magic\<rparr>)"

definition Footer_new_extent ::
  "bool \<Rightarrow> FormatConstants \<Rightarrow> 64 word \<Rightarrow> 32 word \<Rightarrow> 64 word \<Rightarrow> 32 word \<Rightarrow> fault + Footer" where
  "Footer_new_extent nd c magic vsize next ver =
     assert_then nd (\<not> IsLegacyFooterFormat c magic \<or> ver = 0)
       (Inr \<lparr>version = ver, valid_size = vsize, next_extent = next, checksum = kCRC32c,
             metaindex_handle = BlockHandle_uninitialized,
             index_handle = BlockHandle_uninitialized,
             table_magic_number = magic\<rparr>)"

text \<open>Modelled from the spec: the default constructor \<open>Footer()\<close> is in \<open>table/format.h\<close>;
  it is the footer one decodes into, whose magic number is not yet initialized.\<close>

definition Footer_empty :: Footer where
  "Footer_empty = \<lparr>version = 0, valid_size = 0, next_extent = 0, checksum = kCRC32c,
                    metaindex_handle = BlockHandle_uninitialized,
                    index_handle = BlockHandle_uninitialized,
                    table_magic_number = kInvalidTableMagicNumber\<rparr>"

text \<open>Reading a fixed32 at \<open>input.data() + pos\<close>, where \<open>pos\<close> may point before the
  data or too close to its end.\<close>

definition DecodeFixed32_at :: "bytes \<Rightarrow> int \<Rightarrow> fault + 32 word" where
  "DecodeFixed32_at input pos =
     (if pos < 0 then Inl UndefinedBehaviour
      else case DecodeFixed32 (drop (nat pos) input) of
             None \<Rightarrow> Inl UndefinedBehaviour
           | Some v \<Rightarrow> Inr v)"

text \<open>The common end of \<open>Footer::DecodeFrom\<close>: the two handles, then the input is moved to
  the end of the footer.\<close>

definition Footer_decode_handles :: "Footer \<Rightarrow> bytes \<Rightarrow> Status \<times> Footer \<times> bytes" where
  "Footer_decode_handles f input =
     (case BlockHandle_DecodeFrom (metaindex_handle f) input of
        (result, mh, input1) \<Rightarrow>
          (if ok result then
             (case BlockHandle_DecodeFrom (index_handle f) input1 of
                (result2, ih, input2) \<Rightarrow>
                  (result2, f\<lparr>metaindex_handle := mh, index_handle := ih\<rparr>,
                   if ok result2 then [] else input2))
           else (result, f\<lparr>metaindex_handle := mh\<rparr>, input1)))"

text \<open>\<open>Footer::DecodeFrom\<close>: a fault, or the status, the footer and the input afterwards.\<close>

definition Footer_DecodeFrom ::
  "bool \<Rightarrow> FormatConstants \<Rightarrow> Footer \<Rightarrow> bytes \<Rightarrow> fault + (Status \<times> Footer \<times> bytes)" where
  "Footer_DecodeFrom nd c f input =
     assert_then nd (\<not> HasInitializedTableMagicNumber f)
      (assert_then nd (kMinEncodedLength \<le> length input)
       (let magic_ptr = int (length input) - int kMagicNumberLengthByte in
        bindF (DecodeFixed32_at input magic_ptr) (\<lambda>magic_lo.
        bindF (DecodeFixed32_at input (magic_ptr + 4)) (\<lambda>magic_hi.
        (let magic0 = push_bit 32 (ucast magic_hi) OR (ucast magic_lo :: 64 word);
             legacy = IsLegacyFooterFormat c magic0
         in
         bindF (if legacy then UpconvertLegacyFooterFormat nd c magic0 else Inr magic0) (\<lambda>magic.
         (let f1 = f\<lparr>table_magic_number := magic\<rparr> in
          if legacy then
            (if length input < kVersion0EncodedLength then Inl UndefinedBehaviour
             else Inr (Footer_decode_handles (f1\<lparr>version := 0, checksum := kCRC32c\<rparr>)
                         (drop (length input - kVersion0EncodedLength) input)))
          else if magic = kBlockBasedTableMagicNumber then
            bindF (DecodeFixed32_at input (magic_ptr - 4)) (\<lambda>ver.
            (let f2 = f1\<lparr>version := ver\<rparr> in
             if length input < kNewVersionsEncodedLength then
               Inr (Corruption ''input is too short to be an sstable'', f2, input)
             else
               (let input1 = drop (length input - kNewVersionsEncodedLength) input in
                case GetVarint32 input1 of
                  None \<Rightarrow> Inr (Corruption ''bad checksum type'', f2, input1)
                | Some (chksum, input2) \<Rightarrow>
                    Inr (Footer_decode_handles (f2\<lparr>checksum := ucast chksum\<rparr>) input2))))
          else if magic = kExtentBasedTableMagicNumber c then
            bindF (DecodeFixed32_at input (magic_ptr - 4)) (\<lambda>ver.
            (let f2 = f1\<lparr>version := ver\<rparr> in
             if length input < kVersion3EncodedLength c then
               Inr (Corruption ''input is too short to be an extent sstable'', f2, input)
             else
               (let input1 = drop (length input - kVersion3EncodedLength c) input;
                    (f3, input2) = (case GetFixed32 input1 of
                                      None \<Rightarrow> (f2, input1)
                                    | Some (v, rest) \<Rightarrow> (f2\<lparr>valid_size := v\<rparr>, rest));
                    (f4, input3) = (case GetFixed64 input2 of
                                      None \<Rightarrow> (f3, input2)
                                    | Some (v, rest) \<Rightarrow> (f3\<lparr>next_extent := v\<rparr>, rest))
                in
                case GetVarint32 input3 of
                  None \<Rightarrow> Inr (Corruption ''bad checksum type'', f4, input3)
                | Some (chksum, input4) \<Rightarrow>
                    Inr (Footer_decode_handles (f4\<lparr>checksum := ucast chksum\<rparr>) input4))))
          else Inl ProcessAbort)))))))"

subsection \<open>What the round trip is stated about\<close>

text \<open>The magic numbers are pairwise different and none is the invalid one; the extent
  footer has room for its fields.\<close>

definition FormatConstants_ok :: "FormatConstants \<Rightarrow> bool" where
  "FormatConstants_ok c =
     (distinct [kInvalidTableMagicNumber, kLegacyBlockBasedTableMagicNumber,
                kBlockBasedTableMagicNumber, kLegacyPlainTableMagicNumber c,
                kPlainTableMagicNumber c, kExtentBasedTableMagicNumber c]
      \<and> 4 + 8 + 1 + 2 * BlockHandle_kMaxEncodedLength + 4 + 8 \<le> kVersion3EncodedLength c)"

definition BlockHandle_initialized :: "BlockHandle \<Rightarrow> bool" where
  "BlockHandle_initialized h = (handle_offset h \<noteq> NOT 0 \<and> handle_size h \<noteq> NOT 0)"

text \<open>A footer that can be written: its magic number is one of the layouts' (a legacy
  one, the block-based one, the extent one), its checksum type is one of the enum's values,
  its handles are set, and a legacy footer has version 0 and CRC32c, as the constructor and
  \<open>EncodeTo\<close> assert.\<close>

definition Footer_valid :: "FormatConstants \<Rightarrow> Footer \<Rightarrow> bool" where
  "Footer_valid c f =
     ((IsLegacyFooterFormat c (table_magic_number f)
        \<or> table_magic_number f = kBlockBasedTableMagicNumber
        \<or> table_magic_number f = kExtentBasedTableMagicNumber c)
      \<and> (checksum f = kNoChecksum \<or> checksum f = kCRC32c \<or> checksum f = kxxHash)
      \<and> BlockHandle_initialized (metaindex_handle f)
      \<and> BlockHandle_initialized (index_handle f)
      \<and> (if IsLegacyFooterFormat c (table_magic_number f)
          then version f = 0 \<and> checksum f = kCRC32c else True))"

text \<open>The magic number a reader sees: a legacy one is upgraded.\<close>

definition canonical_magic :: "FormatConstants \<Rightarrow> 64 word \<Rightarrow> 64 word" where
  "canonical_magic c m =
     (if m = kLegacyBlockBasedTableMagicNumber then kBlockBasedTableMagicNumber
      else if m = kLegacyPlainTableMagicNumber c then kPlainTableMagicNumber c
      else m)"

definition Footer_same_fields :: "FormatConstants \<Rightarrow> Footer \<Rightarrow> Footer \<Rightarrow> bool" where
  "Footer_same_fields c f f' =
     (table_magic_number f' = canonical_magic c (table_magic_number f)
      \<and> version f' = version f
      \<and> checksum f' = checksum f
      \<and> metaindex_handle f' = metaindex_handle f
      \<and> index_handle f' = index_handle f
      \<and> (if table_magic_number f = kExtentBasedTableMagicNumber c
          then valid_size f' = valid_size f \<and> next_extent f' = next_extent f
          else True))"

text \<open>A choice of the parameters for the examples: the plain-table magic numbers, a magic
  number for the extent layout, and the extent footer with no padding beyond the handles'.\<close>

definition example_constants :: FormatConstants where
  "example_constants =
     \<lparr>kExtentBasedTableMagicNumber = 0x0123456789abcdef,
      kLegacyPlainTableMagicNumber = 0x4f3418eb7a8f13b8,
      kPlainTableMagicNumber = 0x8242229663bf9564,
      kVersion3EncodedLength = 65\<rparr>"


section \<open>The partitioned index builder\<close>

text \<open>Modelled from the spec: \<open>BlockBuilder\<close> (\<open>table/block_builder.h\<close>) is not among
  the sources. It "accumulates sorted entries into one logical block"; \<open>Finish()\<close>
  serializes them and \<open>Reset()\<close> empties the builder. The model keeps the entries added;
  the serialization is a parameter (\<open>BlockBuilder_Finish\<close> below).\<close>

record BlockBuilder =
  added :: "(bytes \<times> bytes) list"

definition BlockBuilder_new :: BlockBuilder where
  "BlockBuilder_new = \<lparr>added = []\<rparr>"

definition BlockBuilder_Add :: "BlockBuilder \<Rightarrow> bytes \<Rightarrow> bytes \<Rightarrow> BlockBuilder" where
  "BlockBuilder_Add b k v = b\<lparr>added := added b @ [(k, v)]\<rparr>"

definition BlockBuilder_empty :: "BlockBuilder \<Rightarrow> bool" where
  "BlockBuilder_empty b = (added b = [])"

definition BlockBuilder_Reset :: "BlockBuilder \<Rightarrow> BlockBuilder" where
  "BlockBuilder_Reset b = b\<lparr>added := []\<rparr>"

text \<open>The collaborators of the index builders whose code is elsewhere: the comparator's
  key shortening, the flush policy's decision (a function of the block being built and of
  the entry about to be added), and the serialization of a block.\<close>

record IndexEnv =
  FindShortestSeparator :: "bytes \<Rightarrow> bytes \<Rightarrow> bytes"
  FindShortSuccessor :: "bytes \<Rightarrow> bytes"
  flush_policy_Update :: "BlockBuilder \<Rightarrow> bytes \<Rightarrow> bytes \<Rightarrow> bool"
  BlockBuilder_Finish :: "BlockBuilder \<Rightarrow> bytes"
  BlockBuilder_CurrentSizeEstimate :: "BlockBuilder \<Rightarrow> nat"

text \<open>\<open>IndexBuilder::IndexBlocks\<close>: the index block and the meta blocks by name.\<close>

record IndexBlocks =
  index_block_contents :: bytes
  meta_blocks :: "(string \<times> bytes) list"

definition IndexBlocks_new :: IndexBlocks where
  "IndexBlocks_new = \<lparr>index_block_contents = [], meta_blocks = []\<rparr>"

text \<open>Modelled from the spec: \<open>ShortenedIndexBuilder\<close> (\<open>table/index_builder.h\<close>) is not
  among the sources. It is the flat strategy, which "appends (shortened_separator, handle)
  directly to one growing index block"; its \<open>Finish\<close> hands out that block and returns OK.
  \<open>AddIndexEntry\<close> also writes the shortened key back through its first argument.\<close>

record ShortenedIndexBuilder =
  shortened_block_builder :: BlockBuilder

definition ShortenedIndexBuilder_new :: ShortenedIndexBuilder where
  "ShortenedIndexBuilder_new = \<lparr>shortened_block_builder = BlockBuilder_new\<rparr>"

definition ShortenedIndexBuilder_AddIndexEntry ::
  "bool \<Rightarrow> IndexEnv \<Rightarrow> ShortenedIndexBuilder \<Rightarrow> bytes \<Rightarrow> bytes option \<Rightarrow> BlockHandle
     \<Rightarrow> fault + (ShortenedIndexBuilder \<times> bytes)" where
  "ShortenedIndexBuilder_AddIndexEntry nd env b last_key_in_current_block
       first_key_in_next_block block_handle =
     (let key = (case first_key_in_next_block of
                   Some next \<Rightarrow> FindShortestSeparator env last_key_in_current_block next
                 | None \<Rightarrow> FindShortSuccessor env last_key_in_current_block)
      in bindF (BlockHandle_EncodeTo nd block_handle) (\<lambda>handle_encoding.
           Inr (b\<lparr>shortened_block_builder :=
                    BlockBuilder_Add (shortened_block_builder b) key handle_encoding\<rparr>, key)))"


definition ShortenedIndexBuilder_EstimatedSize :: "IndexEnv \<Rightarrow> ShortenedIndexBuilder \<Rightarrow> nat" where
  "ShortenedIndexBuilder_EstimatedSize env b =
     BlockBuilder_CurrentSizeEstimate env (shortened_block_builder b)"

text \<open>\<open>PartitionedIndexBuilder\<close>. An entry of \<open>entries_\<close> is a key and the sealed
  sub-index builder; \<open>sub_index_builder_\<close> is a pointer that may be null. The flush policy
  object is recreated with every sub-index builder and looks at that builder's block only,
  so it needs no field of its own.\<close>

record PartitionedIndexBuilder =
  entries :: "(bytes \<times> ShortenedIndexBuilder) list"
  index_block_builder :: BlockBuilder
  sub_index_builder :: "ShortenedIndexBuilder option"
  finishing_indexes :: bool
  sub_index_last_key :: bytes
  cut_filter_block :: bool

definition PartitionedIndexBuilder_new :: PartitionedIndexBuilder where
  "PartitionedIndexBuilder_new =
     \<lparr>entries = [], index_block_builder = BlockBuilder_new, sub_index_builder = None,
      finishing_indexes = False, sub_index_last_key = [], cut_filter_block = False\<rparr>"

definition MakeNewSubIndexBuilder ::
  "bool \<Rightarrow> PartitionedIndexBuilder \<Rightarrow> fault + PartitionedIndexBuilder" where
  "MakeNewSubIndexBuilder nd p =
     assert_then nd (sub_index_builder p = None)
       (Inr (p\<lparr>sub_index_builder := Some ShortenedIndexBuilder_new\<rparr>))"

text \<open>\<open>PartitionedIndexBuilder::AddIndexEntry\<close>; the second component of the result is
  the last key as the sub-index builder left it.\<close>

definition PartitionedIndexBuilder_AddIndexEntry ::
  "bool \<Rightarrow> IndexEnv \<Rightarrow> PartitionedIndexBuilder \<Rightarrow> bytes \<Rightarrow> bytes option \<Rightarrow> BlockHandle
     \<Rightarrow> fault + (PartitionedIndexBuilder \<times> bytes)" where
  "PartitionedIndexBuilder_AddIndexEntry nd env p last_key_in_current_block
       first_key_in_next_block block_handle =
     (case first_key_in_next_block of
        None \<Rightarrow>
          bindF (if sub_index_builder p = None then MakeNewSubIndexBuilder nd p else Inr p) (\<lambda>p1.
          (case sub_index_builder p1 of
             None \<Rightarrow> Inl UndefinedBehaviour
           | Some sub \<Rightarrow>
               bindF (ShortenedIndexBuilder_AddIndexEntry nd env sub last_key_in_current_block
                        None block_handle) (\<lambda>(sub', key).
                 Inr (p1\<lparr>sub_index_last_key := key,
                          entries := entries p1 @ [(key, sub')],
                          sub_index_builder := None,
                          cut_filter_block := True\<rparr>, key))))
      | Some next \<Rightarrow>
          bindF (case sub_index_builder p of
                   None \<Rightarrow> Inr p
                 | Some sub \<Rightarrow>
                     bindF (BlockHandle_EncodeTo nd block_handle) (\<lambda>handle_encoding.
                       (if flush_policy_Update env (shortened_block_builder sub)
                             last_key_in_current_block handle_encoding
                        then Inr (p\<lparr>entries := entries p @ [(sub_index_last_key p, sub)],
                                    cut_filter_block := True,
                                    sub_index_builder := None\<rparr>)
                        else Inr p))) (\<lambda>p1.
          bindF (if sub_index_builder p1 = None then MakeNewSubIndexBuilder nd p1 else Inr p1) (\<lambda>p2.
          (case sub_index_builder p2 of
             None \<Rightarrow> Inl UndefinedBehaviour
           | Some sub \<Rightarrow>
               bindF (ShortenedIndexBuilder_AddIndexEntry nd env sub last_key_in_current_block
                        (Some next) block_handle) (\<lambda>(sub', key).
                 Inr (p2\<lparr>sub_index_builder := Some sub', sub_index_last_key := key\<rparr>, key))))))"


definition PartitionedIndexBuilder_EstimatedSize ::
  "IndexEnv \<Rightarrow> PartitionedIndexBuilder \<Rightarrow> nat" where
  "PartitionedIndexBuilder_EstimatedSize env p =
     (let total = sum_list (map (\<lambda>e. ShortenedIndexBuilder_EstimatedSize env (snd e)) (entries p));
          total = total + BlockBuilder_CurrentSizeEstimate env (index_block_builder p);
          total = total + (case sub_index_builder p of
                             None \<Rightarrow> 0
                           | Some sub \<Rightarrow> ShortenedIndexBuilder_EstimatedSize env sub)
      in total)"



text \<open>Collaborators for the examples: keys are not shortened, a sub-index is sealed once
  it holds two entries, a block is serialized as the concatenation of its keys and values,
  and the caller writes blocks one after the other, each followed by a five-byte trailer.\<close>

definition example_index_env :: IndexEnv where
  "example_index_env =
     \<lparr>FindShortestSeparator = (\<lambda>a b. a),
      FindShortSuccessor = (\<lambda>a. a),
      flush_policy_Update = (\<lambda>b k v. 2 \<le> length (added b)),
      BlockBuilder_Finish = (\<lambda>b. concat (map (\<lambda>(k, v). k @ v) (added b))),
      BlockBuilder_CurrentSizeEstimate = (\<lambda>b. length (concat (map (\<lambda>(k, v). k @ v) (added b))))\<rparr>"


text \<open>The builder after one data block with last key "a" at offset 0, size 16: one
  partition.\<close>

definition example_one_partition :: PartitionedIndexBuilder where
  "example_one_partition =
     \<lparr>entries = [([0x61], \<lparr>shortened_block_builder = \<lparr>added = [([0x61], [0, 16])]\<rparr>\<rparr>)],
      index_block_builder = BlockBuilder_new, sub_index_builder = None,
      finishing_indexes = False, sub_index_last_key = [0x61], cut_filter_block = True\<rparr>"

text \<open>The builder after three data blocks with last keys "a", "b", "c": the flush policy
  of the examples does not cut before "b" and the last entry seals, so there is one
  partition.  With four blocks "a", "b", "c", "d" there are two.\<close>

definition example_two_partitions :: PartitionedIndexBuilder where
  "example_two_partitions =
     \<lparr>entries = [([0x62], \<lparr>shortened_block_builder =
                              \<lparr>added = [([0x61], [0, 16]), ([0x62], [21, 16])]\<rparr>\<rparr>),
                 ([0x64], \<lparr>shortened_block_builder =
                              \<lparr>added = [([0x63], [42, 16]), ([0x64], [63, 16])]\<rparr>\<rparr>)],
      index_block_builder = BlockBuilder_new, sub_index_builder = None,
      finishing_indexes = False, sub_index_last_key = [0x64], cut_filter_block = True\<rparr>"


section \<open>Checksums, compression and reading a block\<close>

definition kBlockTrailerSize :: nat where
  "kBlockTrailerSize = 5"

text \<open>The checksum functions (\<open>util/crc32c.h\<close>, \<open>util/xxhash.h\<close>) are not among the
  sources; they are parameters. \<open>XXH32 data seed\<close> is the one-shot hash.\<close>

record Checksums =
  crc32c_Value :: "bytes \<Rightarrow> 32 word"
  crc32c_Extend :: "32 word \<Rightarrow> bytes \<Rightarrow> 32 word"
  crc32c_Mask :: "32 word \<Rightarrow> 32 word"
  crc32c_Unmask :: "32 word \<Rightarrow> 32 word"
  XXH32 :: "bytes \<Rightarrow> 32 word \<Rightarrow> 32 word"

text \<open>Modelled from the spec: the streaming interface of xxhash (\<open>XXH32_init\<close>,
  \<open>XXH32_update\<close>, \<open>XXH32_digest\<close>) is not among the sources. The spec's checksum "covers
  compressed_bytes ++ type": the state is the seed and the bytes fed so far, and the digest is
  the one-shot hash of their concatenation.\<close>

definition XXH32_init :: "32 word \<Rightarrow> 32 word \<times> bytes" where
  "XXH32_init seed = (seed, [])"

definition XXH32_update :: "32 word \<times> bytes \<Rightarrow> bytes \<Rightarrow> 32 word \<times> bytes" where
  "XXH32_update st input = (fst st, snd st @ input)"

definition XXH32_digest :: "Checksums \<Rightarrow> 32 word \<times> bytes \<Rightarrow> 32 word" where
  "XXH32_digest cs st = XXH32 cs (snd st) (fst st)"

text \<open>Modelled from the spec: \<open>RandomAccessFileReader\<close> is not among the sources. A
  read returns a status and, when that is OK, the bytes of the file from the offset on, at
  most as many as asked for (fewer at the end of the file).\<close>

record RandomAccessFile =
  file_data :: bytes
  read_status :: Status

definition file_read :: "RandomAccessFile \<Rightarrow> 64 word \<Rightarrow> nat \<Rightarrow> Status \<times> bytes" where
  "file_read file off n =
     (if ok (read_status file) then (OK, take n (drop (unat off) (file_data file)))
      else (read_status file, []))"

text \<open>\<open>ReadBlock\<close>: the status and the contents slice. \<open>n + kBlockTrailerSize\<close> is
  computed on \<open>size_t\<close> and may wrap around; the checksum code then reads \<open>n + 5\<close> bytes
  of \<open>data\<close> whatever was read, and \<open>static_cast<int>(n) + 1\<close> has to fit an \<open>int\<close>.\<close>

definition ReadBlock ::
  "Checksums \<Rightarrow> RandomAccessFile \<Rightarrow> Footer \<Rightarrow> bool \<Rightarrow> BlockHandle \<Rightarrow> fault + (Status \<times> bytes)" where
  "ReadBlock cs file footer verify_checksums handle =
     (let n = handle_size handle;
          (s, contents) = file_read file (handle_offset handle)
                            (unat (n + of_nat kBlockTrailerSize))
      in
      if \<not> ok s then Inr (s, contents)
      else if length contents \<noteq> unat (n + of_nat kBlockTrailerSize)
        then Inr (Corruption ''truncated block read'', contents)
      else if verify_checksums then
        (if length contents < unat n + kBlockTrailerSize then Inl UndefinedBehaviour
         else
           (case DecodeFixed32 (drop (unat n + 1) contents) of
              None \<Rightarrow> Inl UndefinedBehaviour
            | Some v \<Rightarrow>
                (if checksum footer = kCRC32c then
                   (let v' = crc32c_Unmask cs v;
                        actual = crc32c_Value cs (take (unat n + 1) contents)
                    in if actual \<noteq> v'
                       then Inr (Corruption ''block checksum mismatch'', contents)
                       else Inr (OK, contents))
                 else if checksum footer = kxxHash then
                   (if 2 ^ 31 \<le> unat n + 1 then Inl UndefinedBehaviour
                    else
                      (let actual = XXH32 cs (take (unat n + 1) contents) 0
                       in if actual \<noteq> v
                          then Inr (Corruption ''block checksum mismatch'', contents)
                          else Inr (OK, contents)))
                 else Inr (Corruption ''unknown checksum type'', contents))))
      else Inr (s, contents))"

text \<open>Modelled from the spec: \<open>enum CompressionType\<close> is declared in a header that is not
  among the sources; these are the values \<open>CompressBlock\<close> and
  \<open>UncompressBlockContentsForCompressionType\<close> switch on, the one for "none", and the "disable"
  option that neither switch names. The byte written to the block trailer is
  \<open>CompressionType_char\<close>.\<close>

datatype CompressionType =
    kNoCompression
  | kSnappyCompression
  | kZlibCompression
  | kBZip2Compression
  | kLZ4Compression
  | kLZ4HCCompression
  | kXpressCompression
  | kZSTD
  | kZSTDNotFinalCompression
  | kDisableCompressionOption

fun CompressionType_char :: "CompressionType \<Rightarrow> byte" where
  "CompressionType_char kNoCompression = 0x0"
| "CompressionType_char kSnappyCompression = 0x1"
| "CompressionType_char kZlibCompression = 0x2"
| "CompressionType_char kBZip2Compression = 0x3"
| "CompressionType_char kLZ4Compression = 0x4"
| "CompressionType_char kLZ4HCCompression = 0x5"
| "CompressionType_char kXpressCompression = 0x6"
| "CompressionType_char kZSTD = 0x7"
| "CompressionType_char kZSTDNotFinalCompression = 0x40"
| "CompressionType_char kDisableCompressionOption = 0xff"

text \<open>The codecs (\<open>util/compression.h\<close>) are parameters. A compressor returns whether it
  succeeded and what it left in the output string; a decompressor returns the bytes or fails.
  The compression options are fixed for a builder and are part of the functions. Arguments
  are in the order of the source: format, data, dictionary.\<close>

record Codecs =
  GetCompressFormatForVersion :: "CompressionType \<Rightarrow> 32 word \<Rightarrow> 32 word"
  Snappy_Compress :: "bytes \<Rightarrow> bool \<times> bytes"
  Zlib_Compress :: "32 word \<Rightarrow> bytes \<Rightarrow> bytes \<Rightarrow> bool \<times> bytes"
  BZip2_Compress :: "32 word \<Rightarrow> bytes \<Rightarrow> bool \<times> bytes"
  LZ4_Compress :: "32 word \<Rightarrow> bytes \<Rightarrow> bytes \<Rightarrow> bool \<times> bytes"
  LZ4HC_Compress :: "32 word \<Rightarrow> bytes \<Rightarrow> bytes \<Rightarrow> bool \<times> bytes"
  XPRESS_Compress :: "bytes \<Rightarrow> bool \<times> bytes"
  ZSTD_Compress :: "bytes \<Rightarrow> bytes \<Rightarrow> bool \<times> bytes"
  Snappy_GetUncompressedLength :: "bytes \<Rightarrow> nat option"
  Snappy_Uncompress :: "bytes \<Rightarrow> bytes option"
  Zlib_Uncompress :: "bytes \<Rightarrow> 32 word \<Rightarrow> bytes \<Rightarrow> bytes option"
  BZip2_Uncompress :: "bytes \<Rightarrow> 32 word \<Rightarrow> bytes option"
  LZ4_Uncompress :: "bytes \<Rightarrow> 32 word \<Rightarrow> bytes \<Rightarrow> bytes option"
  XPRESS_Uncompress :: "bytes \<Rightarrow> bytes option"
  ZSTD_Uncompress :: "bytes \<Rightarrow> bytes \<Rightarrow> bytes option"
  base_malloc :: "nat \<Rightarrow> bool"

definition GoodCompressionRatio :: "nat \<Rightarrow> nat \<Rightarrow> bool" where
  "GoodCompressionRatio compressed_size raw_size =
     (compressed_size < raw_size - (raw_size div 8))"

text \<open>\<open>CompressBlock\<close>: the slice returned, \<open>*type\<close> afterwards and
  \<open>*compressed_output\<close> afterwards.\<close>

definition compressed_or_raw ::
  "bytes \<Rightarrow> CompressionType \<Rightarrow> bool \<times> bytes \<Rightarrow> bytes \<times> CompressionType \<times> bytes" where
  "compressed_or_raw raw type r =
     (if fst r \<and> GoodCompressionRatio (length (snd r)) (length raw)
      then (snd r, type, snd r)
      else (raw, kNoCompression, snd r))"

definition CompressBlock ::
  "Codecs \<Rightarrow> bytes \<Rightarrow> CompressionType \<Rightarrow> 32 word \<Rightarrow> bytes \<Rightarrow> bytes
     \<Rightarrow> bytes \<times> CompressionType \<times> bytes" where
  "CompressBlock cd raw type format_version compression_dict compressed_output =
     (if type = kNoCompression then (raw, type, compressed_output)
      else
        (case type of
           kSnappyCompression \<Rightarrow>
             compressed_or_raw raw type (Snappy_Compress cd raw)
         | kZlibCompression \<Rightarrow>
             compressed_or_raw raw type
               (Zlib_Compress cd (GetCompressFormatForVersion cd kZlibCompression format_version)
                  raw compression_dict)
         | kBZip2Compression \<Rightarrow>
             compressed_or_raw raw type
               (BZip2_Compress cd (GetCompressFormatForVersion cd kBZip2Compression format_version)
                  raw)
         | kLZ4Compression \<Rightarrow>
             compressed_or_raw raw type
               (LZ4_Compress cd (GetCompressFormatForVersion cd kLZ4Compression format_version)
                  raw compression_dict)
         | kLZ4HCCompression \<Rightarrow>
             compressed_or_raw raw type
               (LZ4HC_Compress cd (GetCompressFormatForVersion cd kLZ4HCCompression format_version)
                  raw compression_dict)
         | kXpressCompression \<Rightarrow>
             compressed_or_raw raw type (XPRESS_Compress cd raw)
         | kZSTD \<Rightarrow>
             compressed_or_raw raw type (ZSTD_Compress cd raw compression_dict)
         | kZSTDNotFinalCompression \<Rightarrow>
             compressed_or_raw raw type (ZSTD_Compress cd raw compression_dict)
         | _ \<Rightarrow> (raw, kNoCompression, compressed_output)))"

text \<open>The codec call that \<open>CompressBlock\<close> makes for a compression type, if it makes one:
  the table that the claim about the fall-back is stated against.\<close>

fun codec_call ::
  "Codecs \<Rightarrow> CompressionType \<Rightarrow> 32 word \<Rightarrow> bytes \<Rightarrow> bytes \<Rightarrow> (bool \<times> bytes) option" where
  "codec_call cd kNoCompression fv dict raw = None"
| "codec_call cd kDisableCompressionOption fv dict raw = None"
| "codec_call cd kSnappyCompression fv dict raw = Some (Snappy_Compress cd raw)"
| "codec_call cd kZlibCompression fv dict raw =
     Some (Zlib_Compress cd (GetCompressFormatForVersion cd kZlibCompression fv) raw dict)"
| "codec_call cd kBZip2Compression fv dict raw =
     Some (BZip2_Compress cd (GetCompressFormatForVersion cd kBZip2Compression fv) raw)"
| "codec_call cd kLZ4Compression fv dict raw =
     Some (LZ4_Compress cd (GetCompressFormatForVersion cd kLZ4Compression fv) raw dict)"
| "codec_call cd kLZ4HCCompression fv dict raw =
     Some (LZ4HC_Compress cd (GetCompressFormatForVersion cd kLZ4HCCompression fv) raw dict)"
| "codec_call cd kXpressCompression fv dict raw = Some (XPRESS_Compress cd raw)"
| "codec_call cd kZSTD fv dict raw = Some (ZSTD_Compress cd raw dict)"
| "codec_call cd kZSTDNotFinalCompression fv dict raw = Some (ZSTD_Compress cd raw dict)"

text \<open>\<open>BlockContents\<close>: the data and its compression type (ownership of the buffer is
  not modelled).\<close>

record BlockContents =
  contents_data :: bytes
  contents_compression_type :: CompressionType

definition BlockContents_empty :: BlockContents where
  "BlockContents_empty = \<lparr>contents_data = [], contents_compression_type = kNoCompression\<rparr>"

text \<open>\<open>UncompressBlockContentsForCompressionType\<close>: the status and \<open>*contents\<close>
  afterwards. LZ4 and LZ4HC share a decompressor, as in the source.\<close>

definition uncompressed_or_corrupt ::
  "BlockContents \<Rightarrow> bytes option \<Rightarrow> string \<Rightarrow> Status \<times> BlockContents" where
  "uncompressed_or_corrupt contents ubuf msg =
     (case ubuf of
        None \<Rightarrow> (Corruption msg, contents)
      | Some d \<Rightarrow> (OK, \<lparr>contents_data = d, contents_compression_type = kNoCompression\<rparr>))"

definition UncompressBlockContentsForCompressionType ::
  "bool \<Rightarrow> Codecs \<Rightarrow> bytes \<Rightarrow> BlockContents \<Rightarrow> 32 word \<Rightarrow> bytes \<Rightarrow> CompressionType
     \<Rightarrow> fault + (Status \<times> BlockContents)" where
  "UncompressBlockContentsForCompressionType nd cd data contents format_version
       compression_dict compression_type =
     assert_then nd (compression_type \<noteq> kNoCompression)
       (Inr
         (case compression_type of
            kSnappyCompression \<Rightarrow>
              (case Snappy_GetUncompressedLength cd data of
                 None \<Rightarrow>
                   (Corruption ''Snappy not supported or corrupted Snappy compressed block contents'',
                    contents)
               | Some ulength \<Rightarrow>
                   (if \<not> base_malloc cd ulength then (MemoryLimit, contents)
                    else uncompressed_or_corrupt contents (Snappy_Uncompress cd data)
                           ''Snappy not supported or corrupted Snappy compressed block contents''))
          | kZlibCompression \<Rightarrow>
              uncompressed_or_corrupt contents
                (Zlib_Uncompress cd data
                   (GetCompressFormatForVersion cd kZlibCompression format_version)
                   compression_dict)
                ''Zlib not supported or corrupted Zlib compressed block contents''
          | kBZip2Compression \<Rightarrow>
              uncompressed_or_corrupt contents
                (BZip2_Uncompress cd data
                   (GetCompressFormatForVersion cd kBZip2Compression format_version))
                ''Bzip2 not supported or corrupted Bzip2 compressed block contents''
          | kLZ4Compression \<Rightarrow>
              uncompressed_or_corrupt contents
                (LZ4_Uncompress cd data
                   (GetCompressFormatForVersion cd kLZ4Compression format_version)
                   compression_dict)
                ''LZ4 not supported or corrupted LZ4 compressed block contents''
          | kLZ4HCCompression \<Rightarrow>
              uncompressed_or_corrupt contents
                (LZ4_Uncompress cd data
                   (GetCompressFormatForVersion cd kLZ4HCCompression format_version)
                   compression_dict)
                ''LZ4HC not supported or corrupted LZ4HC compressed block contents''
          | kXpressCompression \<Rightarrow>
              uncompressed_or_corrupt contents (XPRESS_Uncompress cd data)
                ''XPRESS not supported or corrupted XPRESS compressed block contents''
          | kZSTD \<Rightarrow>
              uncompressed_or_corrupt contents (ZSTD_Uncompress cd data compression_dict)
                ''ZSTD not supported or corrupted ZSTD compressed block contents''
          | kZSTDNotFinalCompression \<Rightarrow>
              uncompressed_or_corrupt contents (ZSTD_Uncompress cd data compression_dict)
                ''ZSTD not supported or corrupted ZSTD compressed block contents''
          | _ \<Rightarrow> (Corruption ''bad block type'', contents)))"




text \<open>Example checksum functions: the sum of the bytes for CRC32c, with a mask that adds
  a constant, and the sum plus the seed for xxHash.\<close>

definition example_checksums :: Checksums where
  "example_checksums =
     \<lparr>crc32c_Value = (\<lambda>bs. sum_list (map ucast bs)),
      crc32c_Extend = (\<lambda>c bs. c + sum_list (map ucast bs)),
      crc32c_Mask = (\<lambda>c. c + 0xa282ead8),
      crc32c_Unmask = (\<lambda>c. c - 0xa282ead8),
      XXH32 = (\<lambda>bs seed. seed + 1 + sum_list (map ucast bs))\<rparr>"

text \<open>An example file: the block 01 02 03 with type byte 0 and the masked example CRC of
  those four bytes, and the same file with one bit of the third byte flipped.\<close>

definition example_file :: RandomAccessFile where
  "example_file = \<lparr>file_data = [1, 2, 3, 0, 0xde, 0xea, 0x82, 0xa2], read_status = OK\<rparr>"


text \<open>Example codecs: "Snappy" keeps every second byte and its decompressor doubles each
  byte, "Zlib" copies its input, "LZ4" drops the second half and cannot restore it, and the
  other compressors fail.\<close>

fun every_second :: "bytes \<Rightarrow> bytes" where
  "every_second (a # b # rest) = a # every_second rest"
| "every_second rest = rest"

definition example_codecs :: Codecs where
  "example_codecs =
     \<lparr>GetCompressFormatForVersion = (\<lambda>t v. if v = 2 then 2 else 1),
      Snappy_Compress = (\<lambda>raw. (True, every_second raw)),
      Zlib_Compress = (\<lambda>f raw d. (True, raw)),
      BZip2_Compress = (\<lambda>f raw. (False, [])),
      LZ4_Compress = (\<lambda>f raw d. (True, take (length raw div 2) raw)),
      LZ4HC_Compress = (\<lambda>f raw d. (False, [])),
      XPRESS_Compress = (\<lambda>raw. (False, [])),
      ZSTD_Compress = (\<lambda>raw d. (False, [])),
      Snappy_GetUncompressedLength = (\<lambda>d. Some (2 * length d)),
      Snappy_Uncompress = (\<lambda>d. Some (concat (map (\<lambda>b. [b, b]) d))),
      Zlib_Uncompress = (\<lambda>d f dict. Some d),
      BZip2_Uncompress = (\<lambda>d f. None),
      LZ4_Uncompress = (\<lambda>d f dict. None),
      XPRESS_Uncompress = (\<lambda>d. None),
      ZSTD_Uncompress = (\<lambda>d dict. None),
      base_malloc = (\<lambda>n. True)\<rparr>"


section \<open>The block-based table builder\<close>

datatype IndexType = kBinarySearch | kHashSearch | kTwoLevelIndexSearch

text \<open>The fields of \<open>BlockBasedTableOptions\<close> and \<open>ImmutableCFOptions\<close> that the builder
  reads. A pointer to a named object is the name, or \<open>None\<close> for the null pointer. The
  compressed block cache, which the options point to and the builder inserts into, is kept
  with the builder's state.\<close>

record BlockBasedTableOptions =
  format_version :: "32 word"
  options_checksum :: ChecksumType
  verify_compression :: bool
  index_type :: IndexType
  partition_filters :: bool
  whole_key_filtering :: bool
  filter_policy :: "string option"

record ImmutableCFOptions =
  user_comparator :: "string option"
  merge_operator :: "string option"
  prefix_extractor :: "string option"
  table_properties_collector_factories :: "string list"

record TableProperties =
  num_entries :: "64 word"
  raw_key_size :: "64 word"
  raw_value_size :: "64 word"
  data_size :: "64 word"
  num_data_blocks :: "64 word"
  filter_size :: "64 word"
  index_size :: "64 word"
  prop_column_family_id :: "32 word"
  prop_column_family_name :: string
  filter_policy_name :: string
  comparator_name :: string
  merge_operator_name :: string
  compression_name :: string
  prefix_extractor_name :: string
  property_collectors_names :: string

definition TableProperties_new :: TableProperties where
  "TableProperties_new =
     \<lparr>num_entries = 0, raw_key_size = 0, raw_value_size = 0, data_size = 0,
      num_data_blocks = 0, filter_size = 0, index_size = 0, prop_column_family_id = 0,
      prop_column_family_name = [], filter_policy_name = [], comparator_name = [],
      merge_operator_name = [], compression_name = [], prefix_extractor_name = [],
      property_collectors_names = []\<rparr>"

text \<open>Modelled from the spec: \<open>WritableFileWriter\<close> is not among the sources. \<open>Append\<close>
  returns a status ("IOError: underlying file append failure"); the model appends the bytes
  when the status is OK and nothing otherwise. The statuses of the coming calls are part of
  the file, and once they are used up every call succeeds.\<close>

record WritableFile =
  written :: bytes
  append_results :: "Status list"

definition file_Append :: "WritableFile \<Rightarrow> bytes \<Rightarrow> Status \<times> WritableFile" where
  "file_Append f data =
     (case append_results f of
        [] \<Rightarrow> (OK, f\<lparr>written := written f @ data\<rparr>)
      | s # rest \<Rightarrow>
          (if ok s then (OK, f\<lparr>written := written f @ data, append_results := rest\<rparr>)
           else (s, f\<lparr>append_results := rest\<rparr>)))"

text \<open>The collaborators of the builder whose code is elsewhere. The index builder, the
  filter builder and the property collectors are objects behind virtual interfaces: their
  states are the type parameters and their methods are fields. \<open>ib_AddIndexEntry\<close> returns
  the state and the last key as the call left it. \<open>property_block\<close> is what the property
  block builder produces from the properties and the collectors, \<open>metaindex_block\<close> what
  the meta-index builder produces from the names and handles added, in order.\<close>

record ('ib, 'fb, 'pc) Env =
  NDEBUG :: bool
  codecs :: Codecs
  checksums :: Checksums
  blocks :: IndexEnv
  format_constants :: FormatConstants
  kCompressionSizeLimit :: nat
  IsValueType_of_key :: "bytes \<Rightarrow> bool"
  IsRangeDeletion_of_key :: "bytes \<Rightarrow> bool"
  ExtractUserKey :: "bytes \<Rightarrow> bytes"
  Compare :: "bytes \<Rightarrow> bytes \<Rightarrow> int"
  flush_block_policy_Update :: "BlockBuilder \<Rightarrow> bytes \<Rightarrow> bytes \<Rightarrow> bool"
  ib_AddIndexEntry :: "'ib \<Rightarrow> bytes \<Rightarrow> bytes option \<Rightarrow> BlockHandle \<Rightarrow> fault + ('ib \<times> bytes)"
  ib_OnKeyAdded :: "'ib \<Rightarrow> bytes \<Rightarrow> 'ib"
  ib_Finish :: "'ib \<Rightarrow> IndexBlocks \<Rightarrow> BlockHandle \<Rightarrow> fault + (Status \<times> IndexBlocks \<times> 'ib)"
  ib_EstimatedSize :: "'ib \<Rightarrow> nat"
  fb_StartBlock :: "'fb \<Rightarrow> 64 word \<Rightarrow> 'fb"
  fb_Add :: "'fb \<Rightarrow> bytes \<Rightarrow> 'fb"
  fb_Finish :: "'fb \<Rightarrow> BlockHandle \<Rightarrow> bytes \<times> Status \<times> 'fb"
  fb_IsBlockBased :: "'fb \<Rightarrow> bool"
  NotifyCollectTableCollectorsOnAdd :: "'pc \<Rightarrow> bytes \<Rightarrow> bytes \<Rightarrow> 64 word \<Rightarrow> 'pc"
  property_block :: "TableProperties \<Rightarrow> 'pc \<Rightarrow> bytes"
  metaindex_block :: "(string \<times> BlockHandle) list \<Rightarrow> bytes"
  kPropertiesBlock :: string
  kCompressionDictBlock :: string
  kRangeDelBlock :: string
  CompressionTypeToString :: "CompressionType \<Rightarrow> string"

text \<open>\<open>BlockBasedTableBuilder::Rep\<close>. The compressed cache is the list of the entries
  inserted (key, contents, type), or \<open>None\<close> when the options have none.\<close>

record ('ib, 'fb, 'pc) Rep =
  ioptions :: ImmutableCFOptions
  table_options :: BlockBasedTableOptions
  file_writer :: WritableFile
  offset :: "64 word"
  status :: Status
  data_block :: BlockBuilder
  range_del_block :: BlockBuilder
  index_builder :: 'ib
  last_key :: bytes
  first_key :: bytes
  compression_type :: CompressionType
  compression_dict :: "bytes option"
  props :: TableProperties
  closed :: bool
  filter_builder :: "'fb option"
  compressed_cache_key_prefix :: bytes
  block_cache_compressed :: "(bytes \<times> bytes \<times> CompressionType) list option"
  pending_handle :: BlockHandle
  compressed_output :: bytes
  column_family_id :: "32 word"
  column_family_name :: string
  table_properties_collectors :: 'pc

text \<open>The constructor: the sanitizing of the options, then \<open>Rep\<close>'s initial values. The
  index builder, the filter builder and the collectors come from factories that are not
  modelled and are arguments here, as is the cache key prefix.\<close>

definition sanitized_table_options :: "BlockBasedTableOptions \<Rightarrow> BlockBasedTableOptions" where
  "sanitized_table_options topts =
     (if format_version topts = 0 \<and> options_checksum topts \<noteq> kCRC32c
      then topts\<lparr>format_version := 1\<rparr>
      else topts)"

definition BlockBasedTableBuilder_new ::
  "('ib, 'fb, 'pc) Env \<Rightarrow> ImmutableCFOptions \<Rightarrow> BlockBasedTableOptions \<Rightarrow> 'ib \<Rightarrow> 'fb option \<Rightarrow> 'pc
     \<Rightarrow> 32 word \<Rightarrow> WritableFile \<Rightarrow> CompressionType \<Rightarrow> bytes option
     \<Rightarrow> (bytes \<times> bytes \<times> CompressionType) list option \<Rightarrow> bytes
     \<Rightarrow> bool \<Rightarrow> string \<Rightarrow> ('ib, 'fb, 'pc) Rep" where
  "BlockBasedTableBuilder_new env iopts topts ib fb pc cf_id f ctype cdict cache prefix
       skip_filters cf_name =
     \<lparr>ioptions = iopts,
      table_options = sanitized_table_options topts,
      file_writer = f, offset = 0, status = OK,
      data_block = BlockBuilder_new, range_del_block = BlockBuilder_new,
      index_builder = ib, last_key = [], first_key = [],
      compression_type = ctype, compression_dict = cdict,
      props = TableProperties_new, closed = False,
      filter_builder = (if skip_filters then None
                        else map_option (\<lambda>b. fb_StartBlock env b 0) fb),
      compressed_cache_key_prefix = (if cache = None then [] else prefix),
      block_cache_compressed = cache,
      pending_handle = BlockHandle_uninitialized, compressed_output = [],
      column_family_id = cf_id, column_family_name = cf_name,
      table_properties_collectors = pc\<rparr>"

text \<open>\<open>InsertBlockInCache\<close>: the status and the builder afterwards.\<close>

definition InsertBlockInCache ::
  "('ib, 'fb, 'pc) Env \<Rightarrow> ('ib, 'fb, 'pc) Rep \<Rightarrow> bytes \<Rightarrow> CompressionType \<Rightarrow> BlockHandle
     \<Rightarrow> Status \<times> ('ib, 'fb, 'pc) Rep" where
  "InsertBlockInCache env r block_contents type handle =
     (case block_cache_compressed r of
        None \<Rightarrow> (OK, r)
      | Some cache \<Rightarrow>
          (if type \<noteq> kNoCompression then
             (if \<not> base_malloc (codecs env) (length block_contents + 1) then (MemoryLimit, r)
              else
                (let key = compressed_cache_key_prefix r @ EncodeVarint64 (handle_offset handle)
                 in (OK, r\<lparr>block_cache_compressed :=
                              Some (cache @ [(key, block_contents, type)])\<rparr>)))
           else (OK, r)))"

text \<open>\<open>WriteRawBlock\<close>: the handle and the builder afterwards. For
  \<open>kNoChecksum\<close> the source asserts false and falls through to CRC32c; for a checksum type
  that no case names the checksum bytes of the trailer are never written. For xxHash the
  length given to \<open>XXH32_update\<close> is \<open>static_cast<uint32_t>(block_contents.size())\<close>:
  the hash covers the first \<open>size mod 2^32\<close> bytes of the contents.\<close>

definition WriteRawBlock ::
  "('ib, 'fb, 'pc) Env \<Rightarrow> ('ib, 'fb, 'pc) Rep \<Rightarrow> bytes \<Rightarrow> CompressionType
     \<Rightarrow> fault + (BlockHandle \<times> ('ib, 'fb, 'pc) Rep)" where
  "WriteRawBlock env r block_contents type =
     (let handle = \<lparr>handle_offset = offset r, handle_size = of_nat (length block_contents)\<rparr>;
          (s1, f1) = file_Append (file_writer r) block_contents;
          r1 = r\<lparr>status := s1, file_writer := f1\<rparr>
      in
      if ok (status r1) then
        bindF
          (let crc_trailer =
                 (let crc = crc32c_Value (checksums env) block_contents;
                      crc = crc32c_Extend (checksums env) crc [CompressionType_char type]
                  in CompressionType_char type # PutFixed32 (crc32c_Mask (checksums env) crc))
           in
           if options_checksum (table_options r1) = kNoChecksum then
             assert_then (NDEBUG env) False (Inr crc_trailer)
           else if options_checksum (table_options r1) = kCRC32c then Inr crc_trailer
           else if options_checksum (table_options r1) = kxxHash then
             (let xxh = XXH32_init 0;
                  xxh = XXH32_update xxh
                          (take (unat (of_nat (length block_contents) :: 32 word))
                             block_contents);
                  xxh = XXH32_update xxh [CompressionType_char type]
              in Inr (CompressionType_char type # PutFixed32 (XXH32_digest (checksums env) xxh)))
           else Inl UndefinedBehaviour)
          (\<lambda>trailer.
            (let (s2, f2) = file_Append (file_writer r1) trailer;
                 r2 = r1\<lparr>status := s2, file_writer := f2\<rparr>;
                 r3 = (if ok (status r2)
                       then (case InsertBlockInCache env r2 block_contents type handle of
                               (s3, r') \<Rightarrow> r'\<lparr>status := s3\<rparr>)
                       else r2);
                 r4 = (if ok (status r3)
                       then r3\<lparr>offset := offset r3 + of_nat (length block_contents)
                                              + of_nat kBlockTrailerSize\<rparr>
                       else r3)
             in Inr (handle, r4)))
      else Inr (handle, r1))"

text \<open>\<open>WriteBlock(const Slice&, BlockHandle*, bool)\<close>.\<close>

definition WriteBlock ::
  "('ib, 'fb, 'pc) Env \<Rightarrow> ('ib, 'fb, 'pc) Rep \<Rightarrow> bytes \<Rightarrow> bool
     \<Rightarrow> fault + (BlockHandle \<times> ('ib, 'fb, 'pc) Rep)" where
  "WriteBlock env r raw_block_contents is_data_block =
     assert_then (NDEBUG env) (ok (status r))
      (bindF
        (if length raw_block_contents < kCompressionSizeLimit env then
           (let compression_dict' =
                  (case compression_dict r of
                     Some d \<Rightarrow> (if is_data_block \<and> d \<noteq> [] then d else [])
                   | None \<Rightarrow> []);
                (block_contents, type, out) =
                  CompressBlock (codecs env) raw_block_contents (compression_type r)
                    (format_version (table_options r)) compression_dict' (compressed_output r);
                r1 = r\<lparr>compressed_output := out\<rparr>
            in
            if type \<noteq> kNoCompression \<and> verify_compression (table_options r1) then
              bindF (UncompressBlockContentsForCompressionType (NDEBUG env) (codecs env)
                       block_contents BlockContents_empty (format_version (table_options r1))
                       compression_dict' type)
                (\<lambda>(stat, contents).
                  if ok stat then
                    (if contents_data contents = raw_block_contents
                     then Inr (block_contents, type, False, r1)
                     else Inr (block_contents, type, True,
                               r1\<lparr>status :=
                                    Corruption ''Decompressed block did not match raw block''\<rparr>))
                  else Inr (block_contents, type, True,
                            r1\<lparr>status := Corruption ''Could not decompress''\<rparr>))
            else Inr (block_contents, type, False, r1))
         else Inr ([], compression_type r, True, r))
        (\<lambda>(block_contents, type, abort_compression, r2).
          bindF (if abort_compression
                 then WriteRawBlock env r2 raw_block_contents kNoCompression
                 else WriteRawBlock env r2 block_contents type)
            (\<lambda>(handle, r3). Inr (handle, r3\<lparr>compressed_output := []\<rparr>))))"

text \<open>\<open>WriteBlock(BlockBuilder*, BlockHandle*, bool)\<close>, for the data block.\<close>

definition WriteBlock_data_block ::
  "('ib, 'fb, 'pc) Env \<Rightarrow> ('ib, 'fb, 'pc) Rep
     \<Rightarrow> fault + (BlockHandle \<times> ('ib, 'fb, 'pc) Rep)" where
  "WriteBlock_data_block env r =
     bindF (WriteBlock env r (BlockBuilder_Finish (blocks env) (data_block r)) True)
       (\<lambda>(handle, r1). Inr (handle, r1\<lparr>data_block := BlockBuilder_Reset (data_block r1)\<rparr>))"

definition Flush ::
  "('ib, 'fb, 'pc) Env \<Rightarrow> ('ib, 'fb, 'pc) Rep \<Rightarrow> fault + ('ib, 'fb, 'pc) Rep" where
  "Flush env r =
     assert_then (NDEBUG env) (\<not> closed r)
      (if \<not> ok (status r) then Inr r
       else if BlockBuilder_empty (data_block r) then Inr r
       else
         bindF (WriteBlock_data_block env r) (\<lambda>(handle, r1).
           (let r2 = r1\<lparr>pending_handle := handle\<rparr>;
                r3 = (case filter_builder r2 of
                        None \<Rightarrow> r2
                      | Some fb \<Rightarrow> r2\<lparr>filter_builder := Some (fb_StartBlock env fb (offset r2))\<rparr>);
                r4 = r3\<lparr>props := (props r3)\<lparr>data_size := offset r3,
                                              num_data_blocks := num_data_blocks (props r3) + 1\<rparr>\<rparr>
            in Inr r4)))"

text \<open>\<open>Add\<close>: the code returned and the builder afterwards.\<close>

definition Add ::
  "('ib, 'fb, 'pc) Env \<Rightarrow> ('ib, 'fb, 'pc) Rep \<Rightarrow> bytes \<Rightarrow> bytes
     \<Rightarrow> fault + (Status \<times> ('ib, 'fb, 'pc) Rep)" where
  "Add env r key val =
     assert_then (NDEBUG env) (\<not> closed r)
      (if \<not> ok (status r) then Inr (status r, r)
       else if IsValueType_of_key env key then
         assert_then (NDEBUG env)
           (if 0 < num_entries (props r) then 0 < Compare env key (last_key r) else True)
           (let r1 = (if 0 < num_entries (props r) then r else r\<lparr>first_key := key\<rparr>);
                should_flush = flush_block_policy_Update env (data_block r1) key val
            in
            bindF
              (if should_flush then
                 assert_then (NDEBUG env) (\<not> BlockBuilder_empty (data_block r1))
                   (bindF (Flush env r1) (\<lambda>r2.
                      if ok (status r2) then
                        bindF (ib_AddIndexEntry env (index_builder r2) (last_key r2) (Some key)
                                 (pending_handle r2))
                          (\<lambda>(ib, lk). Inr (r2\<lparr>index_builder := ib, last_key := lk,
                                                first_key := key\<rparr>))
                      else Inr r2))
               else Inr r1)
              (\<lambda>r3.
                (let r4 = (case filter_builder r3 of
                             None \<Rightarrow> r3
                           | Some fb \<Rightarrow>
                               r3\<lparr>filter_builder := Some (fb_Add env fb (ExtractUserKey env key))\<rparr>);
                     r5 = r4\<lparr>last_key := key,
                             data_block := BlockBuilder_Add (data_block r4) key val,
                             props := (props r4)\<lparr>
                               num_entries := num_entries (props r4) + 1,
                               raw_key_size := raw_key_size (props r4) + of_nat (length key),
                               raw_value_size := raw_value_size (props r4) + of_nat (length val)\<rparr>\<rparr>;
                     r6 = r5\<lparr>index_builder := ib_OnKeyAdded env (index_builder r5) key,
                             table_properties_collectors :=
                               NotifyCollectTableCollectorsOnAdd env
                                 (table_properties_collectors r5) key val (offset r5)\<rparr>
                 in Inr (OK, r6))))
       else if IsRangeDeletion_of_key env key then
         (let r1 = r\<lparr>range_del_block := BlockBuilder_Add (range_del_block r) key val,
                      props := (props r)\<lparr>
                        num_entries := num_entries (props r) + 1,
                        raw_key_size := raw_key_size (props r) + of_nat (length key),
                        raw_value_size := raw_value_size (props r) + of_nat (length val)\<rparr>,
                      table_properties_collectors :=
                        NotifyCollectTableCollectorsOnAdd env
                          (table_properties_collectors r) key val (offset r)\<rparr>
          in Inr (OK, r1))
       else assert_then (NDEBUG env) False (Inr (OK, r)))"


subsection \<open>Finish\<close>

definition kFilterBlockPrefix :: string where
  "kFilterBlockPrefix = ''filter.''"

definition kFullFilterBlockPrefix :: string where
  "kFullFilterBlockPrefix = ''fullfilter.''"

definition kPartitionedFilterBlockPrefix :: string where
  "kPartitionedFilterBlockPrefix = ''partitionedfilter.''"

text \<open>The loop that writes the filter block: \<open>while (s.IsIncomplete())\<close>, entered with
  Incomplete. The first argument bounds the number of iterations.\<close>

fun filter_loop ::
  "nat \<Rightarrow> ('ib, 'fb, 'pc) Env \<Rightarrow> ('ib, 'fb, 'pc) Rep \<Rightarrow> BlockHandle
     \<Rightarrow> fault + (BlockHandle \<times> ('ib, 'fb, 'pc) Rep)" where
  "filter_loop 0 env r filter_block_handle = Inl StillRunning"
| "filter_loop (Suc n) env r filter_block_handle =
     (case filter_builder r of
        None \<Rightarrow> Inl UndefinedBehaviour
      | Some fb \<Rightarrow>
          (case fb_Finish env fb filter_block_handle of
             (filter_content, s, fb') \<Rightarrow>
               assert_then (NDEBUG env) (ok s \<or> IsIncomplete s)
                 (let r1 = r\<lparr>filter_builder := Some fb',
                              props := (props r)\<lparr>filter_size := filter_size (props r)
                                                      + of_nat (length filter_content)\<rparr>\<rparr>
                  in bindF (WriteRawBlock env r1 filter_content kNoCompression)
                       (\<lambda>(handle, r2).
                         if IsIncomplete s then filter_loop n env r2 handle
                         else Inr (handle, r2)))))"

text \<open>The loop over \<open>index_blocks.meta_blocks\<close>, which stands before the first
  \<open>if (ok())\<close> of the meta blocks: each is written with \<open>WriteBlock\<close> and its handle is
  added to the meta-index.\<close>

fun write_meta_blocks ::
  "('ib, 'fb, 'pc) Env \<Rightarrow> ('ib, 'fb, 'pc) Rep \<Rightarrow> (string \<times> bytes) list
     \<Rightarrow> (string \<times> BlockHandle) list
     \<Rightarrow> fault + ((string \<times> BlockHandle) list \<times> ('ib, 'fb, 'pc) Rep)" where
  "write_meta_blocks env r [] meta_index = Inr (meta_index, r)"
| "write_meta_blocks env r (item # items) meta_index =
     bindF (WriteBlock env r (snd item) False)
       (\<lambda>(block_handle, r1).
         write_meta_blocks env r1 items (meta_index @ [(fst item, block_handle)]))"

fun property_collectors_names_of :: "string list \<Rightarrow> string" where
  "property_collectors_names_of [] = []"
| "property_collectors_names_of [n] = n"
| "property_collectors_names_of (n # ns) = n @ '','' @ property_collectors_names_of ns"

definition name_or_nullptr :: "string option \<Rightarrow> string" where
  "name_or_nullptr p = (case p of None \<Rightarrow> ''nullptr'' | Some n \<Rightarrow> n)"

text \<open>The block under \<open>if (ok())\<close> that writes the filter mapping, the properties, the
  compression dictionary and the range deletions.\<close>

definition Finish_meta ::
  "('ib, 'fb, 'pc) Env \<Rightarrow> ('ib, 'fb, 'pc) Rep \<Rightarrow> (string \<times> BlockHandle) list \<Rightarrow> BlockHandle
     \<Rightarrow> fault + ((string \<times> BlockHandle) list \<times> ('ib, 'fb, 'pc) Rep)" where
  "Finish_meta env r meta_index filter_block_handle =
     (if ok (status r) then
        bindF
          (case filter_builder r of
             None \<Rightarrow> Inr meta_index
           | Some fb \<Rightarrow>
               (case filter_policy (table_options r) of
                  None \<Rightarrow> Inl UndefinedBehaviour
                | Some policy_name \<Rightarrow>
                    Inr (meta_index @
                         [((if fb_IsBlockBased env fb then kFilterBlockPrefix
                            else if partition_filters (table_options r)
                              then kPartitionedFilterBlockPrefix
                              else kFullFilterBlockPrefix) @ policy_name,
                           filter_block_handle)])))
          (\<lambda>meta_index1.
            (let p = (props r)\<lparr>
                   prop_column_family_id := column_family_id r,
                   prop_column_family_name := column_family_name r,
                   filter_policy_name := (case filter_policy (table_options r) of
                                            None \<Rightarrow> [] | Some n \<Rightarrow> n),
                   index_size := of_nat (ib_EstimatedSize env (index_builder r)
                                          + kBlockTrailerSize),
                   comparator_name := name_or_nullptr (user_comparator (ioptions r)),
                   merge_operator_name := name_or_nullptr (merge_operator (ioptions r)),
                   compression_name := CompressionTypeToString env (compression_type r),
                   prefix_extractor_name := name_or_nullptr (prefix_extractor (ioptions r)),
                   property_collectors_names :=
                     ''['' @ property_collectors_names_of
                               (table_properties_collector_factories (ioptions r)) @ '']''\<rparr>;
                 r1 = r\<lparr>props := p\<rparr>
             in
             bindF (WriteRawBlock env r1
                      (property_block env (props r1) (table_properties_collectors r1))
                      kNoCompression)
               (\<lambda>(properties_block_handle, r2).
                 (let meta_index2 = meta_index1 @ [(kPropertiesBlock env, properties_block_handle)]
                  in
                  bindF
                    (case compression_dict r2 of
                       None \<Rightarrow> Inr (meta_index2, r2)
                     | Some d \<Rightarrow>
                         (if d \<noteq> [] then
                            bindF (WriteRawBlock env r2 d kNoCompression)
                              (\<lambda>(compression_dict_block_handle, r3).
                                Inr (meta_index2 @ [(kCompressionDictBlock env,
                                                     compression_dict_block_handle)], r3))
                          else Inr (meta_index2, r2)))
                    (\<lambda>(meta_index3, r4).
                      if ok (status r4) \<and> \<not> BlockBuilder_empty (range_del_block r4) then
                        bindF (WriteRawBlock env r4
                                 (BlockBuilder_Finish (blocks env) (range_del_block r4))
                                 kNoCompression)
                          (\<lambda>(range_del_block_handle, r5).
                            Inr (meta_index3 @ [(kRangeDelBlock env, range_del_block_handle)], r5))
                      else Inr (meta_index3, r4))))))
      else Inr (meta_index, r))"

text \<open>The loop over the remaining index partitions: \<open>while (s.IsIncomplete())\<close>. The
  first component of the result is the code of the early \<open>return s.code()\<close>, if it was
  taken. The first argument bounds the number of iterations.\<close>

fun index_loop ::
  "nat \<Rightarrow> ('ib, 'fb, 'pc) Env \<Rightarrow> ('ib, 'fb, 'pc) Rep \<Rightarrow> IndexBlocks \<Rightarrow> BlockHandle \<Rightarrow> Status
     \<Rightarrow> fault + (Status option \<times> BlockHandle \<times> ('ib, 'fb, 'pc) Rep)" where
  "index_loop 0 env r index_blocks index_block_handle s =
     (if IsIncomplete s then Inl StillRunning else Inr (None, index_block_handle, r))"
| "index_loop (Suc n) env r index_blocks index_block_handle s =
     (if IsIncomplete s then
        bindF (ib_Finish env (index_builder r) index_blocks index_block_handle)
          (\<lambda>(s', index_blocks', ib).
            (let r1 = r\<lparr>index_builder := ib\<rparr> in
             if \<not> ok s' \<and> \<not> IsIncomplete s' then Inr (Some s', index_block_handle, r1)
             else
               bindF (WriteBlock env r1 (index_block_contents index_blocks') False)
                 (\<lambda>(handle, r2). index_loop n env r2 index_blocks' handle s')))
      else Inr (None, index_block_handle, r))"

text \<open>The block under \<open>if (ok())\<close> that writes the meta-index block and the index
  block or blocks.\<close>

definition Finish_index ::
  "nat \<Rightarrow> ('ib, 'fb, 'pc) Env \<Rightarrow> ('ib, 'fb, 'pc) Rep \<Rightarrow> (string \<times> BlockHandle) list
     \<Rightarrow> IndexBlocks \<Rightarrow> Status
     \<Rightarrow> fault + (Status option \<times> BlockHandle \<times> BlockHandle \<times> ('ib, 'fb, 'pc) Rep)" where
  "Finish_index fuel env r meta_index index_blocks index_builder_status =
     (if ok (status r) then
        bindF (WriteRawBlock env r (metaindex_block env meta_index) kNoCompression)
          (\<lambda>(metaindex_block_handle, r1).
            bindF (WriteBlock env r1 (index_block_contents index_blocks) False)
              (\<lambda>(index_block_handle, r2).
                bindF (index_loop fuel env r2 index_blocks index_block_handle
                         index_builder_status)
                  (\<lambda>(early, index_block_handle', r3).
                    Inr (early, metaindex_block_handle, index_block_handle', r3))))
      else Inr (None, BlockHandle_uninitialized, BlockHandle_uninitialized, r))"

text \<open>The footer the builder makes: the constructor, then the three setters.\<close>

definition builder_footer ::
  "bool \<Rightarrow> FormatConstants \<Rightarrow> BlockBasedTableOptions \<Rightarrow> BlockHandle \<Rightarrow> BlockHandle
     \<Rightarrow> fault + Footer" where
  "builder_footer nd c topts metaindex_block_handle index_block_handle =
     (let legacy = (format_version topts = 0) in
      assert_then nd (options_checksum topts = kCRC32c \<or> format_version topts \<noteq> 0)
        (bindF (Footer_new nd c
                  (if legacy then kLegacyBlockBasedTableMagicNumber
                   else kBlockBasedTableMagicNumber)
                  (format_version topts))
           (\<lambda>footer. Inr (footer\<lparr>metaindex_handle := metaindex_block_handle,
                                   index_handle := index_block_handle,
                                   checksum := options_checksum topts\<rparr>))))"

text \<open>The block under \<open>if (ok())\<close> that writes the footer.\<close>

definition Finish_footer ::
  "('ib, 'fb, 'pc) Env \<Rightarrow> ('ib, 'fb, 'pc) Rep \<Rightarrow> BlockHandle \<Rightarrow> BlockHandle
     \<Rightarrow> fault + ('ib, 'fb, 'pc) Rep" where
  "Finish_footer env r metaindex_block_handle index_block_handle =
     (if ok (status r) then
        bindF (builder_footer (NDEBUG env) (format_constants env) (table_options r)
                 metaindex_block_handle index_block_handle)
          (\<lambda>footer.
            bindF (Footer_EncodeTo (NDEBUG env) (format_constants env) footer)
              (\<lambda>footer_encoding.
                (let (s, f) = file_Append (file_writer r) footer_encoding;
                     r1 = r\<lparr>status := s, file_writer := f\<rparr>
                 in Inr (if ok (status r1)
                         then r1\<lparr>offset := offset r1 + of_nat (length footer_encoding)\<rparr>
                         else r1))))
      else Inr r)"

text \<open>\<open>Finish\<close> up to the footer: everything before \<open>// Write footer\<close>. The
  result is the code of an early \<open>return\<close>, if one was taken, the handles of the
  meta-index block and of the index block, and the builder. The first argument bounds the
  iterations of each of the two loops.\<close>

definition Finish_blocks ::
  "nat \<Rightarrow> ('ib, 'fb, 'pc) Env \<Rightarrow> ('ib, 'fb, 'pc) Rep
     \<Rightarrow> fault + (Status option \<times> BlockHandle \<times> BlockHandle \<times> ('ib, 'fb, 'pc) Rep)" where
  "Finish_blocks fuel env r =
     (let empty_data_block = BlockBuilder_empty (data_block r) in
      bindF (Flush env r) (\<lambda>r1.
      assert_then (NDEBUG env) (\<not> closed r1)
       (let r2 = r1\<lparr>closed := True\<rparr> in
        bindF
          (if ok (status r2) \<and> \<not> empty_data_block then
             bindF (ib_AddIndexEntry env (index_builder r2) (last_key r2) None
                      (pending_handle r2))
               (\<lambda>(ib, lk). Inr (r2\<lparr>index_builder := ib, last_key := lk\<rparr>))
           else Inr r2)
          (\<lambda>r3.
        (let r4 = r3\<lparr>first_key := []\<rparr> in
        bindF
          (if ok (status r4) \<and> filter_builder r4 \<noteq> None
           then filter_loop fuel env r4 BlockHandle_uninitialized
           else Inr (BlockHandle_uninitialized, r4))
          (\<lambda>(filter_block_handle, r5).
        bindF (ib_Finish env (index_builder r5) IndexBlocks_new BlockHandle_uninitialized)
          (\<lambda>(index_builder_status, index_blocks, ib).
        (let r6 = r5\<lparr>index_builder := ib\<rparr> in
        bindF
          (if IsIncomplete index_builder_status
           then assert_then (NDEBUG env) (meta_blocks index_blocks = []) (Inr ())
           else Inr ())
          (\<lambda>u.
        if \<not> IsIncomplete index_builder_status \<and> \<not> ok index_builder_status
        then Inr (Some index_builder_status, BlockHandle_uninitialized,
                  BlockHandle_uninitialized, r6)
        else
        bindF (write_meta_blocks env r6 (meta_blocks index_blocks) [])
          (\<lambda>(meta_index, r7).
        bindF (Finish_meta env r7 meta_index filter_block_handle)
          (\<lambda>(meta_index1, r8).
        Finish_index fuel env r8 meta_index1 index_blocks index_builder_status)))))))))))"

text \<open>\<open>Finish\<close>: the code returned and the builder afterwards.\<close>

definition Finish ::
  "nat \<Rightarrow> ('ib, 'fb, 'pc) Env \<Rightarrow> ('ib, 'fb, 'pc) Rep
     \<Rightarrow> fault + (Status \<times> ('ib, 'fb, 'pc) Rep)" where
  "Finish fuel env r =
     bindF (Finish_blocks fuel env r)
       (\<lambda>(early, metaindex_block_handle, index_block_handle, r9).
         (case early of
            Some code \<Rightarrow> Inr (code, r9)
          | None \<Rightarrow>
              bindF (Finish_footer env r9 metaindex_block_handle index_block_handle)
                (\<lambda>r10. Inr (status r10, r10))))"

definition Abandon ::
  "('ib, 'fb, 'pc) Env \<Rightarrow> ('ib, 'fb, 'pc) Rep \<Rightarrow> fault + (Status \<times> ('ib, 'fb, 'pc) Rep)" where
  "Abandon env r = assert_then (NDEBUG env) (\<not> closed r) (Inr (OK, r\<lparr>closed := True\<rparr>))"


subsection \<open>What the block writer's claims are stated about, and an example builder\<close>


text \<open>The trailer \<open>WriteRawBlock\<close> writes: for xxHash the hash is fed the first
  \<open>static_cast<uint32_t>(size)\<close> bytes of the contents, then the type byte.\<close>

definition written_trailer :: "Checksums \<Rightarrow> ChecksumType \<Rightarrow> bytes \<Rightarrow> CompressionType \<Rightarrow> bytes" where
  "written_trailer cs ct block_contents type =
     CompressionType_char type #
     PutFixed32 (if ct = kxxHash
                 then XXH32 cs (take (unat (of_nat (length block_contents) :: 32 word))
                                  block_contents @ [CompressionType_char type]) 0
                 else crc32c_Mask cs (crc32c_Value cs (block_contents @ [CompressionType_char type])))"

text \<open>An index builder for the examples in the manner of the hash index builder, the one
  that hands out meta blocks (see the comment in \<open>Finish\<close>): its state is the meta blocks
  it will hand out and its index block.\<close>

type_synonym example_index = "(string \<times> bytes) list \<times> BlockBuilder"

definition example_env :: "bool \<Rightarrow> (example_index, unit, unit) Env" where
  "example_env nd =
     \<lparr>NDEBUG = nd,
      codecs = example_codecs,
      checksums = example_checksums,
      blocks = example_index_env,
      format_constants = example_constants,
      kCompressionSizeLimit = 2147483647,
      IsValueType_of_key = (\<lambda>k. True),
      IsRangeDeletion_of_key = (\<lambda>k. False),
      ExtractUserKey = (\<lambda>k. k),
      Compare = (\<lambda>a b. if a = b then 0 else if length a < length b then -1 else 1),
      flush_block_policy_Update = (\<lambda>b k v. 2 \<le> length (added b)),
      ib_AddIndexEntry = (\<lambda>ib last next h.
         bindF (BlockHandle_EncodeTo nd h)
           (\<lambda>enc. Inr ((fst ib, BlockBuilder_Add (snd ib) last enc), last))),
      ib_OnKeyAdded = (\<lambda>ib k. ib),
      ib_Finish = (\<lambda>ib index_blocks h.
         Inr (OK, index_blocks\<lparr>index_block_contents :=
                                  BlockBuilder_Finish example_index_env (snd ib),
                                meta_blocks := fst ib\<rparr>, ib)),
      ib_EstimatedSize = (\<lambda>ib. BlockBuilder_CurrentSizeEstimate example_index_env (snd ib)),
      fb_StartBlock = (\<lambda>fb off. fb),
      fb_Add = (\<lambda>fb k. fb),
      fb_Finish = (\<lambda>fb h. ([], OK, fb)),
      fb_IsBlockBased = (\<lambda>fb. False),
      NotifyCollectTableCollectorsOnAdd = (\<lambda>pc k v off. pc),
      property_block = (\<lambda>p pc. [ucast (num_entries p), ucast (num_data_blocks p)]),
      metaindex_block = (\<lambda>ms. [of_nat (length ms)]),
      kPropertiesBlock = ''properties'',
      kCompressionDictBlock = ''compression_dict'',
      kRangeDelBlock = ''range_del'',
      CompressionTypeToString = (\<lambda>t. if t = kNoCompression then ''NoCompression'' else ''Other'')\<rparr>"

definition example_table_options :: BlockBasedTableOptions where
  "example_table_options =
     \<lparr>format_version = 2, options_checksum = kCRC32c, verify_compression = True,
      index_type = kHashSearch, partition_filters = False, whole_key_filtering = True,
      filter_policy = None\<rparr>"

definition example_ioptions :: ImmutableCFOptions where
  "example_ioptions =
     \<lparr>user_comparator = Some ''bytewise'', merge_operator = None, prefix_extractor = None,
      table_properties_collector_factories = []\<rparr>"

text \<open>A new builder for the examples: the given compression, an empty file whose appends
  return the given statuses, and an index builder with one (empty) meta block.\<close>

definition example_builder ::
  "bool \<Rightarrow> CompressionType \<Rightarrow> Status list \<Rightarrow> (example_index, unit, unit) Rep" where
  "example_builder nd ctype results =
     BlockBasedTableBuilder_new (example_env nd) example_ioptions example_table_options
       ([(''prefixes'', [])], BlockBuilder_new) None () 0
       \<lparr>written = [], append_results = results\<rparr> ctype None None [] False ''default''"

text \<open>The dictionary \<open>WriteBlock\<close> compresses with: the builder's, for a data block and
  when it is not empty, and the empty one otherwise.\<close>

definition dict_for_block :: "('ib, 'fb, 'pc) Rep \<Rightarrow> bool \<Rightarrow> bytes" where
  "dict_for_block r is_data_block =
     (case compression_dict r of
        Some d \<Rightarrow> (if is_data_block \<and> d \<noteq> [] then d else [])
      | None \<Rightarrow> [])"

text \<open>How a builder comes to have an error latched: three entries are added to a builder
  whose file fails the first append; the third \<open>Add\<close> flushes the block of the first two.\<close>

definition example_three_adds ::
  "bool \<Rightarrow> fault + (Status \<times> (example_index, unit, unit) Rep)" where
  "example_three_adds nd =
     bindF (Add (example_env nd) (example_builder nd kNoCompression [IOError ''disk full''])
              [0x61] [1])
       (\<lambda>(c1, r1). bindF (Add (example_env nd) r1 [0x62] [2])
          (\<lambda>(c2, r2). Add (example_env nd) r2 [0x63] [3]))"


text \<open>Options that ask for format_version 0 with the given checksum type, and a new builder
  made with them.\<close>

definition example_legacy_options :: "ChecksumType \<Rightarrow> BlockBasedTableOptions" where
  "example_legacy_options cs =
     example_table_options\<lparr>format_version := 0, options_checksum := cs\<rparr>"

definition example_legacy_builder :: "ChecksumType \<Rightarrow> (example_index, unit, unit) Rep" where
  "example_legacy_builder cs =
     BlockBasedTableBuilder_new (example_env False) example_ioptions (example_legacy_options cs)
       ([], BlockBuilder_new) None () 0
       \<lparr>written = [], append_results = []\<rparr> kNoCompression None None [] False ''default''"


section \<open>Facts about the integer coding\<close>

lemma c127: "(127 :: 'a::len word) = mask 7"
  by (simp add: mask_eq_decr_exp)

lemma bit128: "bit (128 :: 'a::semiring_bits) n = (possible_bit TYPE('a) n \<and> n = 7)"
  using bit_exp_iff[where ?'a="'a", of 7 n] by auto

lemma cont_byte:
  "(ucast ((ucast ((v::64 word) AND 127) :: byte) OR 128) :: 64 word) = (v AND 127) OR 128"
  unfolding c127 by (rule bit_word_eqI) (auto simp: bit_simps bit128)

lemma cont_byte_and128: "((v::64 word) AND 127 OR 128) AND 128 \<noteq> 0"
proof -
  have "bit (((v::64 word) AND 127 OR 128) AND 128) 7" by (simp add: bit_simps bit128)
  then show ?thesis by force
qed

lemma cont_byte_and127: "((v::64 word) AND 127 OR 128) AND 127 = v AND 127"
  unfolding c127 by (rule bit_word_eqI) (auto simp: bit_simps bit128)

lemma split7:
  "push_bit s ((v::64 word) AND 127) OR push_bit (s + 7) (drop_bit 7 v) = push_bit s v"
proof (rule bit_word_eqI)
  fix n assume "n < LENGTH(64)"
  show "bit (push_bit s (v AND 127) OR push_bit (s + 7) (drop_bit 7 v)) n = bit (push_bit s v) n"
  proof (cases "s + 7 \<le> n")
    case True
    then have "7 + (n - (s + 7)) = n - s" by simp
    with True show ?thesis unfolding c127 by (auto simp: bit_simps)
  next
    case False
    then show ?thesis unfolding c127 by (auto simp: bit_simps)
  qed
qed

lemma byte_small: "v < 128 \<Longrightarrow> (ucast (ucast v :: byte) :: 64 word) = (v :: 64 word)"
proof -
  assume a: "v < 128"
  have "v < 2 ^ 8" using a by (simp add: word_less_nat_alt)
  then have "v AND mask 8 = v" by (rule less_mask_eq)
  moreover have "(ucast (ucast v :: byte) :: 64 word) = v AND mask 8"
    by (rule bit_word_eqI) (auto simp: bit_simps)
  ultimately show ?thesis by simp
qed

lemma small_and128: "v < 128 \<Longrightarrow> (v :: 64 word) AND 128 = 0"
proof -
  assume a: "v < 128"
  have "v < 2 ^ 7" using a by simp
  then have t: "v AND mask 7 = v" by (rule less_mask_eq)
  have "(v AND mask 7) AND 128 = 0"
    by (rule bit_word_eqI) (auto simp: bit_simps bit128)
  then show ?thesis using t by simp
qed

lemma drop7_bound:
  assumes "s + 7 \<le> 63" "unat (v :: 64 word) < 2 ^ (64 - s)"
  shows "unat (drop_bit 7 v) < 2 ^ (64 - (s + 7))"
proof -
  have "(2::nat) ^ (64 - s) = 2 ^ (64 - (s + 7)) * 128"
  proof -
    have "64 - s = (64 - (s + 7)) + 7" using assms by simp
    then show ?thesis by (simp only: power_add) simp
  qed
  with assms have "unat v div 128 < 2 ^ (64 - (s + 7))"
    by (simp add: less_mult_imp_div_less)
  then show ?thesis
    by (simp add: drop_bit_eq_div unat_div)
qed

lemma ge128_shift:
  assumes "\<not> (v :: 64 word) < 128" "unat v < 2 ^ (64 - s)" "s \<le> 63"
  shows "s + 7 \<le> 63"
proof (rule ccontr)
  assume "\<not> s + 7 \<le> 63"
  then have "64 - s \<le> 7" by simp
  then have "(2::nat) ^ (64 - s) \<le> 2 ^ 7" by (rule power_increasing) simp
  with assms(2) have "unat v < 128" by simp
  with assms(1) show False by (simp add: word_less_nat_alt)
qed

text \<open>Decoding what the encoder wrote, from any shift the value still fits at.\<close>

lemma GetVarint64Ptr_Encode:
  "s \<le> 63 \<Longrightarrow> unat v < 2 ^ (64 - s) \<Longrightarrow>
   GetVarint64Ptr s r (EncodeVarint64 v @ rest) = Some (r OR push_bit s v, rest)"
proof (induction v arbitrary: s r rule: EncodeVarint64.induct)
  case (1 v)
  show ?case
  proof (cases "v < 128")
    case True
    then show ?thesis using 1(2)
      by (subst EncodeVarint64.simps, subst GetVarint64Ptr.simps)
         (simp add: byte_small small_and128)
  next
    case False
    have s7: "s + 7 \<le> 63" using False 1(3) 1(2) by (rule ge128_shift)
    have b: "unat (drop_bit 7 v) < 2 ^ (64 - (s + 7))" using s7 1(3) by (rule drop7_bound)
    have ih: "GetVarint64Ptr (s + 7) (r OR push_bit s (v AND 127))
                (EncodeVarint64 (drop_bit 7 v) @ rest)
        = Some ((r OR push_bit s (v AND 127)) OR push_bit (s + 7) (drop_bit 7 v), rest)"
      using 1(1)[OF False s7 b] by simp
    have eq: "(r OR push_bit s (v AND 127)) OR push_bit (s + 7) (drop_bit 7 v) = r OR push_bit s v"
      by (simp only: or.assoc split7)
    show ?thesis using False 1(2) ih[unfolded eq]
      by (subst EncodeVarint64.simps, subst GetVarint64Ptr.simps)
         (simp add: cont_byte cont_byte_and128 cont_byte_and127 Let_def)
  qed
qed

lemma GetVarint64_Encode: "GetVarint64 (EncodeVarint64 v @ rest) = Some (v, rest)"
proof -
  have "unat v < 2 ^ LENGTH(64)" by (rule unsigned_less)
  then have "unat v < 2 ^ (64 - 0)" by simp
  from GetVarint64Ptr_Encode[OF _ this, of 0 rest] show ?thesis
    unfolding GetVarint64_def by simp
qed

lemma has_more_ucast: "((ucast (b :: byte) :: 64 word) AND 128 \<noteq> 0) = has_more b"
proof -
  have "((ucast b :: 64 word) AND 128 = 0) = (\<not> bit b 7)"
  proof
    assume "(ucast b :: 64 word) AND 128 = 0"
    then have "\<not> bit ((ucast b :: 64 word) AND 128) 7" by simp
    then show "\<not> bit b 7" by (simp add: bit_simps bit128)
  next
    assume "\<not> bit b 7"
    then show "(ucast b :: 64 word) AND 128 = 0"
      by (intro bit_word_eqI) (auto simp: bit_simps bit128)
  qed
  then show ?thesis by (simp add: has_more_def)
qed

text \<open>The decoder fails exactly on the inputs without a complete varint64.\<close>

lemma GetVarint64Ptr_None_iff:
  "(GetVarint64Ptr s r p = None) =
   (\<not> (length (takeWhile has_more p) < length p \<and> s + 7 * length (takeWhile has_more p) \<le> 63))"
proof (induction p arbitrary: s r)
  case Nil
  then show ?case by (subst GetVarint64Ptr.simps) simp
next
  case (Cons b p)
  show ?case
    by (subst GetVarint64Ptr.simps) (auto simp: Let_def has_more_ucast Cons)
qed

lemma GetVarint64Ptr_rest:
  "GetVarint64Ptr s r p = Some (v, q) \<Longrightarrow> q = drop (length (takeWhile has_more p) + 1) p"
proof (induction p arbitrary: s r)
  case Nil
  then show ?case by (subst (asm) GetVarint64Ptr.simps) simp
next
  case (Cons b p)
  from Cons.prems show ?case
    by (subst (asm) GetVarint64Ptr.simps)
       (auto simp: Let_def has_more_ucast split: if_splits dest: Cons.IH)
qed

lemma GetVarint64_None_iff: "(GetVarint64 p = None) = (\<not> varint64_complete p)"
  unfolding GetVarint64_def varint64_complete_def Let_def GetVarint64Ptr_None_iff by auto

lemma GetVarint64_rest: "GetVarint64 p = Some (v, q) \<Longrightarrow> q = after_varint64 p"
  unfolding GetVarint64_def after_varint64_def by (rule GetVarint64Ptr_rest)

section \<open>Block handles: round trip and corruption\<close>

lemma DecodeFrom_corrupt:
  assumes "\<not> two_varint64s input"
  shows "\<exists>rest. BlockHandle_DecodeFrom h0 input =
           (Corruption ''bad block handle'', h0\<lparr>handle_offset := 0, handle_size := 0\<rparr>, rest)"
proof (cases "GetVarint64 input")
  case None
  then show ?thesis by (simp add: BlockHandle_DecodeFrom_def)
next
  case (Some a)
  obtain off input1 where a: "a = (off, input1)" by (cases a)
  have c: "varint64_complete input" using Some GetVarint64_None_iff[of input] by simp
  have "input1 = after_varint64 input" using Some a GetVarint64_rest by simp
  with assms c have "\<not> varint64_complete input1" by (simp add: two_varint64s_def)
  then have "GetVarint64 input1 = None" by (simp add: GetVarint64_None_iff)
  with Some a show ?thesis by (simp add: BlockHandle_DecodeFrom_def)
qed

lemma DecodeFrom_Encode:
  assumes "nd \<or> (handle_offset h \<noteq> NOT 0 \<and> handle_size h \<noteq> NOT 0)"
  shows "\<exists>bs. BlockHandle_EncodeTo nd h = Inr bs \<and>
          BlockHandle_DecodeFrom h0 (bs @ rest) =
            (OK, h0\<lparr>handle_offset := handle_offset h, handle_size := handle_size h\<rparr>, rest)"
  using assms
  by (auto simp: BlockHandle_EncodeTo_def assert_then_def PutVarint64Varint64_def
        BlockHandle_DecodeFrom_def GetVarint64_Encode)

text \<open>C8. \<open>BlockHandle::DecodeFrom\<close> applied to the output of \<open>BlockHandle::EncodeTo\<close>
  (followed by any further bytes) returns OK, reproduces offset and size, and leaves exactly
  the further bytes; this holds for every handle that \<open>EncodeTo\<close> accepts, that is every pair
  whose fields are not the sentinel \<open>~0\<close> (every pair at all in a build without assertions).
  Applied to a byte sequence that does not hold two complete varint64s, it returns
  Corruption "bad block handle" and the handle is reset to offset 0, size 0.\<close>

theorem BlockHandle_roundtrip_or_corruption:
  fixes h :: BlockHandle and h0 :: BlockHandle
  shows "(nd \<or> (handle_offset h \<noteq> NOT 0 \<and> handle_size h \<noteq> NOT 0) \<longrightarrow>
            (\<exists>bs. BlockHandle_EncodeTo nd h = Inr bs \<and>
                  BlockHandle_DecodeFrom h0 (bs @ rest) = (OK, h, rest)))
       \<and> (\<not> two_varint64s input \<longrightarrow>
            (\<exists>rest'. BlockHandle_DecodeFrom h0 input
                       = (Corruption ''bad block handle'', kNullBlockHandle, rest')))"
proof (intro conjI impI)
  assume a: "nd \<or> (handle_offset h \<noteq> NOT 0 \<and> handle_size h \<noteq> NOT 0)"
  have "h0\<lparr>handle_offset := handle_offset h, handle_size := handle_size h\<rparr> = h" by simp
  with DecodeFrom_Encode[OF a, of h0 rest]
  show "\<exists>bs. BlockHandle_EncodeTo nd h = Inr bs \<and>
             BlockHandle_DecodeFrom h0 (bs @ rest) = (OK, h, rest)" by simp
next
  assume "\<not> two_varint64s input"
  moreover have "h0\<lparr>handle_offset := 0, handle_size := 0\<rparr> = kNullBlockHandle"
    by (simp add: kNullBlockHandle_def)
  ultimately show "\<exists>rest'. BlockHandle_DecodeFrom h0 input
                  = (Corruption ''bad block handle'', kNullBlockHandle, rest')"
    using DecodeFrom_corrupt[of input h0] by simp
qed

text \<open>The theorem at the handle (300, 5), at a truncated varint and at a varint whose tenth
  byte still has the high bit set.\<close>

theorem BlockHandle_roundtrip_or_corruption_witness:
  "BlockHandle_EncodeTo False \<lparr>handle_offset = 300, handle_size = 5\<rparr> = Inr [0xAC, 2, 5]
   \<and> BlockHandle_DecodeFrom BlockHandle_uninitialized [0xAC, 2, 5, 7]
       = (OK, \<lparr>handle_offset = 300, handle_size = 5\<rparr>, [7])
   \<and> \<not> two_varint64s [1, 0x80]
   \<and> fst (BlockHandle_DecodeFrom \<lparr>handle_offset = 300, handle_size = 5\<rparr> [1, 0x80])
       = Corruption ''bad block handle''
   \<and> fst (snd (BlockHandle_DecodeFrom \<lparr>handle_offset = 300, handle_size = 5\<rparr> [1, 0x80]))
       = kNullBlockHandle
   \<and> \<not> two_varint64s [0xFF, 0xFF, 0xFF, 0xFF, 0xFF, 0xFF, 0xFF, 0xFF, 0xFF, 0xFF, 1, 1]
   \<and> fst (BlockHandle_DecodeFrom BlockHandle_uninitialized
             [0xFF, 0xFF, 0xFF, 0xFF, 0xFF, 0xFF, 0xFF, 0xFF, 0xFF, 0xFF, 1, 1])
       = Corruption ''bad block handle''"
proof -
  let ?h = "\<lparr>handle_offset = 300, handle_size = 5\<rparr>"
  let ?long = "[0xFF, 0xFF, 0xFF, 0xFF, 0xFF, 0xFF, 0xFF, 0xFF, 0xFF, 0xFF, 1, 1] :: bytes"
  have enc: "BlockHandle_EncodeTo False ?h = Inr [0xAC, 2, 5]"
    by (simp add: BlockHandle_EncodeTo_def assert_then_def PutVarint64Varint64_def
          EncodeVarint64.simps)
  have pre: "False \<or> (handle_offset ?h \<noteq> NOT 0 \<and> handle_size ?h \<noteq> NOT 0)" by simp
  have t1: "\<not> two_varint64s [1, 0x80]"
    by (simp add: two_varint64s_def varint64_complete_def after_varint64_def has_more_def)
  have t2: "\<not> two_varint64s ?long"
    by (simp add: two_varint64s_def varint64_complete_def after_varint64_def has_more_def)
  from BlockHandle_roundtrip_or_corruption[of False ?h BlockHandle_uninitialized "[7]"]
  have r1: "BlockHandle_DecodeFrom BlockHandle_uninitialized [0xAC, 2, 5, 7] = (OK, ?h, [7])"
    using pre enc by simp
  from BlockHandle_roundtrip_or_corruption[of False ?h ?h "[]" "[1, 0x80]"] t1
  obtain r where r2: "BlockHandle_DecodeFrom ?h [1, 0x80]
                        = (Corruption ''bad block handle'', kNullBlockHandle, r)" by blast
  from BlockHandle_roundtrip_or_corruption[of False ?h BlockHandle_uninitialized "[]" ?long] t2
  obtain r' where r3: "BlockHandle_DecodeFrom BlockHandle_uninitialized ?long
                        = (Corruption ''bad block handle'', kNullBlockHandle, r')" by blast
  show ?thesis using enc r1 t1 t2 r2 r3 by simp
qed


subsection \<open>Lengths and fixed-width round trips\<close>

lemma length_EncodeVarint64_aux:
  "unat v < 2 ^ (7 * Suc k) \<Longrightarrow> length (EncodeVarint64 v) \<le> Suc k"
proof (induction k arbitrary: v)
  case 0
  then have "v < 128" by (simp add: word_less_nat_alt)
  then show ?case by (subst EncodeVarint64.simps) simp
next
  case (Suc k)
  show ?case
  proof (cases "v < 128")
    case True
    then show ?thesis by (subst EncodeVarint64.simps) simp
  next
    case False
    have "(2::nat) ^ (7 * Suc (Suc k)) = 2 ^ (7 * Suc k) * 128"
      by (simp add: power_add)
    with Suc.prems have "unat v div 128 < 2 ^ (7 * Suc k)"
      by (simp add: less_mult_imp_div_less)
    then have "unat (drop_bit 7 v) < 2 ^ (7 * Suc k)"
      by (simp add: drop_bit_eq_div unat_div)
    from Suc.IH[OF this] False show ?thesis
      by (subst EncodeVarint64.simps) simp
  qed
qed

lemma length_EncodeVarint64: "length (EncodeVarint64 v) \<le> 10"
proof -
  have "unat v < 2 ^ LENGTH(64)" by (rule unsigned_less)
  also have "\<dots> \<le> (2::nat) ^ (7 * Suc 9)" by simp
  finally show ?thesis using length_EncodeVarint64_aux[of v 9] by simp
qed

lemma DecodeFixed32_PutFixed32: "DecodeFixed32 (PutFixed32 v @ rest) = Some v"
proof -
  have "(ucast (ucast v :: byte) OR push_bit 8 (ucast (ucast (drop_bit 8 v) :: byte))
        OR push_bit 16 (ucast (ucast (drop_bit 16 v) :: byte))
        OR push_bit 24 (ucast (ucast (drop_bit 24 v) :: byte)) :: 32 word) = v"
  proof (rule bit_word_eqI)
    fix n assume n: "n < LENGTH(32)"
    consider "n < 8" | "8 \<le> n" "n < 16" | "16 \<le> n" "n < 24" | "24 \<le> n"
      by linarith
    then show "bit (ucast (ucast v :: byte) OR push_bit 8 (ucast (ucast (drop_bit 8 v) :: byte))
        OR push_bit 16 (ucast (ucast (drop_bit 16 v) :: byte))
        OR push_bit 24 (ucast (ucast (drop_bit 24 v) :: byte)) :: 32 word) n = bit v n"
    proof cases
      case 1 then show ?thesis using n by (auto simp: bit_simps)
    next
      case 2 then have "8 + (n - 8) = n" by simp
      with 2 show ?thesis using n by (auto simp: bit_simps)
    next
      case 3 then have "16 + (n - 16) = n" by simp
      with 3 show ?thesis using n by (auto simp: bit_simps)
    next
      case 4 then have "24 + (n - 24) = n" by simp
      with 4 show ?thesis using n by (auto simp: bit_simps)
    qed
  qed
  then show ?thesis by (simp add: PutFixed32_def)
qed

lemma DecodeFixed64_PutFixed64: "DecodeFixed64 (PutFixed64 v @ rest) = Some v"
proof -
  have "(ucast (ucast v :: byte) OR push_bit 8 (ucast (ucast (drop_bit 8 v) :: byte))
        OR push_bit 16 (ucast (ucast (drop_bit 16 v) :: byte))
        OR push_bit 24 (ucast (ucast (drop_bit 24 v) :: byte))
        OR push_bit 32 (ucast (ucast (drop_bit 32 v) :: byte))
        OR push_bit 40 (ucast (ucast (drop_bit 40 v) :: byte))
        OR push_bit 48 (ucast (ucast (drop_bit 48 v) :: byte))
        OR push_bit 56 (ucast (ucast (drop_bit 56 v) :: byte)) :: 64 word) = v"
  proof (rule bit_word_eqI)
    fix n assume n: "n < LENGTH(64)"
    consider "n < 8" | "8 \<le> n" "n < 16" | "16 \<le> n" "n < 24" | "24 \<le> n" "n < 32"
      | "32 \<le> n" "n < 40" | "40 \<le> n" "n < 48" | "48 \<le> n" "n < 56" | "56 \<le> n"
      by linarith
    then show "bit (ucast (ucast v :: byte) OR push_bit 8 (ucast (ucast (drop_bit 8 v) :: byte))
        OR push_bit 16 (ucast (ucast (drop_bit 16 v) :: byte))
        OR push_bit 24 (ucast (ucast (drop_bit 24 v) :: byte))
        OR push_bit 32 (ucast (ucast (drop_bit 32 v) :: byte))
        OR push_bit 40 (ucast (ucast (drop_bit 40 v) :: byte))
        OR push_bit 48 (ucast (ucast (drop_bit 48 v) :: byte))
        OR push_bit 56 (ucast (ucast (drop_bit 56 v) :: byte)) :: 64 word) n = bit v n"
    proof cases
      case 1 then show ?thesis using n by (auto simp: bit_simps)
    next
      case 2 then have "8 + (n - 8) = n" by simp
      with 2 show ?thesis using n by (auto simp: bit_simps)
    next
      case 3 then have "16 + (n - 16) = n" by simp
      with 3 show ?thesis using n by (auto simp: bit_simps)
    next
      case 4 then have "24 + (n - 24) = n" by simp
      with 4 show ?thesis using n by (auto simp: bit_simps)
    next
      case 5 then have "32 + (n - 32) = n" by simp
      with 5 show ?thesis using n by (auto simp: bit_simps)
    next
      case 6 then have "40 + (n - 40) = n" by simp
      with 6 show ?thesis using n by (auto simp: bit_simps)
    next
      case 7 then have "48 + (n - 48) = n" by simp
      with 7 show ?thesis using n by (auto simp: bit_simps)
    next
      case 8 then have "56 + (n - 56) = n" by simp
      with 8 show ?thesis using n by (auto simp: bit_simps)
    qed
  qed
  then show ?thesis by (simp add: PutFixed64_def)
qed

lemma magic_join:
  "push_bit 32 (ucast (ucast (drop_bit 32 m) :: 32 word)) OR (ucast (ucast (m AND 0xffffffff) :: 32 word) :: 64 word) = (m :: 64 word)"
proof -
  have m: "(0xffffffff :: 64 word) = mask 32" by (simp add: mask_eq_decr_exp)
  show ?thesis unfolding m
  proof (rule bit_word_eqI)
    fix n assume n: "n < LENGTH(64)"
    show "bit (push_bit 32 (ucast (ucast (drop_bit 32 m) :: 32 word))
               OR (ucast (ucast (m AND mask 32) :: 32 word) :: 64 word)) n = bit m n"
    proof (cases "32 \<le> n")
      case True then have "32 + (n - 32) = n" by simp
      with True show ?thesis using n by (auto simp: bit_simps)
    next
      case False then show ?thesis using n by (auto simp: bit_simps)
    qed
  qed
qed

section \<open>Footer: round trip\<close>

lemma length_PutFixed32 [simp]: "length (PutFixed32 v) = 4"
  by (simp add: PutFixed32_def)

lemma length_PutFixed64 [simp]: "length (PutFixed64 v) = 8"
  by (simp add: PutFixed64_def)

lemma length_PutMagic [simp]: "length (PutMagic m) = 8"
  by (simp add: PutMagic_def)

lemma length_resize [simp]: "length (resize s n) = n"
  by (simp add: resize_def)

lemma resize_short: "length s \<le> n \<Longrightarrow> resize s n = s @ replicate (n - length s) 0"
  by (simp add: resize_def)

lemma length_PutVarint64Varint64: "length (PutVarint64Varint64 a b) \<le> 20"
  using length_EncodeVarint64[of a] length_EncodeVarint64[of b]
  by (simp add: PutVarint64Varint64_def)

lemma DecodeFixed32_at_app:
  "pos = int (length xs) \<Longrightarrow> DecodeFixed32_at (xs @ PutFixed32 v @ ys) pos = Inr v"
  by (simp add: DecodeFixed32_at_def DecodeFixed32_PutFixed32)

lemma magic_lo:
  assumes "input = xs @ PutMagic m"
  shows "DecodeFixed32_at input (int (length input) - int kMagicNumberLengthByte)
           = Inr (ucast (m AND 0xffffffff))"
proof -
  have "input = xs @ PutFixed32 (ucast (m AND 0xffffffff)) @ PutFixed32 (ucast (drop_bit 32 m))"
    using assms by (simp add: PutMagic_def)
  moreover have "int (length input) - int kMagicNumberLengthByte = int (length xs)"
    using assms by (simp add: kMagicNumberLengthByte_def)
  ultimately show ?thesis by (simp only: DecodeFixed32_at_app)
qed

lemma magic_hi:
  assumes "input = xs @ PutMagic m"
  shows "DecodeFixed32_at input (int (length input) - int kMagicNumberLengthByte + 4)
           = Inr (ucast (drop_bit 32 m))"
proof -
  have "input = (xs @ PutFixed32 (ucast (m AND 0xffffffff))) @ PutFixed32 (ucast (drop_bit 32 m)) @ []"
    using assms by (simp add: PutMagic_def)
  moreover have "int (length input) - int kMagicNumberLengthByte + 4
                   = int (length (xs @ PutFixed32 (ucast (m AND 0xffffffff))))"
    using assms by (simp add: kMagicNumberLengthByte_def)
  ultimately show ?thesis by (simp only: DecodeFixed32_at_app)
qed

lemma version_at:
  assumes "input = xs @ PutFixed32 v @ PutMagic m"
  shows "DecodeFixed32_at input (int (length input) - int kMagicNumberLengthByte - 4) = Inr v"
proof -
  have "int (length input) - int kMagicNumberLengthByte - 4 = int (length xs)"
    using assms by (simp add: kMagicNumberLengthByte_def)
  with assms show ?thesis by (simp only: DecodeFixed32_at_app)
qed

lemma BlockHandle_DecodeFrom_Put:
  "BlockHandle_DecodeFrom h0 (PutVarint64Varint64 (handle_offset h) (handle_size h) @ rest)
     = (OK, h, rest)"
  by (simp add: BlockHandle_DecodeFrom_def PutVarint64Varint64_def GetVarint64_Encode)

lemma Footer_decode_handles_ok:
  "Footer_decode_handles g
     (PutVarint64Varint64 (handle_offset mh) (handle_size mh)
      @ PutVarint64Varint64 (handle_offset ih) (handle_size ih) @ rest)
   = (OK, g\<lparr>metaindex_handle := mh, index_handle := ih\<rparr>, [])"
  by (simp add: Footer_decode_handles_def BlockHandle_DecodeFrom_Put ok_def)

lemma GetVarint32_checksum:
  "ch = kNoChecksum \<or> ch = kCRC32c \<or> ch = kxxHash \<Longrightarrow>
   GetVarint32 (ch # rest) = Some (ucast ch, rest)"
  by (auto simp: GetVarint32_def GetVarint32Ptr.simps kNoChecksum_def kCRC32c_def kxxHash_def)

lemma ucast_checksum:
  "ch = kNoChecksum \<or> ch = kCRC32c \<or> ch = kxxHash \<Longrightarrow>
   (ucast (ucast (ch :: byte) :: 32 word) :: byte) = ch"
  by (auto simp: kNoChecksum_def kCRC32c_def kxxHash_def)

lemma BlockHandle_EncodeTo_ok:
  "nd \<or> BlockHandle_initialized h \<Longrightarrow>
   BlockHandle_EncodeTo nd h = Inr (PutVarint64Varint64 (handle_offset h) (handle_size h))"
  by (auto simp: BlockHandle_EncodeTo_def assert_then_def BlockHandle_initialized_def)

lemma Footer_roundtrip_legacy:
  assumes okc: "FormatConstants_ok c" and v: "Footer_valid c f"
    and leg: "IsLegacyFooterFormat c (table_magic_number f)"
    and f0: "\<not> HasInitializedTableMagicNumber f0"
  shows "\<exists>e. Footer_EncodeTo nd c f = Inr e \<and>
           Footer_DecodeFrom nd c f0 (pre @ e) =
             Inr (OK, f0\<lparr>table_magic_number := canonical_magic c (table_magic_number f),
                         version := 0, checksum := kCRC32c,
                         metaindex_handle := metaindex_handle f,
                         index_handle := index_handle f\<rparr>, [])"
proof -
  define m where "m = table_magic_number f"
  define mi where "mi = PutVarint64Varint64 (handle_offset (metaindex_handle f))
                          (handle_size (metaindex_handle f))"
  define ix where "ix = PutVarint64Varint64 (handle_offset (index_handle f))
                          (handle_size (index_handle f))"
  define pad where "pad = replicate (2 * BlockHandle_kMaxEncodedLength - length (mi @ ix)) (0::byte)"
  define e where "e = (mi @ ix @ pad) @ PutMagic m"
  define input where "input = pre @ e"
  have lens: "length (mi @ ix) \<le> 2 * BlockHandle_kMaxEncodedLength"
    using length_PutVarint64Varint64[of "handle_offset (metaindex_handle f)" "handle_size (metaindex_handle f)"]
      length_PutVarint64Varint64[of "handle_offset (index_handle f)" "handle_size (index_handle f)"]
    by (simp add: mi_def ix_def BlockHandle_kMaxEncodedLength_def)
  have rs: "resize (mi @ ix) (2 * BlockHandle_kMaxEncodedLength) = mi @ ix @ pad"
    using resize_short[OF lens] by (simp add: pad_def)
  have len_e: "length e = kVersion0EncodedLength"
    using lens by (simp add: e_def pad_def kVersion0EncodedLength_def)
  have init: "HasInitializedTableMagicNumber f"
    using okc leg by (auto simp: FormatConstants_ok_def HasInitializedTableMagicNumber_def
        IsLegacyFooterFormat_def)
  have crc: "checksum f = kCRC32c" and ver: "version f = 0"
    using v leg by (simp_all add: Footer_valid_def)
  have hm: "BlockHandle_EncodeTo nd (metaindex_handle f) = Inr mi"
    and hi: "BlockHandle_EncodeTo nd (index_handle f) = Inr ix"
    using v by (simp_all add: Footer_valid_def BlockHandle_EncodeTo_ok mi_def ix_def)
  have enc: "Footer_EncodeTo nd c f = Inr e"
    using init leg crc hm hi rs
    by (simp add: Footer_EncodeTo_def assert_then_def bindF_def Let_def e_def m_def
          kVersion0EncodedLength_def)
  have lo: "DecodeFixed32_at input (int (length input) - int kMagicNumberLengthByte)
              = Inr (ucast (m AND 0xffffffff))"
    by (rule magic_lo[where xs = "pre @ mi @ ix @ pad"]) (simp add: input_def e_def)
  have hi': "DecodeFixed32_at input (int (length input) - int kMagicNumberLengthByte + 4)
              = Inr (ucast (drop_bit 32 m))"
    by (rule magic_hi[where xs = "pre @ mi @ ix @ pad"]) (simp add: input_def e_def)
  have l1: "kMinEncodedLength \<le> length input" and l2: "\<not> length input < kVersion0EncodedLength"
    using len_e by (simp_all add: input_def kMinEncodedLength_def)
  have dr: "drop (length input - kVersion0EncodedLength) input = mi @ ix @ pad @ PutMagic m"
    using len_e by (simp add: input_def) (simp add: e_def)
  have legm: "IsLegacyFooterFormat c m" using leg by (simp add: m_def)
  have up: "UpconvertLegacyFooterFormat nd c m = Inr (canonical_magic c m)"
    using legm by (auto simp: UpconvertLegacyFooterFormat_def canonical_magic_def
        IsLegacyFooterFormat_def)
  have dh: "Footer_decode_handles g (mi @ ix @ pad @ PutMagic m)
              = (OK, g\<lparr>metaindex_handle := metaindex_handle f, index_handle := index_handle f\<rparr>, [])"
    for g unfolding mi_def ix_def by (rule Footer_decode_handles_ok)
  have dec: "Footer_DecodeFrom nd c f0 input =
             Inr (OK, f0\<lparr>table_magic_number := canonical_magic c m,
                         version := 0, checksum := kCRC32c,
                         metaindex_handle := metaindex_handle f,
                         index_handle := index_handle f\<rparr>, [])"
    using f0 l1 l2 legm
    by (simp add: Footer_DecodeFrom_def assert_then_def bindF_def Let_def lo hi' magic_join
          up dr dh)
  show ?thesis using enc dec by (simp add: input_def m_def)
qed

lemma Footer_roundtrip_versioned:
  assumes okc: "FormatConstants_ok c" and v: "Footer_valid c f"
    and bb: "table_magic_number f = kBlockBasedTableMagicNumber"
    and f0: "\<not> HasInitializedTableMagicNumber f0"
  shows "\<exists>e. Footer_EncodeTo nd c f = Inr e \<and>
           Footer_DecodeFrom nd c f0 (pre @ e) =
             Inr (OK, f0\<lparr>table_magic_number := kBlockBasedTableMagicNumber,
                         version := version f, checksum := checksum f,
                         metaindex_handle := metaindex_handle f,
                         index_handle := index_handle f\<rparr>, [])"
proof -
  define mi where "mi = PutVarint64Varint64 (handle_offset (metaindex_handle f))
                          (handle_size (metaindex_handle f))"
  define ix where "ix = PutVarint64Varint64 (handle_offset (index_handle f))
                          (handle_size (index_handle f))"
  define pad where "pad = replicate (kNewVersionsEncodedLength - 12 - length ([checksum f] @ mi @ ix)) (0::byte)"
  define e where "e = ([checksum f] @ mi @ ix @ pad) @ PutFixed32 (version f) @ PutMagic (kBlockBasedTableMagicNumber)"
  define input where "input = pre @ e"
  have lens: "length ([checksum f] @ mi @ ix) \<le> kNewVersionsEncodedLength - 12"
    using length_PutVarint64Varint64[of "handle_offset (metaindex_handle f)" "handle_size (metaindex_handle f)"]
      length_PutVarint64Varint64[of "handle_offset (index_handle f)" "handle_size (index_handle f)"]
    by (simp add: mi_def ix_def BlockHandle_kMaxEncodedLength_def kNewVersionsEncodedLength_def)
  have rs: "resize ([checksum f] @ mi @ ix) (kNewVersionsEncodedLength - 12)
              = [checksum f] @ mi @ ix @ pad"
    using resize_short[OF lens] by (simp add: pad_def)
  have len_e: "length e = kNewVersionsEncodedLength"
    using lens by (simp add: e_def pad_def kNewVersionsEncodedLength_def)
  have nleg: "\<not> IsLegacyFooterFormat c (kBlockBasedTableMagicNumber)"
    using okc by (auto simp: FormatConstants_ok_def IsLegacyFooterFormat_def)
  have init: "HasInitializedTableMagicNumber f"
    using okc bb by (auto simp: FormatConstants_ok_def HasInitializedTableMagicNumber_def)
  have chk: "checksum f = kNoChecksum \<or> checksum f = kCRC32c \<or> checksum f = kxxHash"
    using v by (simp add: Footer_valid_def)
  have hm: "BlockHandle_EncodeTo nd (metaindex_handle f) = Inr mi"
    and hi: "BlockHandle_EncodeTo nd (index_handle f) = Inr ix"
    using v by (simp_all add: Footer_valid_def BlockHandle_EncodeTo_ok mi_def ix_def)
  have enc: "Footer_EncodeTo nd c f = Inr e"
    using init nleg bb hm hi rs
    by (simp add: Footer_EncodeTo_def assert_then_def bindF_def Let_def e_def
          kNewVersionsEncodedLength_def)
  have lo: "DecodeFixed32_at input (int (length input) - int kMagicNumberLengthByte)
              = Inr (ucast ((kBlockBasedTableMagicNumber) AND 0xffffffff))"
    by (rule magic_lo[where xs = "pre @ [checksum f] @ mi @ ix @ pad @ PutFixed32 (version f)"])
       (simp add: input_def e_def)
  have hi': "DecodeFixed32_at input (int (length input) - int kMagicNumberLengthByte + 4)
              = Inr (ucast (drop_bit 32 (kBlockBasedTableMagicNumber)))"
    by (rule magic_hi[where xs = "pre @ [checksum f] @ mi @ ix @ pad @ PutFixed32 (version f)"])
       (simp add: input_def e_def)
  have vr: "DecodeFixed32_at input (int (length input) - int kMagicNumberLengthByte - 4)
              = Inr (version f)"
    by (rule version_at[where xs = "pre @ [checksum f] @ mi @ ix @ pad" and m = kBlockBasedTableMagicNumber])
       (simp add: input_def e_def)
  have l1: "kMinEncodedLength \<le> length input"
    and l2: "\<not> length input < kNewVersionsEncodedLength"
    using len_e by (simp_all add: input_def kMinEncodedLength_def kVersion0EncodedLength_def
        kNewVersionsEncodedLength_def)
  have dr: "drop (length input - kNewVersionsEncodedLength) input
              = checksum f # (mi @ ix @ pad @ PutFixed32 (version f) @ PutMagic (kBlockBasedTableMagicNumber))"
    using len_e by (simp add: input_def) (simp add: e_def)
  have dh: "Footer_decode_handles g (mi @ ix @ pad @ PutFixed32 (version f) @ PutMagic (kBlockBasedTableMagicNumber))
              = (OK, g\<lparr>metaindex_handle := metaindex_handle f, index_handle := index_handle f\<rparr>, [])"
    for g unfolding mi_def ix_def by (rule Footer_decode_handles_ok)
  have dec: "Footer_DecodeFrom nd c f0 input =
             Inr (OK, f0\<lparr>table_magic_number := (kBlockBasedTableMagicNumber),
                         version := version f, checksum := checksum f,
                         metaindex_handle := metaindex_handle f,
                         index_handle := index_handle f\<rparr>, [])"
    using f0 l1 l2 nleg
    by (simp add: Footer_DecodeFrom_def assert_then_def bindF_def Let_def lo hi' vr magic_join
          dr dh GetVarint32_checksum[OF chk] ucast_checksum[OF chk])
  show ?thesis using enc dec by (simp add: input_def)
qed

lemma Footer_roundtrip_extent:
  assumes okc: "FormatConstants_ok c" and v: "Footer_valid c f"
    and ex: "table_magic_number f = kExtentBasedTableMagicNumber c"
    and f0: "\<not> HasInitializedTableMagicNumber f0"
  shows "\<exists>e. Footer_EncodeTo nd c f = Inr e \<and>
           Footer_DecodeFrom nd c f0 (pre @ e) =
             Inr (OK, f0\<lparr>table_magic_number := kExtentBasedTableMagicNumber c,
                         version := version f, valid_size := valid_size f,
                         next_extent := next_extent f, checksum := checksum f,
                         metaindex_handle := metaindex_handle f,
                         index_handle := index_handle f\<rparr>, [])"
proof -
  define K where "K = kVersion3EncodedLength c"
  define mi where "mi = PutVarint64Varint64 (handle_offset (metaindex_handle f))
                          (handle_size (metaindex_handle f))"
  define ix where "ix = PutVarint64Varint64 (handle_offset (index_handle f))
                          (handle_size (index_handle f))"
  define hd where "hd = PutFixed32 (valid_size f) @ PutFixed64 (next_extent f)"
  define pad where "pad = replicate (K - 12 - length (hd @ [checksum f] @ mi @ ix)) (0::byte)"
  define tl where "tl = pad @ PutFixed32 (version f) @ PutMagic (kExtentBasedTableMagicNumber c)"
  define e where "e = (hd @ [checksum f] @ mi @ ix @ pad) @ PutFixed32 (version f) @ PutMagic (kExtentBasedTableMagicNumber c)"
  define input where "input = pre @ e"
  have K65: "65 \<le> K"
    using okc by (simp add: FormatConstants_ok_def K_def BlockHandle_kMaxEncodedLength_def)
  have lens: "length (hd @ [checksum f] @ mi @ ix) \<le> K - 12"
    using length_PutVarint64Varint64[of "handle_offset (metaindex_handle f)" "handle_size (metaindex_handle f)"]
      length_PutVarint64Varint64[of "handle_offset (index_handle f)" "handle_size (index_handle f)"]
      K65
    by (simp add: mi_def ix_def hd_def)
  have rs: "resize (hd @ [checksum f] @ mi @ ix) (K - 12)
              = hd @ [checksum f] @ mi @ ix @ pad"
    using resize_short[OF lens] by (simp add: pad_def)
  have len_e: "length e = K"
    using lens K65 by (simp add: e_def pad_def)
  have nleg: "\<not> IsLegacyFooterFormat c (kExtentBasedTableMagicNumber c)" and nbb: "(kExtentBasedTableMagicNumber c) \<noteq> kBlockBasedTableMagicNumber"
    using okc by (auto simp: FormatConstants_ok_def IsLegacyFooterFormat_def)
  have init: "HasInitializedTableMagicNumber f"
    using okc ex by (auto simp: FormatConstants_ok_def HasInitializedTableMagicNumber_def)
  have chk: "checksum f = kNoChecksum \<or> checksum f = kCRC32c \<or> checksum f = kxxHash"
    using v by (simp add: Footer_valid_def)
  have hm: "BlockHandle_EncodeTo nd (metaindex_handle f) = Inr mi"
    and hi: "BlockHandle_EncodeTo nd (index_handle f) = Inr ix"
    using v by (simp_all add: Footer_valid_def BlockHandle_EncodeTo_ok mi_def ix_def)
  have enc: "Footer_EncodeTo nd c f = Inr e"
    using init nleg nbb ex hm hi rs K65
    by (simp add: Footer_EncodeTo_def assert_then_def bindF_def Let_def e_def K_def hd_def)
  have lo: "DecodeFixed32_at input (int (length input) - int kMagicNumberLengthByte)
              = Inr (ucast ((kExtentBasedTableMagicNumber c) AND 0xffffffff))"
    by (rule magic_lo[where xs = "pre @ hd @ [checksum f] @ mi @ ix @ pad @ PutFixed32 (version f)"])
       (simp add: input_def e_def)
  have hi': "DecodeFixed32_at input (int (length input) - int kMagicNumberLengthByte + 4)
              = Inr (ucast (drop_bit 32 (kExtentBasedTableMagicNumber c)))"
    by (rule magic_hi[where xs = "pre @ hd @ [checksum f] @ mi @ ix @ pad @ PutFixed32 (version f)"])
       (simp add: input_def e_def)
  have vr: "DecodeFixed32_at input (int (length input) - int kMagicNumberLengthByte - 4)
              = Inr (version f)"
    by (rule version_at[where xs = "pre @ hd @ [checksum f] @ mi @ ix @ pad" and m = "kExtentBasedTableMagicNumber c"])
       (simp add: input_def e_def)
  have l1: "kMinEncodedLength \<le> length input"
    and l2: "\<not> length input < K"
    using len_e K65 by (simp_all add: input_def kMinEncodedLength_def kVersion0EncodedLength_def
        BlockHandle_kMaxEncodedLength_def)
  have dr: "drop (length input - K) input
              = PutFixed32 (valid_size f) @ PutFixed64 (next_extent f)
                @ checksum f # (mi @ ix @ tl)"
    using len_e by (simp add: input_def) (simp add: e_def hd_def tl_def)
  have g32: "GetFixed32 (PutFixed32 a @ rest) = Some (a, rest)" for a rest
    by (simp add: GetFixed32_def DecodeFixed32_PutFixed32)
  have g64: "GetFixed64 (PutFixed64 a @ rest) = Some (a, rest)" for a rest
    by (simp add: GetFixed64_def DecodeFixed64_PutFixed64)
  have dh: "Footer_decode_handles g (mi @ ix @ tl)
              = (OK, g\<lparr>metaindex_handle := metaindex_handle f, index_handle := index_handle f\<rparr>, [])"
    for g unfolding mi_def ix_def by (rule Footer_decode_handles_ok)
  have dec: "Footer_DecodeFrom nd c f0 input =
             Inr (OK, f0\<lparr>table_magic_number := (kExtentBasedTableMagicNumber c),
                         version := version f, valid_size := valid_size f,
                         next_extent := next_extent f, checksum := checksum f,
                         metaindex_handle := metaindex_handle f,
                         index_handle := index_handle f\<rparr>, [])"
    using f0 l1 l2 nleg nbb
    by (simp add: Footer_DecodeFrom_def assert_then_def bindF_def Let_def lo hi' vr magic_join
          K_def[symmetric] dr g32 g64 dh GetVarint32_checksum[OF chk] ucast_checksum[OF chk])
  show ?thesis using enc dec by (simp add: input_def)
qed

text \<open>C1. For each of the three footer layouts (legacy, versioned, extent-based) and every
  valid footer, \<open>Footer::DecodeFrom\<close>, applied to a fresh footer and to the bytes that
  \<open>Footer::EncodeTo\<close> produced (possibly preceded by other bytes, as when the reader's
  buffer is longer than the footer), returns OK with the same version, checksum type,
  metaindex handle and index handle, with the magic number upgraded to its canonical one
  when it was a legacy one, and for the extent layout with the same valid_size and
  next_extent.\<close>

theorem Footer_roundtrip:
  assumes "FormatConstants_ok c" and "Footer_valid c f"
    and "\<not> HasInitializedTableMagicNumber f0"
  shows "\<exists>e f'. Footer_EncodeTo nd c f = Inr e
            \<and> Footer_DecodeFrom nd c f0 (pre @ e) = Inr (OK, f', [])
            \<and> Footer_same_fields c f f'"
proof -
  have "IsLegacyFooterFormat c (table_magic_number f)
        \<or> table_magic_number f = kBlockBasedTableMagicNumber
        \<or> table_magic_number f = kExtentBasedTableMagicNumber c"
    using assms(2) by (simp add: Footer_valid_def)
  then consider (legacy) "IsLegacyFooterFormat c (table_magic_number f)"
    | (versioned) "\<not> IsLegacyFooterFormat c (table_magic_number f)"
        "table_magic_number f = kBlockBasedTableMagicNumber"
    | (extent) "\<not> IsLegacyFooterFormat c (table_magic_number f)"
        "table_magic_number f \<noteq> kBlockBasedTableMagicNumber"
        "table_magic_number f = kExtentBasedTableMagicNumber c"
    by blast
  then show ?thesis
  proof cases
    case legacy
    have ne: "table_magic_number f \<noteq> kExtentBasedTableMagicNumber c"
      using legacy assms(1) by (auto simp: IsLegacyFooterFormat_def FormatConstants_ok_def)
    have "version f = 0" "checksum f = kCRC32c"
      using legacy assms(2) by (simp_all add: Footer_valid_def)
    with Footer_roundtrip_legacy[OF assms(1,2) legacy assms(3), of nd pre] ne
    show ?thesis by (auto simp: Footer_same_fields_def)
  next
    case versioned
    have ne: "kBlockBasedTableMagicNumber \<noteq> kExtentBasedTableMagicNumber c"
      using assms(1) by (auto simp: FormatConstants_ok_def)
    have cm: "canonical_magic c kBlockBasedTableMagicNumber = kBlockBasedTableMagicNumber"
      using assms(1) by (auto simp: canonical_magic_def FormatConstants_ok_def)
    from Footer_roundtrip_versioned[OF assms(1,2) versioned(2) assms(3), of nd pre] ne cm versioned
    show ?thesis by (auto simp: Footer_same_fields_def)
  next
    case extent
    have cm: "canonical_magic c (kExtentBasedTableMagicNumber c) = kExtentBasedTableMagicNumber c"
      using assms(1) by (auto simp: canonical_magic_def FormatConstants_ok_def)
    from Footer_roundtrip_extent[OF assms(1,2) extent(3) assms(3), of nd pre] cm extent
    show ?thesis by (auto simp: Footer_same_fields_def)
  qed
qed

lemma example_constants_ok: "FormatConstants_ok example_constants"
  by (simp add: FormatConstants_ok_def example_constants_def kInvalidTableMagicNumber_def
        kLegacyBlockBasedTableMagicNumber_def kBlockBasedTableMagicNumber_def
        BlockHandle_kMaxEncodedLength_def)

lemma Footer_empty_uninitialized: "\<not> HasInitializedTableMagicNumber Footer_empty"
  by (simp add: HasInitializedTableMagicNumber_def Footer_empty_def)

text \<open>The theorem at one footer of each layout, decoded from a buffer of 65 bytes.\<close>

theorem Footer_roundtrip_witness:
  "(\<exists>e f'. Footer_EncodeTo False example_constants
              \<lparr>version = 0, valid_size = 0, next_extent = 0, checksum = kCRC32c,
               metaindex_handle = \<lparr>handle_offset = 1000, handle_size = 77\<rparr>,
               index_handle = \<lparr>handle_offset = 1082, handle_size = 300\<rparr>,
               table_magic_number = kLegacyBlockBasedTableMagicNumber\<rparr> = Inr e
          \<and> length e = 48
          \<and> Footer_DecodeFrom False example_constants Footer_empty (replicate 17 7 @ e)
               = Inr (OK, f', [])
          \<and> table_magic_number f' = kBlockBasedTableMagicNumber \<and> version f' = 0
          \<and> checksum f' = kCRC32c
          \<and> metaindex_handle f' = \<lparr>handle_offset = 1000, handle_size = 77\<rparr>
          \<and> index_handle f' = \<lparr>handle_offset = 1082, handle_size = 300\<rparr>)
   \<and> (\<exists>e f'. Footer_EncodeTo False example_constants
              \<lparr>version = 2, valid_size = 0, next_extent = 0, checksum = kxxHash,
               metaindex_handle = \<lparr>handle_offset = 1000, handle_size = 77\<rparr>,
               index_handle = \<lparr>handle_offset = 1082, handle_size = 300\<rparr>,
               table_magic_number = kBlockBasedTableMagicNumber\<rparr> = Inr e
          \<and> length e = 53
          \<and> Footer_DecodeFrom False example_constants Footer_empty (replicate 12 7 @ e)
               = Inr (OK, f', [])
          \<and> table_magic_number f' = kBlockBasedTableMagicNumber \<and> version f' = 2
          \<and> checksum f' = kxxHash
          \<and> metaindex_handle f' = \<lparr>handle_offset = 1000, handle_size = 77\<rparr>
          \<and> index_handle f' = \<lparr>handle_offset = 1082, handle_size = 300\<rparr>)
   \<and> (\<exists>e f'. Footer_EncodeTo False example_constants
              \<lparr>version = 3, valid_size = 4096, next_extent = 9, checksum = kCRC32c,
               metaindex_handle = \<lparr>handle_offset = 1000, handle_size = 77\<rparr>,
               index_handle = \<lparr>handle_offset = 1082, handle_size = 300\<rparr>,
               table_magic_number = 0x0123456789abcdef\<rparr> = Inr e
          \<and> length e = 65
          \<and> Footer_DecodeFrom False example_constants Footer_empty e = Inr (OK, f', [])
          \<and> table_magic_number f' = 0x0123456789abcdef \<and> version f' = 3
          \<and> valid_size f' = 4096 \<and> next_extent f' = 9
          \<and> checksum f' = kCRC32c
          \<and> metaindex_handle f' = \<lparr>handle_offset = 1000, handle_size = 77\<rparr>
          \<and> index_handle f' = \<lparr>handle_offset = 1082, handle_size = 300\<rparr>)"
proof -
  let ?c = example_constants
  let ?mh = "\<lparr>handle_offset = 1000, handle_size = 77\<rparr> :: BlockHandle"
  let ?ih = "\<lparr>handle_offset = 1082, handle_size = 300\<rparr> :: BlockHandle"
  let ?f1 = "\<lparr>version = 0, valid_size = 0, next_extent = 0, checksum = kCRC32c,
               metaindex_handle = ?mh, index_handle = ?ih,
               table_magic_number = kLegacyBlockBasedTableMagicNumber\<rparr>"
  let ?f2 = "\<lparr>version = 2, valid_size = 0, next_extent = 0, checksum = kxxHash,
               metaindex_handle = ?mh, index_handle = ?ih,
               table_magic_number = kBlockBasedTableMagicNumber\<rparr>"
  let ?f3 = "\<lparr>version = 3, valid_size = 4096, next_extent = 9, checksum = kCRC32c,
               metaindex_handle = ?mh, index_handle = ?ih,
               table_magic_number = 0x0123456789abcdef\<rparr>"
  have v1: "Footer_valid ?c ?f1"
    by (simp add: Footer_valid_def IsLegacyFooterFormat_def BlockHandle_initialized_def)
  have v2: "Footer_valid ?c ?f2"
    by (simp add: Footer_valid_def IsLegacyFooterFormat_def BlockHandle_initialized_def
          example_constants_def kLegacyBlockBasedTableMagicNumber_def
          kBlockBasedTableMagicNumber_def)
  have v3: "Footer_valid ?c ?f3"
    by (simp add: Footer_valid_def IsLegacyFooterFormat_def BlockHandle_initialized_def
          example_constants_def kLegacyBlockBasedTableMagicNumber_def
          kBlockBasedTableMagicNumber_def kCRC32c_def)
  have len: "Footer_EncodeTo False ?c g = Inr e \<Longrightarrow>
      length e = (if IsLegacyFooterFormat ?c (table_magic_number g) then 48
                  else if table_magic_number g = kBlockBasedTableMagicNumber then 53 else 65)"
    for g e
    by (auto simp: Footer_EncodeTo_def assert_then_def bindF_def Let_def
          kVersion0EncodedLength_def kNewVersionsEncodedLength_def
          BlockHandle_kMaxEncodedLength_def example_constants_def
          split: if_splits sum.splits)
  have c1: "canonical_magic ?c kLegacyBlockBasedTableMagicNumber = kBlockBasedTableMagicNumber"
    by (simp add: canonical_magic_def)
  have c2: "canonical_magic ?c kBlockBasedTableMagicNumber = kBlockBasedTableMagicNumber"
    by (simp add: canonical_magic_def example_constants_def kLegacyBlockBasedTableMagicNumber_def
          kBlockBasedTableMagicNumber_def)
  have c3: "canonical_magic ?c 0x0123456789abcdef = 0x0123456789abcdef"
    by (simp add: canonical_magic_def example_constants_def kLegacyBlockBasedTableMagicNumber_def)
  have l1: "IsLegacyFooterFormat ?c kLegacyBlockBasedTableMagicNumber"
    by (simp add: IsLegacyFooterFormat_def)
  have l2: "\<not> IsLegacyFooterFormat ?c kBlockBasedTableMagicNumber"
    by (simp add: IsLegacyFooterFormat_def example_constants_def
          kLegacyBlockBasedTableMagicNumber_def kBlockBasedTableMagicNumber_def)
  have l3: "\<not> IsLegacyFooterFormat ?c 0x0123456789abcdef" "0x0123456789abcdef \<noteq> kBlockBasedTableMagicNumber"
    "kExtentBasedTableMagicNumber ?c = 0x0123456789abcdef"
    by (simp_all add: IsLegacyFooterFormat_def example_constants_def
          kLegacyBlockBasedTableMagicNumber_def kBlockBasedTableMagicNumber_def)
  from Footer_roundtrip[OF example_constants_ok v1 Footer_empty_uninitialized, of False "replicate 17 7"]
  obtain e1 f1' where r1: "Footer_EncodeTo False ?c ?f1 = Inr e1"
    "Footer_DecodeFrom False ?c Footer_empty (replicate 17 7 @ e1) = Inr (OK, f1', [])"
    "Footer_same_fields ?c ?f1 f1'" by blast
  from Footer_roundtrip[OF example_constants_ok v2 Footer_empty_uninitialized, of False "replicate 12 7"]
  obtain e2 f2' where r2: "Footer_EncodeTo False ?c ?f2 = Inr e2"
    "Footer_DecodeFrom False ?c Footer_empty (replicate 12 7 @ e2) = Inr (OK, f2', [])"
    "Footer_same_fields ?c ?f2 f2'" by blast
  from Footer_roundtrip[OF example_constants_ok v3 Footer_empty_uninitialized, of False "[]"]
  obtain e3 f3' where r3: "Footer_EncodeTo False ?c ?f3 = Inr e3"
    "Footer_DecodeFrom False ?c Footer_empty e3 = Inr (OK, f3', [])"
    "Footer_same_fields ?c ?f3 f3'" by auto
  have g1: "length e1 = 48" using len[OF r1(1)] l1 by simp
  have g2: "length e2 = 53" using len[OF r2(1)] l2 by simp
  have g3: "length e3 = 65" using len[OF r3(1)] l3 by simp
  show ?thesis
  proof (intro conjI)
    show "\<exists>e f'. Footer_EncodeTo False ?c ?f1 = Inr e \<and> length e = 48
          \<and> Footer_DecodeFrom False ?c Footer_empty (replicate 17 7 @ e) = Inr (OK, f', [])
          \<and> table_magic_number f' = kBlockBasedTableMagicNumber \<and> version f' = 0
          \<and> checksum f' = kCRC32c \<and> metaindex_handle f' = ?mh \<and> index_handle f' = ?ih"
      using r1 g1 c1 by (intro exI[of _ e1] exI[of _ f1']) (simp add: Footer_same_fields_def)
    show "\<exists>e f'. Footer_EncodeTo False ?c ?f2 = Inr e \<and> length e = 53
          \<and> Footer_DecodeFrom False ?c Footer_empty (replicate 12 7 @ e) = Inr (OK, f', [])
          \<and> table_magic_number f' = kBlockBasedTableMagicNumber \<and> version f' = 2
          \<and> checksum f' = kxxHash \<and> metaindex_handle f' = ?mh \<and> index_handle f' = ?ih"
      using r2 g2 c2 by (intro exI[of _ e2] exI[of _ f2']) (simp add: Footer_same_fields_def)
    show "\<exists>e f'. Footer_EncodeTo False ?c ?f3 = Inr e \<and> length e = 65
          \<and> Footer_DecodeFrom False ?c Footer_empty e = Inr (OK, f', [])
          \<and> table_magic_number f' = 0x0123456789abcdef \<and> version f' = 3
          \<and> valid_size f' = 4096 \<and> next_extent f' = 9
          \<and> checksum f' = kCRC32c \<and> metaindex_handle f' = ?mh \<and> index_handle f' = ?ih"
      using r3 g3 c3 l3 by (intro exI[of _ e3] exI[of _ f3']) (simp add: Footer_same_fields_def)
  qed
qed

section \<open>Footer: an unrecognized magic number\<close>

text \<open>C7. \<open>Footer::DecodeFrom\<close> on an input of at least the minimum footer length whose
  last eight bytes are none of the recognized magic numbers does not return a status at all:
  the last branch calls \<open>abort()\<close> before its \<open>return Status::Corruption("unknown magic")\<close>,
  so the call ends the process, with or without assertions. The claim's Corruption status is
  never produced.\<close>

theorem Footer_DecodeFrom_unknown_magic:
  assumes "\<not> HasInitializedTableMagicNumber f0"
    and "kMinEncodedLength \<le> length (xs @ PutMagic m)"
    and "\<not> IsLegacyFooterFormat c m"
    and "m \<noteq> kBlockBasedTableMagicNumber"
    and "m \<noteq> kExtentBasedTableMagicNumber c"
  shows "Footer_DecodeFrom nd c f0 (xs @ PutMagic m) = Inl ProcessAbort"
proof -
  define input where "input = xs @ PutMagic m"
  have lo: "DecodeFixed32_at input (int (length input) - int kMagicNumberLengthByte)
              = Inr (ucast (m AND 0xffffffff))"
    by (rule magic_lo[where xs = xs]) (simp add: input_def)
  have hi: "DecodeFixed32_at input (int (length input) - int kMagicNumberLengthByte + 4)
              = Inr (ucast (drop_bit 32 m))"
    by (rule magic_hi[where xs = xs]) (simp add: input_def)
  have l: "kMinEncodedLength \<le> length input" using assms(2) by (simp add: input_def)
  have "Footer_DecodeFrom nd c f0 input = Inl ProcessAbort"
    using assms(1,3,4,5) l
    by (simp add: Footer_DecodeFrom_def assert_then_def bindF_def Let_def lo hi magic_join)
  then show ?thesis by (simp add: input_def)
qed

text \<open>The theorem at 48 bytes that end in the magic number 0x1122334455667788.\<close>

theorem Footer_DecodeFrom_unknown_magic_witness:
  "Footer_DecodeFrom False example_constants Footer_empty
     (replicate 40 0 @ [0x88, 0x77, 0x66, 0x55, 0x44, 0x33, 0x22, 0x11]) = Inl ProcessAbort
   \<and> Footer_DecodeFrom True example_constants Footer_empty
     (replicate 40 0 @ [0x88, 0x77, 0x66, 0x55, 0x44, 0x33, 0x22, 0x11]) = Inl ProcessAbort"
proof -
  have pm: "PutMagic 0x1122334455667788 = [0x88, 0x77, 0x66, 0x55, 0x44, 0x33, 0x22, 0x11]"
    by (simp add: PutMagic_def PutFixed32_def)
  have a: "kMinEncodedLength \<le> length (replicate 40 (0::byte) @ PutMagic 0x1122334455667788)"
    by (simp add: kMinEncodedLength_def kVersion0EncodedLength_def BlockHandle_kMaxEncodedLength_def)
  have b: "\<not> IsLegacyFooterFormat example_constants 0x1122334455667788"
    by (simp add: IsLegacyFooterFormat_def example_constants_def kLegacyBlockBasedTableMagicNumber_def)
  have c: "(0x1122334455667788 :: 64 word) \<noteq> kBlockBasedTableMagicNumber"
    by (simp add: kBlockBasedTableMagicNumber_def)
  have d: "(0x1122334455667788 :: 64 word) \<noteq> kExtentBasedTableMagicNumber example_constants"
    by (simp add: example_constants_def)
  show ?thesis
    using Footer_DecodeFrom_unknown_magic[OF Footer_empty_uninitialized a b c d, of False]
      Footer_DecodeFrom_unknown_magic[OF Footer_empty_uninitialized a b c d, of True]
    by (simp add: pm)
qed

section \<open>The partitioned index builder: the statuses of the Finish calls\<close>

lemma example_one_partition_built:
  "PartitionedIndexBuilder_AddIndexEntry False example_index_env PartitionedIndexBuilder_new
     [0x61] None \<lparr>handle_offset = 0, handle_size = 16\<rparr> = Inr (example_one_partition, [0x61])"
  by (simp add: PartitionedIndexBuilder_AddIndexEntry_def PartitionedIndexBuilder_new_def
        MakeNewSubIndexBuilder_def assert_then_def bindF_def
        ShortenedIndexBuilder_AddIndexEntry_def ShortenedIndexBuilder_new_def
        BlockHandle_EncodeTo_def PutVarint64Varint64_def EncodeVarint64.simps
        example_index_env_def example_one_partition_def BlockBuilder_new_def BlockBuilder_Add_def
        Let_def)







text \<open>The two-partition example is what four calls of \<open>AddIndexEntry\<close> build.\<close>

lemma example_two_partitions_built: "PartitionedIndexBuilder_AddIndexEntry False example_index_env PartitionedIndexBuilder_new
     [0x61] (Some [0x62]) \<lparr>handle_offset = 0, handle_size = 16\<rparr> = Inr (p1, k1) \<Longrightarrow>
   PartitionedIndexBuilder_AddIndexEntry False example_index_env p1
     [0x62] (Some [0x63]) \<lparr>handle_offset = 21, handle_size = 16\<rparr> = Inr (p2, k2) \<Longrightarrow>
   PartitionedIndexBuilder_AddIndexEntry False example_index_env p2
     [0x63] (Some [0x64]) \<lparr>handle_offset = 42, handle_size = 16\<rparr> = Inr (p3, k3) \<Longrightarrow>
   PartitionedIndexBuilder_AddIndexEntry False example_index_env p3
     [0x64] None \<lparr>handle_offset = 63, handle_size = 16\<rparr> = Inr (p4, k4) \<Longrightarrow>
   p4 = example_two_partitions"
  by (auto simp add: PartitionedIndexBuilder_AddIndexEntry_def PartitionedIndexBuilder_new_def
        MakeNewSubIndexBuilder_def assert_then_def bindF_def
        ShortenedIndexBuilder_AddIndexEntry_def ShortenedIndexBuilder_new_def
        BlockHandle_EncodeTo_def PutVarint64Varint64_def EncodeVarint64.simps
        example_index_env_def example_two_partitions_def BlockBuilder_new_def BlockBuilder_Add_def
        Let_def)



section \<open>Reading a block\<close>






lemma example_file_verifies:
  "ReadBlock example_checksums example_file (Footer_empty\<lparr>checksum := kCRC32c\<rparr>) True
     \<lparr>handle_offset = 0, handle_size = 3\<rparr> = Inr (OK, [1, 2, 3, 0, 0xde, 0xea, 0x82, 0xa2])"
  by (simp add: ReadBlock_def file_read_def example_file_def example_checksums_def Let_def
        kBlockTrailerSize_def ok_def Footer_empty_def kCRC32c_def)



section \<open>Compressing a block\<close>

lemma CompressBlock_codec:
  assumes "codec_call cd type fv dict raw = Some r"
  shows "CompressBlock cd raw type fv dict co = compressed_or_raw raw type r"
  using assms by (cases type) (auto simp: CompressBlock_def)

lemma CompressBlock_no_codec:
  assumes "codec_call cd type fv dict raw = None"
  shows "CompressBlock cd raw type fv dict co = (raw, kNoCompression, co)"
  using assms by (cases type) (auto simp: CompressBlock_def)

lemma codec_call_type:
  "codec_call cd type fv dict raw = Some r \<Longrightarrow> type \<noteq> kNoCompression"
  by (cases type) auto

text \<open>C4. For every raw block and every selected compression type that has a codec,
  \<open>CompressBlock\<close> returns the raw bytes with \<open>*type\<close> set to kNoCompression exactly when
  the codec reports failure or its output is not smaller than
  \<open>raw_size - raw_size / 8\<close>; otherwise it returns the codec's output and leaves
  \<open>*type\<close> as selected. For the two types without a codec (none, and the disable option)
  it returns the raw bytes with type kNoCompression.\<close>

theorem CompressBlock_fallback:
  "(codec_call cd type fv dict raw = Some (succeeded, out) \<longrightarrow>
      ((CompressBlock cd raw type fv dict co = (raw, kNoCompression, out))
         = (\<not> succeeded \<or> length raw - length raw div 8 \<le> length out))
      \<and> ((CompressBlock cd raw type fv dict co = (out, type, out))
         = (succeeded \<and> length out < length raw - length raw div 8)))
   \<and> (codec_call cd type fv dict raw = None \<longrightarrow>
      CompressBlock cd raw type fv dict co = (raw, kNoCompression, co))"
proof (intro conjI impI)
  assume a: "codec_call cd type fv dict raw = Some (succeeded, out)"
  have t: "type \<noteq> kNoCompression" using a by (rule codec_call_type)
  show "(CompressBlock cd raw type fv dict co = (raw, kNoCompression, out))
         = (\<not> succeeded \<or> length raw - length raw div 8 \<le> length out)"
    using t by (auto simp: CompressBlock_codec[OF a] compressed_or_raw_def GoodCompressionRatio_def)
  show "(CompressBlock cd raw type fv dict co = (out, type, out))
         = (succeeded \<and> length out < length raw - length raw div 8)"
    using t by (auto simp: CompressBlock_codec[OF a] compressed_or_raw_def GoodCompressionRatio_def)
next
  assume "codec_call cd type fv dict raw = None"
  then show "CompressBlock cd raw type fv dict co = (raw, kNoCompression, co)"
    by (rule CompressBlock_no_codec)
qed

text \<open>The theorem at a block of sixteen bytes: the example Snappy halves it, the example
  Zlib does not shrink it, the example BZip2 fails, and no compression is selected.\<close>

theorem CompressBlock_fallback_witness:
  "CompressBlock example_codecs (replicate 16 7) kSnappyCompression 2 [] []
     = (replicate 8 7, kSnappyCompression, replicate 8 7)
   \<and> CompressBlock example_codecs (replicate 16 7) kZlibCompression 2 [] []
     = (replicate 16 7, kNoCompression, replicate 16 7)
   \<and> CompressBlock example_codecs (replicate 16 7) kBZip2Compression 2 [] []
     = (replicate 16 7, kNoCompression, [])
   \<and> CompressBlock example_codecs (replicate 16 7) kNoCompression 2 [] [1]
     = (replicate 16 7, kNoCompression, [1])"
proof -
  have e: "every_second (replicate 16 7) = replicate 8 (7::byte)"
    by (simp add: numeral_eq_Suc)
  have 1: "codec_call example_codecs kSnappyCompression 2 [] (replicate 16 7)
             = Some (True, replicate 8 7)"
    by (simp add: example_codecs_def e)
  have 2: "codec_call example_codecs kZlibCompression 2 [] (replicate 16 7)
             = Some (True, replicate 16 7)"
    by (simp add: example_codecs_def)
  have 3: "codec_call example_codecs kBZip2Compression 2 [] (replicate 16 7) = Some (False, [])"
    by (simp add: example_codecs_def)
  have 4: "codec_call example_codecs kNoCompression 2 [] (replicate 16 7) = None"
    by simp
  show ?thesis
    using CompressBlock_fallback[of example_codecs kSnappyCompression 2 "[]" "replicate 16 7"
            True "replicate 8 7" "[]"] 1
      CompressBlock_fallback[of example_codecs kZlibCompression 2 "[]" "replicate 16 7"
            True "replicate 16 7" "[]"] 2
      CompressBlock_fallback[of example_codecs kBZip2Compression 2 "[]" "replicate 16 7"
            False "[]" "[]"] 3
      CompressBlock_fallback[of example_codecs kNoCompression 2 "[]" "replicate 16 7"
            False "[]" "[1]"] 4
    by simp
qed

section \<open>Writing a raw block\<close>

lemma file_Append_ok:
  assumes "\<forall>s \<in> set (take (Suc n) (append_results f)). ok s"
  shows "fst (file_Append f data) = OK"
    and "written (snd (file_Append f data)) = written f @ data"
    and "\<forall>s \<in> set (take n (append_results (snd (file_Append f data)))). ok s"
  using assms by (auto simp: file_Append_def split: list.splits)

lemma WriteRawBlock_handle:
  "WriteRawBlock env r block_contents type = Inr (handle, r') \<Longrightarrow>
   handle = \<lparr>handle_offset = offset r, handle_size = of_nat (length block_contents)\<rparr>"
  by (auto simp: WriteRawBlock_def Let_def bindF_def assert_then_def
        split: prod.splits if_splits sum.splits)


lemma WriteRawBlock_success:
  assumes io: "\<forall>s \<in> set (take 2 (append_results (file_writer r))). ok s"
    and cache: "block_cache_compressed r = None \<or> type = kNoCompression
                \<or> base_malloc (codecs env) (length block_contents + 1)"
    and ct: "options_checksum (table_options r) = kCRC32c
             \<or> options_checksum (table_options r) = kxxHash"
    and crc: "\<forall>a b. crc32c_Extend (checksums env) (crc32c_Value (checksums env) a) b
                      = crc32c_Value (checksums env) (a @ b)"
  shows "\<exists>r'. WriteRawBlock env r block_contents type
                 = Inr (\<lparr>handle_offset = offset r,
                         handle_size = of_nat (length block_contents)\<rparr>, r')
             \<and> written (file_writer r') = written (file_writer r) @ block_contents
                  @ written_trailer (checksums env) (options_checksum (table_options r))
                      block_contents type
             \<and> offset r' = offset r + of_nat (length block_contents) + 5
             \<and> status r' = OK"
proof -
  obtain s1 f1 where a1: "file_Append (file_writer r) block_contents = (s1, f1)"
    by (cases "file_Append (file_writer r) block_contents")
  have io2: "\<forall>s \<in> set (take (Suc 1) (append_results (file_writer r))). ok s"
    using io by (simp add: numeral_2_eq_2)
  have s1: "s1 = OK" and w1: "written f1 = written (file_writer r) @ block_contents"
    and io1: "\<forall>s \<in> set (take 1 (append_results f1)). ok s"
    using file_Append_ok[OF io2, of block_contents] a1 by simp_all
  define trailer where "trailer = written_trailer (checksums env)
                          (options_checksum (table_options r)) block_contents type"
  obtain s2 f2 where a2: "file_Append f1 trailer = (s2, f2)"
    by (cases "file_Append f1 trailer")
  have io1': "\<forall>s \<in> set (take (Suc 0) (append_results f1)). ok s" using io1 by simp
  have s2: "s2 = OK" and w2: "written f2 = written f1 @ trailer"
    using file_Append_ok[OF io1', of trailer] a2 by simp_all
  have nx: "kCRC32c \<noteq> kxxHash" "kCRC32c \<noteq> kNoChecksum" "kxxHash \<noteq> kNoChecksum"
    by (simp_all add: kCRC32c_def kxxHash_def kNoChecksum_def)
  have "\<exists>r'. WriteRawBlock env r block_contents type
                 = Inr (\<lparr>handle_offset = offset r,
                         handle_size = of_nat (length block_contents)\<rparr>, r')
             \<and> written (file_writer r') = written (file_writer r) @ block_contents @ trailer
             \<and> offset r' = offset r + of_nat (length block_contents) + 5
             \<and> status r' = OK"
    using ct
  proof
    assume c: "options_checksum (table_options r) = kCRC32c"
    have t: "trailer = CompressionType_char type #
               PutFixed32 (crc32c_Mask (checksums env)
                 (crc32c_Extend (checksums env) (crc32c_Value (checksums env) block_contents)
                    [CompressionType_char type]))"
      using crc c nx by (simp add: trailer_def written_trailer_def)
    show ?thesis using cache
      by (auto simp: WriteRawBlock_def Let_def bindF_def a1 s1 ok_def c nx t[symmetric] a2 s2
            w1 w2 InsertBlockInCache_def kBlockTrailerSize_def
            split: option.splits)
  next
    assume c: "options_checksum (table_options r) = kxxHash"
    have t: "trailer = CompressionType_char type #
               PutFixed32 (XXH32_digest (checksums env)
                 (XXH32_update (XXH32_update (XXH32_init 0)
                    (take (unat (of_nat (length block_contents) :: 32 word)) block_contents))
                    [CompressionType_char type]))"
      using c by (simp add: trailer_def written_trailer_def XXH32_digest_def XXH32_update_def
            XXH32_init_def)
    show ?thesis using cache nx
      by (auto simp: WriteRawBlock_def Let_def bindF_def a1 s1 ok_def c t[symmetric] a2 s2
            w1 w2 InsertBlockInCache_def kBlockTrailerSize_def
            split: option.splits)
  qed
  then show ?thesis by (simp add: trailer_def)
qed


lemma example_crc_extend:
  "\<forall>a b. crc32c_Extend (checksums (example_env nd)) (crc32c_Value (checksums (example_env nd)) a) b
                  = crc32c_Value (checksums (example_env nd)) (a @ b)"
  by (simp add: example_env_def example_checksums_def)


section \<open>Writing a block with verification of the compression\<close>

text \<open>C5. When \<open>verify_compression\<close> is on, the block was compressed and the decompression
  of the compressed bytes fails or does not give back the raw block, \<open>WriteBlock\<close> sets the
  builder's status to Corruption and writes the block raw (type kNoCompression), as the
  claim says; but the raw write is \<open>WriteRawBlock\<close>, whose first statement assigns the
  result of the file append to the status. When the appends succeed, the builder's status
  after \<open>WriteBlock\<close> is therefore OK: the Corruption is lost and the fall-back is silent.\<close>

theorem WriteBlock_verification_failure_not_surfaced:
  assumes "ok (status r)"
    and "length raw < kCompressionSizeLimit env"
    and "CompressBlock (codecs env) raw (compression_type r) (format_version (table_options r))
           (dict_for_block r is_data_block) (compressed_output r) = (block_contents, type, out)"
    and "type \<noteq> kNoCompression"
    and "verify_compression (table_options r)"
    and "UncompressBlockContentsForCompressionType (NDEBUG env) (codecs env) block_contents
           BlockContents_empty (format_version (table_options r))
           (dict_for_block r is_data_block) type = Inr (stat, contents)"
    and "\<not> ok stat \<or> contents_data contents \<noteq> raw"
    and "\<forall>s \<in> set (take 2 (append_results (file_writer r))). ok s"
    and "options_checksum (table_options r) = kCRC32c
         \<or> options_checksum (table_options r) = kxxHash"
    and "\<forall>a b. crc32c_Extend (checksums env) (crc32c_Value (checksums env) a) b
                  = crc32c_Value (checksums env) (a @ b)"
  shows "\<exists>handle r'. WriteBlock env r raw is_data_block = Inr (handle, r')
           \<and> status r' = OK
           \<and> written (file_writer r') = written (file_writer r) @ raw
                @ written_trailer (checksums env) (options_checksum (table_options r))
                    raw kNoCompression
           \<and> offset r' = offset r + of_nat (length raw) + 5"
proof -
  define msg where "msg = (if ok stat then ''Decompressed block did not match raw block''
                           else ''Could not decompress'')"
  define r2 where "r2 = r\<lparr>compressed_output := out, status := Corruption msg\<rparr>"
  have io: "\<forall>s \<in> set (take 2 (append_results (file_writer r2))). ok s"
    using assms(8) by (simp add: r2_def)
  have cache: "block_cache_compressed r2 = None \<or> kNoCompression = kNoCompression
               \<or> base_malloc (codecs env) (length raw + 1)" by simp
  have ct: "options_checksum (table_options r2) = kCRC32c
            \<or> options_checksum (table_options r2) = kxxHash"
    using assms(9) by (simp add: r2_def)
  from WriteRawBlock_success[OF io cache ct assms(10)]
  obtain r3 where w: "WriteRawBlock env r2 raw kNoCompression
                 = Inr (\<lparr>handle_offset = offset r2, handle_size = of_nat (length raw)\<rparr>, r3)"
    and r3: "written (file_writer r3) = written (file_writer r2) @ raw
                  @ written_trailer (checksums env) (options_checksum (table_options r2))
                      raw kNoCompression"
      "offset r3 = offset r2 + of_nat (length raw) + 5" "status r3 = OK"
    by blast
  have d: "(case compression_dict r of None \<Rightarrow> []
           | Some d \<Rightarrow> if is_data_block \<and> d \<noteq> [] then d else [])
           = dict_for_block r is_data_block"
    by (simp add: dict_for_block_def split: option.splits)
  have "WriteBlock env r raw is_data_block
          = Inr (\<lparr>handle_offset = offset r2, handle_size = of_nat (length raw)\<rparr>,
                 r3\<lparr>compressed_output := []\<rparr>)"
    using assms(1,2,4,5,7) w
    by (auto simp: WriteBlock_def assert_then_def bindF_def Let_def d assms(3) assms(6)
          r2_def msg_def)
  then show ?thesis using r3 by (auto simp: r2_def)
qed

text \<open>The theorem at a new builder with verification on and at a block of sixteen bytes:
  with the example LZ4, whose output cannot be decompressed, and with the example Snappy,
  whose output decompresses to other bytes. In both runs the appends succeed and the status
  after \<open>WriteBlock\<close> is OK.\<close>

theorem WriteBlock_verification_failure_not_surfaced_witness:
  "(\<exists>handle r'. WriteBlock (example_env False) (example_builder False kLZ4Compression [])
                   (replicate 16 7) True = Inr (handle, r')
        \<and> status r' = OK
        \<and> written (file_writer r') = replicate 16 7 @ [0, 0x48, 0xeb, 0x82, 0xa2])
   \<and> (\<exists>handle r'. WriteBlock (example_env False) (example_builder False kSnappyCompression [])
                   [1, 2, 3, 4, 5, 6, 7, 8, 9, 10, 11, 12, 13, 14, 15, 16] True = Inr (handle, r')
        \<and> status r' = OK
        \<and> written (file_writer r') = [1, 2, 3, 4, 5, 6, 7, 8, 9, 10, 11, 12, 13, 14, 15, 16]
                                        @ [0, 0x60, 0xeb, 0x82, 0xa2])"
proof -
  let ?env = "example_env False"
  let ?r1 = "example_builder False kLZ4Compression []"
  let ?r2 = "example_builder False kSnappyCompression []"
  let ?raw1 = "replicate 16 7 :: bytes"
  let ?raw2 = "[1, 2, 3, 4, 5, 6, 7, 8, 9, 10, 11, 12, 13, 14, 15, 16] :: bytes"
  note defs = example_builder_def BlockBasedTableBuilder_new_def sanitized_table_options_def
    example_table_options_def example_env_def example_codecs_def example_checksums_def
    dict_for_block_def
  have a1: "ok (status ?r1)" "ok (status ?r2)" by (simp_all add: defs ok_def)
  have a2: "length ?raw1 < kCompressionSizeLimit ?env" "length ?raw2 < kCompressionSizeLimit ?env"
    by (simp_all add: defs)
  have a3: "CompressBlock (codecs ?env) ?raw1 (compression_type ?r1)
              (format_version (table_options ?r1)) (dict_for_block ?r1 True) (compressed_output ?r1)
            = (replicate 8 7, kLZ4Compression, replicate 8 7)"
    by (simp add: defs CompressBlock_def compressed_or_raw_def GoodCompressionRatio_def)
  have b3: "CompressBlock (codecs ?env) ?raw2 (compression_type ?r2)
              (format_version (table_options ?r2)) (dict_for_block ?r2 True) (compressed_output ?r2)
            = ([1, 3, 5, 7, 9, 11, 13, 15], kSnappyCompression, [1, 3, 5, 7, 9, 11, 13, 15])"
    by (simp add: defs CompressBlock_def compressed_or_raw_def GoodCompressionRatio_def)
  have a5: "verify_compression (table_options ?r1)" "verify_compression (table_options ?r2)"
    by (simp_all add: defs)
  have a6: "UncompressBlockContentsForCompressionType (NDEBUG ?env) (codecs ?env) (replicate 8 7)
           BlockContents_empty (format_version (table_options ?r1))
           (dict_for_block ?r1 True) kLZ4Compression
           = Inr (Corruption ''LZ4 not supported or corrupted LZ4 compressed block contents'',
                  BlockContents_empty)"
    by (simp add: defs UncompressBlockContentsForCompressionType_def assert_then_def
          uncompressed_or_corrupt_def)
  have b6: "UncompressBlockContentsForCompressionType (NDEBUG ?env) (codecs ?env)
           [1, 3, 5, 7, 9, 11, 13, 15]
           BlockContents_empty (format_version (table_options ?r2))
           (dict_for_block ?r2 True) kSnappyCompression
           = Inr (OK, \<lparr>contents_data = [1, 1, 3, 3, 5, 5, 7, 7, 9, 9, 11, 11, 13, 13, 15, 15],
                       contents_compression_type = kNoCompression\<rparr>)"
    by (simp add: defs UncompressBlockContentsForCompressionType_def assert_then_def
          uncompressed_or_corrupt_def)
  have a7: "\<not> ok (Corruption ''LZ4 not supported or corrupted LZ4 compressed block contents'')
            \<or> contents_data BlockContents_empty \<noteq> ?raw1"
    by (simp add: ok_def)
  have b7: "\<not> ok OK \<or> contents_data \<lparr>contents_data = [1, 1, 3, 3, 5, 5, 7, 7, 9, 9, 11, 11, 13, 13, 15, 15],
                       contents_compression_type = kNoCompression\<rparr> \<noteq> ?raw2"
    by simp
  have a8: "\<forall>s \<in> set (take 2 (append_results (file_writer ?r1))). ok s"
    "\<forall>s \<in> set (take 2 (append_results (file_writer ?r2))). ok s"
    by (simp_all add: defs)
  have a9: "options_checksum (table_options ?r1) = kCRC32c
         \<or> options_checksum (table_options ?r1) = kxxHash"
    "options_checksum (table_options ?r2) = kCRC32c
         \<or> options_checksum (table_options ?r2) = kxxHash"
    by (simp_all add: defs)
  have t1: "written_trailer (checksums ?env) (options_checksum (table_options ?r1)) ?raw1 kNoCompression
            = [0, 0x48, 0xeb, 0x82, 0xa2]"
    by (simp add: defs written_trailer_def kCRC32c_def kxxHash_def PutFixed32_def
          sum_list_replicate)
  have t2: "written_trailer (checksums ?env) (options_checksum (table_options ?r2)) ?raw2 kNoCompression
            = [0, 0x60, 0xeb, 0x82, 0xa2]"
    by (simp add: defs written_trailer_def kCRC32c_def kxxHash_def PutFixed32_def)
  have w: "written (file_writer ?r1) = []" "written (file_writer ?r2) = []"
    by (simp_all add: defs)
  have 1: "\<exists>handle r'. WriteBlock ?env ?r1 ?raw1 True = Inr (handle, r')
        \<and> status r' = OK
        \<and> written (file_writer r') = ?raw1 @ [0, 0x48, 0xeb, 0x82, 0xa2]"
    using WriteBlock_verification_failure_not_surfaced[OF a1(1) a2(1) a3 _ a5(1) a6 a7 a8(1) a9(1)
            example_crc_extend]
    by (simp add: t1 w) blast
  have 2: "\<exists>handle r'. WriteBlock ?env ?r2 ?raw2 True = Inr (handle, r')
        \<and> status r' = OK
        \<and> written (file_writer r') = ?raw2 @ [0, 0x60, 0xeb, 0x82, 0xa2]"
    using WriteBlock_verification_failure_not_surfaced[OF a1(2) a2(2) b3 _ a5(2) b6 b7 a8(2) a9(2)
            example_crc_extend]
    by (simp add: t2 w) blast
  show ?thesis using 1 2 by blast
qed

section \<open>The builder after an error has been latched\<close>

lemma Add_latched:
  assumes "\<not> ok (status r)" and "NDEBUG env \<or> \<not> closed r"
  shows "Add env r key val = Inr (status r, r)"
  using assms by (auto simp: Add_def assert_then_def)

lemma Flush_latched:
  assumes "\<not> ok (status r)" and "NDEBUG env \<or> \<not> closed r"
  shows "Flush env r = Inr r"
  using assms by (auto simp: Flush_def assert_then_def)

text \<open>\<open>Finish\<close> after a latched error, when the index builder hands out no meta blocks:
  nothing is written, and the latched status is returned.\<close>

lemma Finish_latched_no_meta_blocks:
  assumes "\<not> ok (status r)" and "NDEBUG env \<or> \<not> closed r"
    and "ib_Finish env (index_builder r) IndexBlocks_new BlockHandle_uninitialized
           = Inr (s, index_blocks, ib)"
    and "ok s \<or> IsIncomplete s" and "meta_blocks index_blocks = []"
  shows "Finish fuel env r
           = Inr (status r, r\<lparr>closed := True, first_key := [], index_builder := ib\<rparr>)"
proof -
  define r6 where "r6 = r\<lparr>closed := True, first_key := [], index_builder := ib\<rparr>"
  have n: "\<not> ok (status r6)" using assms(1) by (simp add: r6_def)
  have f: "Flush env r = Inr r" using assms(1,2) by (rule Flush_latched)
  have m: "Finish_meta env r6 [] h = Inr ([], r6)" for h
    using n by (simp add: Finish_meta_def)
  have i: "Finish_index fuel env r6 [] index_blocks s
             = Inr (None, BlockHandle_uninitialized, BlockHandle_uninitialized, r6)"
    using n by (simp add: Finish_index_def)
  have ft: "Finish_footer env r6 h1 h2 = Inr r6" for h1 h2
    using n by (simp add: Finish_footer_def)
  have c: "(if \<not> IsIncomplete s \<and> \<not> ok s then a else b) = b" for a b :: "'z"
    using assms(4) by auto
  have "Finish fuel env r = Inr (status r6, r6)"
    using assms(1,2,4)
    by (simp add: Finish_def Finish_blocks_def Let_def bindF_def f assert_then_def assms(3) assms(5) c
          r6_def[symmetric] m i ft) blast
  then show ?thesis by (simp add: r6_def)
qed

text \<open>C9. \<open>Add\<close> and \<open>Flush\<close> are no-ops once a non-OK status is latched (the two lemmas
  above), and so are the steps of \<open>Finish\<close> that stand under \<open>if (ok())\<close>. The loop over
  \<open>index_blocks.meta_blocks\<close> does not stand under it: when the index builder hands out a
  meta block, as the hash index builder does, \<open>Finish\<close> calls \<open>WriteBlock\<close> with the error
  latched. \<open>WriteBlock\<close> starts with \<open>assert(ok())\<close>, so with assertions the process stops
  there; without them the block is appended to the file and the latched status is overwritten
  by the result of the append.\<close>

theorem Finish_latched_error_reaches_WriteBlock:
  assumes "\<not> ok (status r)" and "\<not> closed r" and "\<not> NDEBUG env"
    and "ib_Finish env (index_builder r) IndexBlocks_new BlockHandle_uninitialized
           = Inr (s, index_blocks, ib)"
    and "ok s" and "meta_blocks index_blocks \<noteq> []"
  shows "Finish fuel env r = Inl AssertionFailed"
proof -
  obtain item items where m: "meta_blocks index_blocks = item # items"
    using assms(6) by (cases "meta_blocks index_blocks") auto
  have w: "WriteBlock env (r\<lparr>closed := True, first_key := [], index_builder := ib\<rparr>)
             (snd item) False = Inl AssertionFailed"
    using assms(1,3) by (simp add: WriteBlock_def assert_then_def)
  have f: "Flush env r = Inr r" using assms(1,2) by (simp add: Flush_latched)
  show ?thesis
    using assms(1,2,3,5)
    by (simp add: Finish_def Finish_blocks_def Let_def bindF_def f assert_then_def assms(4) m w ok_def
          IsIncomplete_def)
qed

lemmas example_defs = example_builder_def BlockBasedTableBuilder_new_def
  sanitized_table_options_def example_table_options_def example_env_def example_codecs_def
  example_checksums_def example_index_env_def example_ioptions_def example_constants_def
  BlockBuilder_new_def TableProperties_new_def BlockHandle_uninitialized_def

lemma example_three_adds_latch:
  "\<exists>r. example_three_adds nd = Inr (OK, r) \<and> status r = IOError ''disk full''
       \<and> \<not> closed r \<and> written (file_writer r) = [] \<and> offset r = 0
       \<and> index_builder r = ([(''prefixes'', [])], \<lparr>added = []\<rparr>)"
  by (simp add: example_three_adds_def example_defs Add_def Flush_def WriteBlock_data_block_def
        BlockBuilder_empty_def BlockBuilder_Add_def BlockBuilder_Reset_def
        WriteBlock_def WriteRawBlock_def assert_then_def bindF_def Let_def
        CompressBlock_def file_Append_def ok_def)

lemma Finish_release_example:
  "(case bindF (example_three_adds True) (\<lambda>(c, r). Finish 1 (example_env True) r) of
      Inl e \<Rightarrow> False
    | Inr (code, r') \<Rightarrow> code = OK \<and> status r' = OK \<and> offset r' = 76
        \<and> written (file_writer r') =
            [0, 0xd8, 0xea, 0x82, 0xa2] @ [3, 1, 0, 0xdc, 0xea, 0x82, 0xa2]
            @ [2, 0, 0xda, 0xea, 0x82, 0xa2] @ [0, 0xd8, 0xea, 0x82, 0xa2]
            @ [1, 12, 1, 18, 0] @ replicate 36 0 @ [2, 0, 0, 0]
            @ [0xf7, 0xcf, 0xf4, 0x85, 0xb7, 0x41, 0xe2, 0x88])"
  by (simp add: example_three_adds_def Add_def WriteBlock_data_block_def
        BlockBuilder_Add_def BlockBuilder_Reset_def
        example_defs Finish_def Finish_blocks_def Flush_def Finish_meta_def Finish_index_def Finish_footer_def
        builder_footer_def Footer_new_def Footer_EncodeTo_def BlockHandle_EncodeTo_def
        PutVarint64Varint64_def EncodeVarint64.simps resize_def PutMagic_def
        IsLegacyFooterFormat_def HasInitializedTableMagicNumber_def
        kBlockBasedTableMagicNumber_def kLegacyBlockBasedTableMagicNumber_def
        kInvalidTableMagicNumber_def kNewVersionsEncodedLength_def
        BlockHandle_kMaxEncodedLength_def BlockBuilder_empty_def IndexBlocks_new_def
        IsIncomplete_def name_or_nullptr_def
        WriteBlock_def WriteRawBlock_def assert_then_def bindF_def Let_def
        CompressBlock_def file_Append_def ok_def InsertBlockInCache_def kCRC32c_def
        kNoChecksum_def kxxHash_def PutFixed32_def kBlockTrailerSize_def)

text \<open>The theorem at the builder whose first append failed during the third \<open>Add\<close>: with
  assertions \<open>Finish\<close> stops at the assertion of \<open>WriteBlock\<close>. Without them
  \<open>Finish\<close> returns OK and has written 76 bytes: the meta block, the properties, the
  meta-index, the index and the footer of a table that holds none of the three entries.\<close>

theorem Finish_latched_error_reaches_WriteBlock_witness:
  "(\<exists>r. example_three_adds False = Inr (OK, r) \<and> status r = IOError ''disk full''
        \<and> Finish 1 (example_env False) r = Inl AssertionFailed)
   \<and> (case bindF (example_three_adds True) (\<lambda>(c, r). Finish 1 (example_env True) r) of
         Inl e \<Rightarrow> False
       | Inr (code, r') \<Rightarrow> code = OK \<and> status r' = OK \<and> offset r' = 76
           \<and> length (written (file_writer r')) = 76)"
proof -
  obtain r where r: "example_three_adds False = Inr (OK, r)" "status r = IOError ''disk full''"
    "\<not> closed r" "index_builder r = ([(''prefixes'', [])], \<lparr>added = []\<rparr>)"
    using example_three_adds_latch[of False] by blast
  have a: "\<not> ok (status r)" using r(2) by (simp add: ok_def)
  have n: "\<not> NDEBUG (example_env False)" by (simp add: example_env_def)
  have f: "ib_Finish (example_env False) (index_builder r) IndexBlocks_new BlockHandle_uninitialized
             = Inr (OK, \<lparr>index_block_contents = [], meta_blocks = [(''prefixes'', [])]\<rparr>,
                    ([(''prefixes'', [])], \<lparr>added = []\<rparr>))"
    by (simp add: r(4) example_env_def example_index_env_def IndexBlocks_new_def)
  have 1: "Finish 1 (example_env False) r = Inl AssertionFailed"
    by (rule Finish_latched_error_reaches_WriteBlock[OF a r(3) n f]) (simp_all add: ok_def)
  have 2: "(case bindF (example_three_adds True) (\<lambda>(c, r). Finish 1 (example_env True) r) of
         Inl e \<Rightarrow> False
       | Inr (code, r') \<Rightarrow> code = OK \<and> status r' = OK \<and> offset r' = 76
           \<and> length (written (file_writer r')) = 76)"
    using Finish_release_example by (auto split: sum.splits)
  show ?thesis using r(1,2) 1 2 by blast
qed

section \<open>The options of the builder and the footer it writes\<close>

text \<open>No method of the builder changes \<open>table_options\<close> (a const member in the source).\<close>

lemma InsertBlockInCache_table_options:
  "InsertBlockInCache env r c t h = (s, r') \<Longrightarrow> table_options r' = table_options r"
  by (auto simp: InsertBlockInCache_def Let_def split: option.splits if_splits)

lemma WriteRawBlock_table_options:
  "WriteRawBlock env r c t = Inr (h, r') \<Longrightarrow> table_options r' = table_options r"
  by (auto simp: WriteRawBlock_def Let_def bindF_def assert_then_def
        split: prod.splits if_splits sum.splits
        dest!: InsertBlockInCache_table_options)

lemma WriteBlock_table_options:
  "WriteBlock env r raw d = Inr (h, r') \<Longrightarrow> table_options r' = table_options r"
  by (auto simp: WriteBlock_def Let_def bindF_def assert_then_def
        split: prod.splits if_splits sum.splits
        dest!: WriteRawBlock_table_options)

lemma Flush_table_options:
  "Flush env r = Inr r' \<Longrightarrow> table_options r' = table_options r"
  by (auto simp: Flush_def WriteBlock_data_block_def Let_def bindF_def assert_then_def
        split: prod.splits if_splits sum.splits option.splits
        dest!: WriteBlock_table_options)

lemma Add_table_options:
  "Add env r k v = Inr (code, r') \<Longrightarrow> table_options r' = table_options r"
  by (auto simp: Add_def Let_def bindF_def assert_then_def
        split: prod.splits if_splits sum.splits option.splits
        dest!: Flush_table_options)


lemma filter_loop_table_options:
  "filter_loop n env r h = Inr (h', r') \<Longrightarrow> table_options r' = table_options r"
proof (induction n arbitrary: r h)
  case 0
  then show ?case by simp
next
  case (Suc n)
  from Suc.prems show ?case
    by (auto simp: Let_def bindF_def assert_then_def
          split: prod.splits if_splits sum.splits option.splits
          dest!: WriteRawBlock_table_options Suc.IH)
qed

lemma write_meta_blocks_table_options:
  "write_meta_blocks env r items acc = Inr (m, r') \<Longrightarrow> table_options r' = table_options r"
proof (induction items arbitrary: r acc)
  case Nil
  then show ?case by simp
next
  case (Cons item items)
  from Cons.prems show ?case
    by (auto simp: bindF_def split: sum.splits prod.splits
          dest!: WriteBlock_table_options Cons.IH)
qed

lemma Finish_meta_table_options:
  "Finish_meta env r m h = Inr (m', r') \<Longrightarrow> table_options r' = table_options r"
  by (auto simp: Finish_meta_def Let_def bindF_def
        split: prod.splits if_splits sum.splits option.splits
        dest!: WriteRawBlock_table_options)

lemma index_loop_table_options:
  "index_loop n env r b h s = Inr (e, h', r') \<Longrightarrow> table_options r' = table_options r"
proof (induction n arbitrary: r b h s)
  case 0
  then show ?case by (auto split: if_splits)
next
  case (Suc n)
  from Suc.prems show ?case
    by (auto simp: Let_def bindF_def
          split: prod.splits if_splits sum.splits
          dest!: WriteBlock_table_options Suc.IH)
qed

lemma Finish_index_table_options:
  "Finish_index n env r m b s = Inr (e, mh, ih, r') \<Longrightarrow> table_options r' = table_options r"
  by (auto simp: Finish_index_def bindF_def
        split: prod.splits if_splits sum.splits
        dest!: WriteRawBlock_table_options WriteBlock_table_options index_loop_table_options)

lemma Finish_blocks_table_options:
  "Finish_blocks n env r = Inr (e, mh, ih, r') \<Longrightarrow> table_options r' = table_options r"
  by (auto simp: Finish_blocks_def Let_def bindF_def assert_then_def
        split: prod.splits if_splits sum.splits
        dest!: Flush_table_options filter_loop_table_options write_meta_blocks_table_options
          Finish_meta_table_options Finish_index_table_options)

lemma sanitized_legacy_crc:
  "format_version (sanitized_table_options topts) = 0 \<Longrightarrow>
   options_checksum (sanitized_table_options topts) = kCRC32c"
  by (auto simp: sanitized_table_options_def split: if_splits)

lemma builder_footer_sanitized:
  assumes c: "FormatConstants_ok c"
  shows "\<exists>footer. builder_footer nd c (sanitized_table_options topts) mh ih = Inr footer
           \<and> (if IsLegacyFooterFormat c (table_magic_number footer)
               then checksum footer = kCRC32c
                    \<and> format_version (sanitized_table_options topts) = 0
               else format_version (sanitized_table_options topts) \<noteq> 0)
           \<and> (if nd \<or> (BlockHandle_initialized mh \<and> BlockHandle_initialized ih)
               then \<exists>e. Footer_EncodeTo nd c footer = Inr e else True)"
proof (cases "format_version (sanitized_table_options topts) = 0")
  case True
  have crc: "options_checksum (sanitized_table_options topts) = kCRC32c"
    using True by (rule sanitized_legacy_crc)
  have leg: "IsLegacyFooterFormat c kLegacyBlockBasedTableMagicNumber"
    by (simp add: IsLegacyFooterFormat_def)
  have ne: "kLegacyBlockBasedTableMagicNumber \<noteq> kInvalidTableMagicNumber"
    by (simp add: kLegacyBlockBasedTableMagicNumber_def kInvalidTableMagicNumber_def)
  show ?thesis
    using True crc leg ne
    by (auto simp: builder_footer_def Footer_new_def assert_then_def bindF_def Let_def
          Footer_EncodeTo_def HasInitializedTableMagicNumber_def BlockHandle_EncodeTo_ok
          kVersion0EncodedLength_def)
next
  case False
  have nleg: "\<not> IsLegacyFooterFormat c kBlockBasedTableMagicNumber"
    using c by (auto simp: FormatConstants_ok_def IsLegacyFooterFormat_def)
  have ne: "kBlockBasedTableMagicNumber \<noteq> kInvalidTableMagicNumber"
    by (simp add: kBlockBasedTableMagicNumber_def kInvalidTableMagicNumber_def)
  show ?thesis
    using False nleg ne
    by (auto simp: builder_footer_def Footer_new_def assert_then_def bindF_def Let_def
          Footer_EncodeTo_def HasInitializedTableMagicNumber_def BlockHandle_EncodeTo_ok
          kNewVersionsEncodedLength_def BlockHandle_kMaxEncodedLength_def)
qed

text \<open>C10. The constructor replaces format_version 0 by 1 when the checksum type is not
  CRC32c, and no method of the builder changes the options afterwards. So whenever the footer
  that \<open>Finish\<close> makes has a legacy magic number, its checksum type is CRC32c; the assertion
  of \<open>Finish\<close> before the footer, the one of the footer's constructor and the ones of
  \<open>Footer::EncodeTo\<close> all hold (the handles being the ones of blocks written), and the
  footer is encoded.\<close>

theorem builder_legacy_footer_has_CRC32c:
  assumes "FormatConstants_ok c"
    and "table_options r = sanitized_table_options topts"
  shows "table_options (BlockBasedTableBuilder_new env iopts topts ib fb pc cf_id f ctype cdict
                          cache prefix skip_filters cf_name) = sanitized_table_options topts
       \<and> (format_version topts = 0 \<and> options_checksum topts \<noteq> kCRC32c
            \<longrightarrow> format_version (sanitized_table_options topts) = 1)
       \<and> (\<forall>early mh ih r9. Finish_blocks fuel env r = Inr (early, mh, ih, r9)
            \<longrightarrow> table_options r9 = sanitized_table_options topts)
       \<and> (\<exists>footer. builder_footer nd c (table_options r) metaindex_block_handle
                      index_block_handle = Inr footer
            \<and> (IsLegacyFooterFormat c (table_magic_number footer)
                  \<longrightarrow> checksum footer = kCRC32c)
            \<and> (nd \<or> (BlockHandle_initialized metaindex_block_handle
                       \<and> BlockHandle_initialized index_block_handle)
                  \<longrightarrow> (\<exists>e. Footer_EncodeTo nd c footer = Inr e)))"
proof (intro conjI)
  show "table_options (BlockBasedTableBuilder_new env iopts topts ib fb pc cf_id f ctype cdict
                          cache prefix skip_filters cf_name) = sanitized_table_options topts"
    by (simp add: BlockBasedTableBuilder_new_def)
  show "format_version topts = 0 \<and> options_checksum topts \<noteq> kCRC32c
            \<longrightarrow> format_version (sanitized_table_options topts) = 1"
    by (simp add: sanitized_table_options_def)
  show "\<forall>early mh ih r9. Finish_blocks fuel env r = Inr (early, mh, ih, r9)
            \<longrightarrow> table_options r9 = sanitized_table_options topts"
    using Finish_blocks_table_options assms(2) by metis
  from builder_footer_sanitized[OF assms(1), of nd topts metaindex_block_handle index_block_handle]
  obtain footer where f: "builder_footer nd c (sanitized_table_options topts)
        metaindex_block_handle index_block_handle = Inr footer"
    "if IsLegacyFooterFormat c (table_magic_number footer)
               then checksum footer = kCRC32c
                    \<and> format_version (sanitized_table_options topts) = 0
               else format_version (sanitized_table_options topts) \<noteq> 0"
    "if nd \<or> (BlockHandle_initialized metaindex_block_handle
                 \<and> BlockHandle_initialized index_block_handle)
               then \<exists>e. Footer_EncodeTo nd c footer = Inr e else True"
    by blast
  show "\<exists>footer. builder_footer nd c (table_options r) metaindex_block_handle
                      index_block_handle = Inr footer
            \<and> (IsLegacyFooterFormat c (table_magic_number footer)
                  \<longrightarrow> checksum footer = kCRC32c)
            \<and> (nd \<or> (BlockHandle_initialized metaindex_block_handle
                       \<and> BlockHandle_initialized index_block_handle)
                  \<longrightarrow> (\<exists>e. Footer_EncodeTo nd c footer = Inr e))"
    using f assms(2) by (intro exI[of _ footer]) (auto split: if_splits)
qed

lemma example_legacy_builder_options:
  "table_options (example_legacy_builder cs) = sanitized_table_options (example_legacy_options cs)"
  by (simp add: example_legacy_builder_def BlockBasedTableBuilder_new_def)

text \<open>The theorem at two builders made with format_version 0. With xxHash the builder has
  format_version 1 and its footer is the versioned one, with the checksum type xxHash. With
  CRC32c the footer is the legacy one, with CRC32c. Both are encoded with assertions on.\<close>

theorem builder_legacy_footer_has_CRC32c_witness:
  "FormatConstants_ok example_constants
   \<and> format_version (example_legacy_options kxxHash) = 0
   \<and> format_version (table_options (example_legacy_builder kxxHash)) = 1
   \<and> (\<exists>footer e.
         builder_footer False example_constants (table_options (example_legacy_builder kxxHash))
           \<lparr>handle_offset = 0, handle_size = 10\<rparr> \<lparr>handle_offset = 15, handle_size = 20\<rparr>
           = Inr footer
         \<and> Footer_EncodeTo False example_constants footer = Inr e
         \<and> table_magic_number footer = kBlockBasedTableMagicNumber
         \<and> version footer = 1 \<and> checksum footer = kxxHash)
   \<and> (\<exists>footer e.
         builder_footer False example_constants (table_options (example_legacy_builder kCRC32c))
           \<lparr>handle_offset = 0, handle_size = 10\<rparr> \<lparr>handle_offset = 15, handle_size = 20\<rparr>
           = Inr footer
         \<and> Footer_EncodeTo False example_constants footer = Inr e
         \<and> table_magic_number footer = kLegacyBlockBasedTableMagicNumber
         \<and> IsLegacyFooterFormat example_constants (table_magic_number footer)
         \<and> version footer = 0 \<and> checksum footer = kCRC32c)"
proof -
  let ?mh = "\<lparr>handle_offset = 0, handle_size = 10\<rparr>"
  let ?ih = "\<lparr>handle_offset = 15, handle_size = 20\<rparr>"
  have init: "BlockHandle_initialized ?mh" "BlockHandle_initialized ?ih"
    by (simp_all add: BlockHandle_initialized_def)
  have fv0: "format_version (example_legacy_options kxxHash) = 0"
    "options_checksum (example_legacy_options kxxHash) \<noteq> kCRC32c"
    by (simp_all add: example_legacy_options_def kxxHash_def kCRC32c_def)
  note x = builder_legacy_footer_has_CRC32c[OF example_constants_ok
      example_legacy_builder_options[of kxxHash],
      where nd = False and metaindex_block_handle = ?mh and index_block_handle = ?ih]
  note y = builder_legacy_footer_has_CRC32c[OF example_constants_ok
      example_legacy_builder_options[of kCRC32c],
      where nd = False and metaindex_block_handle = ?mh and index_block_handle = ?ih]
  note x2 = x[THEN conjunct2, THEN conjunct1]
  note x4 = x[THEN conjunct2, THEN conjunct2, THEN conjunct2]
  note y4 = y[THEN conjunct2, THEN conjunct2, THEN conjunct2]
  have fv1: "format_version (table_options (example_legacy_builder kxxHash)) = 1"
    using x2 fv0 by (simp add: example_legacy_builder_options)
  obtain fx ex where fx:
    "builder_footer False example_constants (table_options (example_legacy_builder kxxHash))
       ?mh ?ih = Inr fx" "Footer_EncodeTo False example_constants fx = Inr ex"
    using x4 init by blast
  obtain fy ey where fy:
    "builder_footer False example_constants (table_options (example_legacy_builder kCRC32c))
       ?mh ?ih = Inr fy" "Footer_EncodeTo False example_constants fy = Inr ey"
    "IsLegacyFooterFormat example_constants (table_magic_number fy) \<longrightarrow> checksum fy = kCRC32c"
    using y4 init by blast
  have vx: "table_magic_number fx = kBlockBasedTableMagicNumber \<and> version fx = 1
              \<and> checksum fx = kxxHash"
    using fx(1)
    by (auto simp: example_legacy_builder_options sanitized_table_options_def
          example_legacy_options_def example_table_options_def builder_footer_def
          Footer_new_def assert_then_def bindF_def Let_def kxxHash_def kCRC32c_def
          split: if_splits)
  have vy: "table_magic_number fy = kLegacyBlockBasedTableMagicNumber \<and> version fy = 0"
    using fy(1)
    by (auto simp: example_legacy_builder_options sanitized_table_options_def
          example_legacy_options_def example_table_options_def builder_footer_def
          Footer_new_def assert_then_def bindF_def Let_def kxxHash_def kCRC32c_def
          split: if_splits)
  have ly: "IsLegacyFooterFormat example_constants (table_magic_number fy)"
    using vy by (simp add: IsLegacyFooterFormat_def)
  show ?thesis
    using example_constants_ok fv0(1) fv1 fx fy vx vy ly by blast
qed

end
